theory Spec2Isabelle
  imports Main "HOL-Library.Sublist"
begin

section \<open>Python strings\<close>

text \<open>
  Text is a list of 8-bit characters: the UTF-8 encoding of the Python string, in which a
  character of the string takes one to four bytes. A byte below \<open>0x80\<close> is an ASCII
  character; beyond ASCII a character is a lead byte of \<open>0xC0\<close> or more, whose high bits
  announce the length of the sequence, followed by continuation bytes (\<open>0x80\<close> to
  \<open>0xBF\<close>). The search for a text inside another one and the count of its occurrences
  give on the encodings what they give on the strings; \<open>upper\<close> and \<open>strip\<close> work
  character by character and are modelled on the sequences.
\<close>

definition nl :: string where
  "nl = [CHR 0x0A]"

definition is_ascii :: "char \<Rightarrow> bool" where
  "is_ascii c = (\<not> digit7 c)"

text \<open>The length of the sequence that starts with the byte \<open>c\<close>.\<close>

definition utf8_len :: "char \<Rightarrow> nat" where
  "utf8_len c =
     (if \<not> digit7 c \<or> \<not> digit6 c then 1
      else if \<not> digit5 c then 2
      else if \<not> digit4 c then 3
      else 4)"

subsection \<open>The upper-case mapping beyond ASCII\<close>

text \<open>
  \<open>str.upper()\<close> replaces every character by its full upper-case mapping, whatever its
  neighbours are. The tables below list the 1499 characters beyond ASCII that the mapping
  changes (Unicode 14.0.0, the character database of CPython 3.11), each with its
  replacement, both in UTF-8, in the order of the code points and in blocks named after
  their first code point. A replacement can be longer than one character (\<open>U+00DF\<close>
  becomes \<open>SS\<close>) and can be ASCII (\<open>U+017F\<close>, the long s, becomes \<open>S\<close>).
\<close>

definition upper_00B5 :: "(string \<times> string) list" where
  "upper_00B5 =
    [([CHR 0xC2, CHR 0xB5], [CHR 0xCE, CHR 0x9C]),
     ([CHR 0xC3, CHR 0x9F], [CHR 0x53, CHR 0x53]),
     ([CHR 0xC3, CHR 0xA0], [CHR 0xC3, CHR 0x80]),
     ([CHR 0xC3, CHR 0xA1], [CHR 0xC3, CHR 0x81]),
     ([CHR 0xC3, CHR 0xA2], [CHR 0xC3, CHR 0x82]),
     ([CHR 0xC3, CHR 0xA3], [CHR 0xC3, CHR 0x83]),
     ([CHR 0xC3, CHR 0xA4], [CHR 0xC3, CHR 0x84]),
     ([CHR 0xC3, CHR 0xA5], [CHR 0xC3, CHR 0x85]),
     ([CHR 0xC3, CHR 0xA6], [CHR 0xC3, CHR 0x86]),
     ([CHR 0xC3, CHR 0xA7], [CHR 0xC3, CHR 0x87]),
     ([CHR 0xC3, CHR 0xA8], [CHR 0xC3, CHR 0x88]),
     ([CHR 0xC3, CHR 0xA9], [CHR 0xC3, CHR 0x89]),
     ([CHR 0xC3, CHR 0xAA], [CHR 0xC3, CHR 0x8A]),
     ([CHR 0xC3, CHR 0xAB], [CHR 0xC3, CHR 0x8B]),
     ([CHR 0xC3, CHR 0xAC], [CHR 0xC3, CHR 0x8C]),
     ([CHR 0xC3, CHR 0xAD], [CHR 0xC3, CHR 0x8D]),
     ([CHR 0xC3, CHR 0xAE], [CHR 0xC3, CHR 0x8E]),
     ([CHR 0xC3, CHR 0xAF], [CHR 0xC3, CHR 0x8F]),
     ([CHR 0xC3, CHR 0xB0], [CHR 0xC3, CHR 0x90]),
     ([CHR 0xC3, CHR 0xB1], [CHR 0xC3, CHR 0x91]),
     ([CHR 0xC3, CHR 0xB2], [CHR 0xC3, CHR 0x92]),
     ([CHR 0xC3, CHR 0xB3], [CHR 0xC3, CHR 0x93]),
     ([CHR 0xC3, CHR 0xB4], [CHR 0xC3, CHR 0x94]),
     ([CHR 0xC3, CHR 0xB5], [CHR 0xC3, CHR 0x95]),
     ([CHR 0xC3, CHR 0xB6], [CHR 0xC3, CHR 0x96]),
     ([CHR 0xC3, CHR 0xB8], [CHR 0xC3, CHR 0x98]),
     ([CHR 0xC3, CHR 0xB9], [CHR 0xC3, CHR 0x99]),
     ([CHR 0xC3, CHR 0xBA], [CHR 0xC3, CHR 0x9A]),
     ([CHR 0xC3, CHR 0xBB], [CHR 0xC3, CHR 0x9B]),
     ([CHR 0xC3, CHR 0xBC], [CHR 0xC3, CHR 0x9C]),
     ([CHR 0xC3, CHR 0xBD], [CHR 0xC3, CHR 0x9D]),
     ([CHR 0xC3, CHR 0xBE], [CHR 0xC3, CHR 0x9E]),
     ([CHR 0xC3, CHR 0xBF], [CHR 0xC5, CHR 0xB8]),
     ([CHR 0xC4, CHR 0x81], [CHR 0xC4, CHR 0x80]),
     ([CHR 0xC4, CHR 0x83], [CHR 0xC4, CHR 0x82]),
     ([CHR 0xC4, CHR 0x85], [CHR 0xC4, CHR 0x84]),
     ([CHR 0xC4, CHR 0x87], [CHR 0xC4, CHR 0x86]),
     ([CHR 0xC4, CHR 0x89], [CHR 0xC4, CHR 0x88]),
     ([CHR 0xC4, CHR 0x8B], [CHR 0xC4, CHR 0x8A]),
     ([CHR 0xC4, CHR 0x8D], [CHR 0xC4, CHR 0x8C]),
     ([CHR 0xC4, CHR 0x8F], [CHR 0xC4, CHR 0x8E]),
     ([CHR 0xC4, CHR 0x91], [CHR 0xC4, CHR 0x90]),
     ([CHR 0xC4, CHR 0x93], [CHR 0xC4, CHR 0x92]),
     ([CHR 0xC4, CHR 0x95], [CHR 0xC4, CHR 0x94]),
     ([CHR 0xC4, CHR 0x97], [CHR 0xC4, CHR 0x96]),
     ([CHR 0xC4, CHR 0x99], [CHR 0xC4, CHR 0x98]),
     ([CHR 0xC4, CHR 0x9B], [CHR 0xC4, CHR 0x9A]),
     ([CHR 0xC4, CHR 0x9D], [CHR 0xC4, CHR 0x9C]),
     ([CHR 0xC4, CHR 0x9F], [CHR 0xC4, CHR 0x9E]),
     ([CHR 0xC4, CHR 0xA1], [CHR 0xC4, CHR 0xA0])]"

definition upper_0123 :: "(string \<times> string) list" where
  "upper_0123 =
    [([CHR 0xC4, CHR 0xA3], [CHR 0xC4, CHR 0xA2]),
     ([CHR 0xC4, CHR 0xA5], [CHR 0xC4, CHR 0xA4]),
     ([CHR 0xC4, CHR 0xA7], [CHR 0xC4, CHR 0xA6]),
     ([CHR 0xC4, CHR 0xA9], [CHR 0xC4, CHR 0xA8]),
     ([CHR 0xC4, CHR 0xAB], [CHR 0xC4, CHR 0xAA]),
     ([CHR 0xC4, CHR 0xAD], [CHR 0xC4, CHR 0xAC]),
     ([CHR 0xC4, CHR 0xAF], [CHR 0xC4, CHR 0xAE]),
     ([CHR 0xC4, CHR 0xB1], [CHR 0x49]),
     ([CHR 0xC4, CHR 0xB3], [CHR 0xC4, CHR 0xB2]),
     ([CHR 0xC4, CHR 0xB5], [CHR 0xC4, CHR 0xB4]),
     ([CHR 0xC4, CHR 0xB7], [CHR 0xC4, CHR 0xB6]),
     ([CHR 0xC4, CHR 0xBA], [CHR 0xC4, CHR 0xB9]),
     ([CHR 0xC4, CHR 0xBC], [CHR 0xC4, CHR 0xBB]),
     ([CHR 0xC4, CHR 0xBE], [CHR 0xC4, CHR 0xBD]),
     ([CHR 0xC5, CHR 0x80], [CHR 0xC4, CHR 0xBF]),
     ([CHR 0xC5, CHR 0x82], [CHR 0xC5, CHR 0x81]),
     ([CHR 0xC5, CHR 0x84], [CHR 0xC5, CHR 0x83]),
     ([CHR 0xC5, CHR 0x86], [CHR 0xC5, CHR 0x85]),
     ([CHR 0xC5, CHR 0x88], [CHR 0xC5, CHR 0x87]),
     ([CHR 0xC5, CHR 0x89], [CHR 0xCA, CHR 0xBC, CHR 0x4E]),
     ([CHR 0xC5, CHR 0x8B], [CHR 0xC5, CHR 0x8A]),
     ([CHR 0xC5, CHR 0x8D], [CHR 0xC5, CHR 0x8C]),
     ([CHR 0xC5, CHR 0x8F], [CHR 0xC5, CHR 0x8E]),
     ([CHR 0xC5, CHR 0x91], [CHR 0xC5, CHR 0x90]),
     ([CHR 0xC5, CHR 0x93], [CHR 0xC5, CHR 0x92]),
     ([CHR 0xC5, CHR 0x95], [CHR 0xC5, CHR 0x94]),
     ([CHR 0xC5, CHR 0x97], [CHR 0xC5, CHR 0x96]),
     ([CHR 0xC5, CHR 0x99], [CHR 0xC5, CHR 0x98]),
     ([CHR 0xC5, CHR 0x9B], [CHR 0xC5, CHR 0x9A]),
     ([CHR 0xC5, CHR 0x9D], [CHR 0xC5, CHR 0x9C]),
     ([CHR 0xC5, CHR 0x9F], [CHR 0xC5, CHR 0x9E]),
     ([CHR 0xC5, CHR 0xA1], [CHR 0xC5, CHR 0xA0]),
     ([CHR 0xC5, CHR 0xA3], [CHR 0xC5, CHR 0xA2]),
     ([CHR 0xC5, CHR 0xA5], [CHR 0xC5, CHR 0xA4]),
     ([CHR 0xC5, CHR 0xA7], [CHR 0xC5, CHR 0xA6]),
     ([CHR 0xC5, CHR 0xA9], [CHR 0xC5, CHR 0xA8]),
     ([CHR 0xC5, CHR 0xAB], [CHR 0xC5, CHR 0xAA]),
     ([CHR 0xC5, CHR 0xAD], [CHR 0xC5, CHR 0xAC]),
     ([CHR 0xC5, CHR 0xAF], [CHR 0xC5, CHR 0xAE]),
     ([CHR 0xC5, CHR 0xB1], [CHR 0xC5, CHR 0xB0]),
     ([CHR 0xC5, CHR 0xB3], [CHR 0xC5, CHR 0xB2]),
     ([CHR 0xC5, CHR 0xB5], [CHR 0xC5, CHR 0xB4]),
     ([CHR 0xC5, CHR 0xB7], [CHR 0xC5, CHR 0xB6]),
     ([CHR 0xC5, CHR 0xBA], [CHR 0xC5, CHR 0xB9]),
     ([CHR 0xC5, CHR 0xBC], [CHR 0xC5, CHR 0xBB]),
     ([CHR 0xC5, CHR 0xBE], [CHR 0xC5, CHR 0xBD]),
     ([CHR 0xC5, CHR 0xBF], [CHR 0x53]),
     ([CHR 0xC6, CHR 0x80], [CHR 0xC9, CHR 0x83]),
     ([CHR 0xC6, CHR 0x83], [CHR 0xC6, CHR 0x82]),
     ([CHR 0xC6, CHR 0x85], [CHR 0xC6, CHR 0x84])]"

definition upper_0188 :: "(string \<times> string) list" where
  "upper_0188 =
    [([CHR 0xC6, CHR 0x88], [CHR 0xC6, CHR 0x87]),
     ([CHR 0xC6, CHR 0x8C], [CHR 0xC6, CHR 0x8B]),
     ([CHR 0xC6, CHR 0x92], [CHR 0xC6, CHR 0x91]),
     ([CHR 0xC6, CHR 0x95], [CHR 0xC7, CHR 0xB6]),
     ([CHR 0xC6, CHR 0x99], [CHR 0xC6, CHR 0x98]),
     ([CHR 0xC6, CHR 0x9A], [CHR 0xC8, CHR 0xBD]),
     ([CHR 0xC6, CHR 0x9E], [CHR 0xC8, CHR 0xA0]),
     ([CHR 0xC6, CHR 0xA1], [CHR 0xC6, CHR 0xA0]),
     ([CHR 0xC6, CHR 0xA3], [CHR 0xC6, CHR 0xA2]),
     ([CHR 0xC6, CHR 0xA5], [CHR 0xC6, CHR 0xA4]),
     ([CHR 0xC6, CHR 0xA8], [CHR 0xC6, CHR 0xA7]),
     ([CHR 0xC6, CHR 0xAD], [CHR 0xC6, CHR 0xAC]),
     ([CHR 0xC6, CHR 0xB0], [CHR 0xC6, CHR 0xAF]),
     ([CHR 0xC6, CHR 0xB4], [CHR 0xC6, CHR 0xB3]),
     ([CHR 0xC6, CHR 0xB6], [CHR 0xC6, CHR 0xB5]),
     ([CHR 0xC6, CHR 0xB9], [CHR 0xC6, CHR 0xB8]),
     ([CHR 0xC6, CHR 0xBD], [CHR 0xC6, CHR 0xBC]),
     ([CHR 0xC6, CHR 0xBF], [CHR 0xC7, CHR 0xB7]),
     ([CHR 0xC7, CHR 0x85], [CHR 0xC7, CHR 0x84]),
     ([CHR 0xC7, CHR 0x86], [CHR 0xC7, CHR 0x84]),
     ([CHR 0xC7, CHR 0x88], [CHR 0xC7, CHR 0x87]),
     ([CHR 0xC7, CHR 0x89], [CHR 0xC7, CHR 0x87]),
     ([CHR 0xC7, CHR 0x8B], [CHR 0xC7, CHR 0x8A]),
     ([CHR 0xC7, CHR 0x8C], [CHR 0xC7, CHR 0x8A]),
     ([CHR 0xC7, CHR 0x8E], [CHR 0xC7, CHR 0x8D]),
     ([CHR 0xC7, CHR 0x90], [CHR 0xC7, CHR 0x8F]),
     ([CHR 0xC7, CHR 0x92], [CHR 0xC7, CHR 0x91]),
     ([CHR 0xC7, CHR 0x94], [CHR 0xC7, CHR 0x93]),
     ([CHR 0xC7, CHR 0x96], [CHR 0xC7, CHR 0x95]),
     ([CHR 0xC7, CHR 0x98], [CHR 0xC7, CHR 0x97]),
     ([CHR 0xC7, CHR 0x9A], [CHR 0xC7, CHR 0x99]),
     ([CHR 0xC7, CHR 0x9C], [CHR 0xC7, CHR 0x9B]),
     ([CHR 0xC7, CHR 0x9D], [CHR 0xC6, CHR 0x8E]),
     ([CHR 0xC7, CHR 0x9F], [CHR 0xC7, CHR 0x9E]),
     ([CHR 0xC7, CHR 0xA1], [CHR 0xC7, CHR 0xA0]),
     ([CHR 0xC7, CHR 0xA3], [CHR 0xC7, CHR 0xA2]),
     ([CHR 0xC7, CHR 0xA5], [CHR 0xC7, CHR 0xA4]),
     ([CHR 0xC7, CHR 0xA7], [CHR 0xC7, CHR 0xA6]),
     ([CHR 0xC7, CHR 0xA9], [CHR 0xC7, CHR 0xA8]),
     ([CHR 0xC7, CHR 0xAB], [CHR 0xC7, CHR 0xAA]),
     ([CHR 0xC7, CHR 0xAD], [CHR 0xC7, CHR 0xAC]),
     ([CHR 0xC7, CHR 0xAF], [CHR 0xC7, CHR 0xAE]),
     ([CHR 0xC7, CHR 0xB0], [CHR 0x4A, CHR 0xCC, CHR 0x8C]),
     ([CHR 0xC7, CHR 0xB2], [CHR 0xC7, CHR 0xB1]),
     ([CHR 0xC7, CHR 0xB3], [CHR 0xC7, CHR 0xB1]),
     ([CHR 0xC7, CHR 0xB5], [CHR 0xC7, CHR 0xB4]),
     ([CHR 0xC7, CHR 0xB9], [CHR 0xC7, CHR 0xB8]),
     ([CHR 0xC7, CHR 0xBB], [CHR 0xC7, CHR 0xBA]),
     ([CHR 0xC7, CHR 0xBD], [CHR 0xC7, CHR 0xBC]),
     ([CHR 0xC7, CHR 0xBF], [CHR 0xC7, CHR 0xBE])]"

definition upper_0201 :: "(string \<times> string) list" where
  "upper_0201 =
    [([CHR 0xC8, CHR 0x81], [CHR 0xC8, CHR 0x80]),
     ([CHR 0xC8, CHR 0x83], [CHR 0xC8, CHR 0x82]),
     ([CHR 0xC8, CHR 0x85], [CHR 0xC8, CHR 0x84]),
     ([CHR 0xC8, CHR 0x87], [CHR 0xC8, CHR 0x86]),
     ([CHR 0xC8, CHR 0x89], [CHR 0xC8, CHR 0x88]),
     ([CHR 0xC8, CHR 0x8B], [CHR 0xC8, CHR 0x8A]),
     ([CHR 0xC8, CHR 0x8D], [CHR 0xC8, CHR 0x8C]),
     ([CHR 0xC8, CHR 0x8F], [CHR 0xC8, CHR 0x8E]),
     ([CHR 0xC8, CHR 0x91], [CHR 0xC8, CHR 0x90]),
     ([CHR 0xC8, CHR 0x93], [CHR 0xC8, CHR 0x92]),
     ([CHR 0xC8, CHR 0x95], [CHR 0xC8, CHR 0x94]),
     ([CHR 0xC8, CHR 0x97], [CHR 0xC8, CHR 0x96]),
     ([CHR 0xC8, CHR 0x99], [CHR 0xC8, CHR 0x98]),
     ([CHR 0xC8, CHR 0x9B], [CHR 0xC8, CHR 0x9A]),
     ([CHR 0xC8, CHR 0x9D], [CHR 0xC8, CHR 0x9C]),
     ([CHR 0xC8, CHR 0x9F], [CHR 0xC8, CHR 0x9E]),
     ([CHR 0xC8, CHR 0xA3], [CHR 0xC8, CHR 0xA2]),
     ([CHR 0xC8, CHR 0xA5], [CHR 0xC8, CHR 0xA4]),
     ([CHR 0xC8, CHR 0xA7], [CHR 0xC8, CHR 0xA6]),
     ([CHR 0xC8, CHR 0xA9], [CHR 0xC8, CHR 0xA8]),
     ([CHR 0xC8, CHR 0xAB], [CHR 0xC8, CHR 0xAA]),
     ([CHR 0xC8, CHR 0xAD], [CHR 0xC8, CHR 0xAC]),
     ([CHR 0xC8, CHR 0xAF], [CHR 0xC8, CHR 0xAE]),
     ([CHR 0xC8, CHR 0xB1], [CHR 0xC8, CHR 0xB0]),
     ([CHR 0xC8, CHR 0xB3], [CHR 0xC8, CHR 0xB2]),
     ([CHR 0xC8, CHR 0xBC], [CHR 0xC8, CHR 0xBB]),
     ([CHR 0xC8, CHR 0xBF], [CHR 0xE2, CHR 0xB1, CHR 0xBE]),
     ([CHR 0xC9, CHR 0x80], [CHR 0xE2, CHR 0xB1, CHR 0xBF]),
     ([CHR 0xC9, CHR 0x82], [CHR 0xC9, CHR 0x81]),
     ([CHR 0xC9, CHR 0x87], [CHR 0xC9, CHR 0x86]),
     ([CHR 0xC9, CHR 0x89], [CHR 0xC9, CHR 0x88]),
     ([CHR 0xC9, CHR 0x8B], [CHR 0xC9, CHR 0x8A]),
     ([CHR 0xC9, CHR 0x8D], [CHR 0xC9, CHR 0x8C]),
     ([CHR 0xC9, CHR 0x8F], [CHR 0xC9, CHR 0x8E]),
     ([CHR 0xC9, CHR 0x90], [CHR 0xE2, CHR 0xB1, CHR 0xAF]),
     ([CHR 0xC9, CHR 0x91], [CHR 0xE2, CHR 0xB1, CHR 0xAD]),
     ([CHR 0xC9, CHR 0x92], [CHR 0xE2, CHR 0xB1, CHR 0xB0]),
     ([CHR 0xC9, CHR 0x93], [CHR 0xC6, CHR 0x81]),
     ([CHR 0xC9, CHR 0x94], [CHR 0xC6, CHR 0x86]),
     ([CHR 0xC9, CHR 0x96], [CHR 0xC6, CHR 0x89]),
     ([CHR 0xC9, CHR 0x97], [CHR 0xC6, CHR 0x8A]),
     ([CHR 0xC9, CHR 0x99], [CHR 0xC6, CHR 0x8F]),
     ([CHR 0xC9, CHR 0x9B], [CHR 0xC6, CHR 0x90]),
     ([CHR 0xC9, CHR 0x9C], [CHR 0xEA, CHR 0x9E, CHR 0xAB]),
     ([CHR 0xC9, CHR 0xA0], [CHR 0xC6, CHR 0x93]),
     ([CHR 0xC9, CHR 0xA1], [CHR 0xEA, CHR 0x9E, CHR 0xAC]),
     ([CHR 0xC9, CHR 0xA3], [CHR 0xC6, CHR 0x94]),
     ([CHR 0xC9, CHR 0xA5], [CHR 0xEA, CHR 0x9E, CHR 0x8D]),
     ([CHR 0xC9, CHR 0xA6], [CHR 0xEA, CHR 0x9E, CHR 0xAA]),
     ([CHR 0xC9, CHR 0xA8], [CHR 0xC6, CHR 0x97])]"

definition upper_0269 :: "(string \<times> string) list" where
  "upper_0269 =
    [([CHR 0xC9, CHR 0xA9], [CHR 0xC6, CHR 0x96]),
     ([CHR 0xC9, CHR 0xAA], [CHR 0xEA, CHR 0x9E, CHR 0xAE]),
     ([CHR 0xC9, CHR 0xAB], [CHR 0xE2, CHR 0xB1, CHR 0xA2]),
     ([CHR 0xC9, CHR 0xAC], [CHR 0xEA, CHR 0x9E, CHR 0xAD]),
     ([CHR 0xC9, CHR 0xAF], [CHR 0xC6, CHR 0x9C]),
     ([CHR 0xC9, CHR 0xB1], [CHR 0xE2, CHR 0xB1, CHR 0xAE]),
     ([CHR 0xC9, CHR 0xB2], [CHR 0xC6, CHR 0x9D]),
     ([CHR 0xC9, CHR 0xB5], [CHR 0xC6, CHR 0x9F]),
     ([CHR 0xC9, CHR 0xBD], [CHR 0xE2, CHR 0xB1, CHR 0xA4]),
     ([CHR 0xCA, CHR 0x80], [CHR 0xC6, CHR 0xA6]),
     ([CHR 0xCA, CHR 0x82], [CHR 0xEA, CHR 0x9F, CHR 0x85]),
     ([CHR 0xCA, CHR 0x83], [CHR 0xC6, CHR 0xA9]),
     ([CHR 0xCA, CHR 0x87], [CHR 0xEA, CHR 0x9E, CHR 0xB1]),
     ([CHR 0xCA, CHR 0x88], [CHR 0xC6, CHR 0xAE]),
     ([CHR 0xCA, CHR 0x89], [CHR 0xC9, CHR 0x84]),
     ([CHR 0xCA, CHR 0x8A], [CHR 0xC6, CHR 0xB1]),
     ([CHR 0xCA, CHR 0x8B], [CHR 0xC6, CHR 0xB2]),
     ([CHR 0xCA, CHR 0x8C], [CHR 0xC9, CHR 0x85]),
     ([CHR 0xCA, CHR 0x92], [CHR 0xC6, CHR 0xB7]),
     ([CHR 0xCA, CHR 0x9D], [CHR 0xEA, CHR 0x9E, CHR 0xB2]),
     ([CHR 0xCA, CHR 0x9E], [CHR 0xEA, CHR 0x9E, CHR 0xB0]),
     ([CHR 0xCD, CHR 0x85], [CHR 0xCE, CHR 0x99]),
     ([CHR 0xCD, CHR 0xB1], [CHR 0xCD, CHR 0xB0]),
     ([CHR 0xCD, CHR 0xB3], [CHR 0xCD, CHR 0xB2]),
     ([CHR 0xCD, CHR 0xB7], [CHR 0xCD, CHR 0xB6]),
     ([CHR 0xCD, CHR 0xBB], [CHR 0xCF, CHR 0xBD]),
     ([CHR 0xCD, CHR 0xBC], [CHR 0xCF, CHR 0xBE]),
     ([CHR 0xCD, CHR 0xBD], [CHR 0xCF, CHR 0xBF]),
     ([CHR 0xCE, CHR 0x90], [CHR 0xCE, CHR 0x99, CHR 0xCC, CHR 0x88, CHR 0xCC, CHR 0x81]),
     ([CHR 0xCE, CHR 0xAC], [CHR 0xCE, CHR 0x86]),
     ([CHR 0xCE, CHR 0xAD], [CHR 0xCE, CHR 0x88]),
     ([CHR 0xCE, CHR 0xAE], [CHR 0xCE, CHR 0x89]),
     ([CHR 0xCE, CHR 0xAF], [CHR 0xCE, CHR 0x8A]),
     ([CHR 0xCE, CHR 0xB0], [CHR 0xCE, CHR 0xA5, CHR 0xCC, CHR 0x88, CHR 0xCC, CHR 0x81]),
     ([CHR 0xCE, CHR 0xB1], [CHR 0xCE, CHR 0x91]),
     ([CHR 0xCE, CHR 0xB2], [CHR 0xCE, CHR 0x92]),
     ([CHR 0xCE, CHR 0xB3], [CHR 0xCE, CHR 0x93]),
     ([CHR 0xCE, CHR 0xB4], [CHR 0xCE, CHR 0x94]),
     ([CHR 0xCE, CHR 0xB5], [CHR 0xCE, CHR 0x95]),
     ([CHR 0xCE, CHR 0xB6], [CHR 0xCE, CHR 0x96]),
     ([CHR 0xCE, CHR 0xB7], [CHR 0xCE, CHR 0x97]),
     ([CHR 0xCE, CHR 0xB8], [CHR 0xCE, CHR 0x98]),
     ([CHR 0xCE, CHR 0xB9], [CHR 0xCE, CHR 0x99]),
     ([CHR 0xCE, CHR 0xBA], [CHR 0xCE, CHR 0x9A]),
     ([CHR 0xCE, CHR 0xBB], [CHR 0xCE, CHR 0x9B]),
     ([CHR 0xCE, CHR 0xBC], [CHR 0xCE, CHR 0x9C]),
     ([CHR 0xCE, CHR 0xBD], [CHR 0xCE, CHR 0x9D]),
     ([CHR 0xCE, CHR 0xBE], [CHR 0xCE, CHR 0x9E]),
     ([CHR 0xCE, CHR 0xBF], [CHR 0xCE, CHR 0x9F]),
     ([CHR 0xCF, CHR 0x80], [CHR 0xCE, CHR 0xA0])]"

definition upper_03C1 :: "(string \<times> string) list" where
  "upper_03C1 =
    [([CHR 0xCF, CHR 0x81], [CHR 0xCE, CHR 0xA1]),
     ([CHR 0xCF, CHR 0x82], [CHR 0xCE, CHR 0xA3]),
     ([CHR 0xCF, CHR 0x83], [CHR 0xCE, CHR 0xA3]),
     ([CHR 0xCF, CHR 0x84], [CHR 0xCE, CHR 0xA4]),
     ([CHR 0xCF, CHR 0x85], [CHR 0xCE, CHR 0xA5]),
     ([CHR 0xCF, CHR 0x86], [CHR 0xCE, CHR 0xA6]),
     ([CHR 0xCF, CHR 0x87], [CHR 0xCE, CHR 0xA7]),
     ([CHR 0xCF, CHR 0x88], [CHR 0xCE, CHR 0xA8]),
     ([CHR 0xCF, CHR 0x89], [CHR 0xCE, CHR 0xA9]),
     ([CHR 0xCF, CHR 0x8A], [CHR 0xCE, CHR 0xAA]),
     ([CHR 0xCF, CHR 0x8B], [CHR 0xCE, CHR 0xAB]),
     ([CHR 0xCF, CHR 0x8C], [CHR 0xCE, CHR 0x8C]),
     ([CHR 0xCF, CHR 0x8D], [CHR 0xCE, CHR 0x8E]),
     ([CHR 0xCF, CHR 0x8E], [CHR 0xCE, CHR 0x8F]),
     ([CHR 0xCF, CHR 0x90], [CHR 0xCE, CHR 0x92]),
     ([CHR 0xCF, CHR 0x91], [CHR 0xCE, CHR 0x98]),
     ([CHR 0xCF, CHR 0x95], [CHR 0xCE, CHR 0xA6]),
     ([CHR 0xCF, CHR 0x96], [CHR 0xCE, CHR 0xA0]),
     ([CHR 0xCF, CHR 0x97], [CHR 0xCF, CHR 0x8F]),
     ([CHR 0xCF, CHR 0x99], [CHR 0xCF, CHR 0x98]),
     ([CHR 0xCF, CHR 0x9B], [CHR 0xCF, CHR 0x9A]),
     ([CHR 0xCF, CHR 0x9D], [CHR 0xCF, CHR 0x9C]),
     ([CHR 0xCF, CHR 0x9F], [CHR 0xCF, CHR 0x9E]),
     ([CHR 0xCF, CHR 0xA1], [CHR 0xCF, CHR 0xA0]),
     ([CHR 0xCF, CHR 0xA3], [CHR 0xCF, CHR 0xA2]),
     ([CHR 0xCF, CHR 0xA5], [CHR 0xCF, CHR 0xA4]),
     ([CHR 0xCF, CHR 0xA7], [CHR 0xCF, CHR 0xA6]),
     ([CHR 0xCF, CHR 0xA9], [CHR 0xCF, CHR 0xA8]),
     ([CHR 0xCF, CHR 0xAB], [CHR 0xCF, CHR 0xAA]),
     ([CHR 0xCF, CHR 0xAD], [CHR 0xCF, CHR 0xAC]),
     ([CHR 0xCF, CHR 0xAF], [CHR 0xCF, CHR 0xAE]),
     ([CHR 0xCF, CHR 0xB0], [CHR 0xCE, CHR 0x9A]),
     ([CHR 0xCF, CHR 0xB1], [CHR 0xCE, CHR 0xA1]),
     ([CHR 0xCF, CHR 0xB2], [CHR 0xCF, CHR 0xB9]),
     ([CHR 0xCF, CHR 0xB3], [CHR 0xCD, CHR 0xBF]),
     ([CHR 0xCF, CHR 0xB5], [CHR 0xCE, CHR 0x95]),
     ([CHR 0xCF, CHR 0xB8], [CHR 0xCF, CHR 0xB7]),
     ([CHR 0xCF, CHR 0xBB], [CHR 0xCF, CHR 0xBA]),
     ([CHR 0xD0, CHR 0xB0], [CHR 0xD0, CHR 0x90]),
     ([CHR 0xD0, CHR 0xB1], [CHR 0xD0, CHR 0x91]),
     ([CHR 0xD0, CHR 0xB2], [CHR 0xD0, CHR 0x92]),
     ([CHR 0xD0, CHR 0xB3], [CHR 0xD0, CHR 0x93]),
     ([CHR 0xD0, CHR 0xB4], [CHR 0xD0, CHR 0x94]),
     ([CHR 0xD0, CHR 0xB5], [CHR 0xD0, CHR 0x95]),
     ([CHR 0xD0, CHR 0xB6], [CHR 0xD0, CHR 0x96]),
     ([CHR 0xD0, CHR 0xB7], [CHR 0xD0, CHR 0x97]),
     ([CHR 0xD0, CHR 0xB8], [CHR 0xD0, CHR 0x98]),
     ([CHR 0xD0, CHR 0xB9], [CHR 0xD0, CHR 0x99]),
     ([CHR 0xD0, CHR 0xBA], [CHR 0xD0, CHR 0x9A]),
     ([CHR 0xD0, CHR 0xBB], [CHR 0xD0, CHR 0x9B])]"

definition upper_043C :: "(string \<times> string) list" where
  "upper_043C =
    [([CHR 0xD0, CHR 0xBC], [CHR 0xD0, CHR 0x9C]),
     ([CHR 0xD0, CHR 0xBD], [CHR 0xD0, CHR 0x9D]),
     ([CHR 0xD0, CHR 0xBE], [CHR 0xD0, CHR 0x9E]),
     ([CHR 0xD0, CHR 0xBF], [CHR 0xD0, CHR 0x9F]),
     ([CHR 0xD1, CHR 0x80], [CHR 0xD0, CHR 0xA0]),
     ([CHR 0xD1, CHR 0x81], [CHR 0xD0, CHR 0xA1]),
     ([CHR 0xD1, CHR 0x82], [CHR 0xD0, CHR 0xA2]),
     ([CHR 0xD1, CHR 0x83], [CHR 0xD0, CHR 0xA3]),
     ([CHR 0xD1, CHR 0x84], [CHR 0xD0, CHR 0xA4]),
     ([CHR 0xD1, CHR 0x85], [CHR 0xD0, CHR 0xA5]),
     ([CHR 0xD1, CHR 0x86], [CHR 0xD0, CHR 0xA6]),
     ([CHR 0xD1, CHR 0x87], [CHR 0xD0, CHR 0xA7]),
     ([CHR 0xD1, CHR 0x88], [CHR 0xD0, CHR 0xA8]),
     ([CHR 0xD1, CHR 0x89], [CHR 0xD0, CHR 0xA9]),
     ([CHR 0xD1, CHR 0x8A], [CHR 0xD0, CHR 0xAA]),
     ([CHR 0xD1, CHR 0x8B], [CHR 0xD0, CHR 0xAB]),
     ([CHR 0xD1, CHR 0x8C], [CHR 0xD0, CHR 0xAC]),
     ([CHR 0xD1, CHR 0x8D], [CHR 0xD0, CHR 0xAD]),
     ([CHR 0xD1, CHR 0x8E], [CHR 0xD0, CHR 0xAE]),
     ([CHR 0xD1, CHR 0x8F], [CHR 0xD0, CHR 0xAF]),
     ([CHR 0xD1, CHR 0x90], [CHR 0xD0, CHR 0x80]),
     ([CHR 0xD1, CHR 0x91], [CHR 0xD0, CHR 0x81]),
     ([CHR 0xD1, CHR 0x92], [CHR 0xD0, CHR 0x82]),
     ([CHR 0xD1, CHR 0x93], [CHR 0xD0, CHR 0x83]),
     ([CHR 0xD1, CHR 0x94], [CHR 0xD0, CHR 0x84]),
     ([CHR 0xD1, CHR 0x95], [CHR 0xD0, CHR 0x85]),
     ([CHR 0xD1, CHR 0x96], [CHR 0xD0, CHR 0x86]),
     ([CHR 0xD1, CHR 0x97], [CHR 0xD0, CHR 0x87]),
     ([CHR 0xD1, CHR 0x98], [CHR 0xD0, CHR 0x88]),
     ([CHR 0xD1, CHR 0x99], [CHR 0xD0, CHR 0x89]),
     ([CHR 0xD1, CHR 0x9A], [CHR 0xD0, CHR 0x8A]),
     ([CHR 0xD1, CHR 0x9B], [CHR 0xD0, CHR 0x8B]),
     ([CHR 0xD1, CHR 0x9C], [CHR 0xD0, CHR 0x8C]),
     ([CHR 0xD1, CHR 0x9D], [CHR 0xD0, CHR 0x8D]),
     ([CHR 0xD1, CHR 0x9E], [CHR 0xD0, CHR 0x8E]),
     ([CHR 0xD1, CHR 0x9F], [CHR 0xD0, CHR 0x8F]),
     ([CHR 0xD1, CHR 0xA1], [CHR 0xD1, CHR 0xA0]),
     ([CHR 0xD1, CHR 0xA3], [CHR 0xD1, CHR 0xA2]),
     ([CHR 0xD1, CHR 0xA5], [CHR 0xD1, CHR 0xA4]),
     ([CHR 0xD1, CHR 0xA7], [CHR 0xD1, CHR 0xA6]),
     ([CHR 0xD1, CHR 0xA9], [CHR 0xD1, CHR 0xA8]),
     ([CHR 0xD1, CHR 0xAB], [CHR 0xD1, CHR 0xAA]),
     ([CHR 0xD1, CHR 0xAD], [CHR 0xD1, CHR 0xAC]),
     ([CHR 0xD1, CHR 0xAF], [CHR 0xD1, CHR 0xAE]),
     ([CHR 0xD1, CHR 0xB1], [CHR 0xD1, CHR 0xB0]),
     ([CHR 0xD1, CHR 0xB3], [CHR 0xD1, CHR 0xB2]),
     ([CHR 0xD1, CHR 0xB5], [CHR 0xD1, CHR 0xB4]),
     ([CHR 0xD1, CHR 0xB7], [CHR 0xD1, CHR 0xB6]),
     ([CHR 0xD1, CHR 0xB9], [CHR 0xD1, CHR 0xB8]),
     ([CHR 0xD1, CHR 0xBB], [CHR 0xD1, CHR 0xBA])]"

definition upper_047D :: "(string \<times> string) list" where
  "upper_047D =
    [([CHR 0xD1, CHR 0xBD], [CHR 0xD1, CHR 0xBC]),
     ([CHR 0xD1, CHR 0xBF], [CHR 0xD1, CHR 0xBE]),
     ([CHR 0xD2, CHR 0x81], [CHR 0xD2, CHR 0x80]),
     ([CHR 0xD2, CHR 0x8B], [CHR 0xD2, CHR 0x8A]),
     ([CHR 0xD2, CHR 0x8D], [CHR 0xD2, CHR 0x8C]),
     ([CHR 0xD2, CHR 0x8F], [CHR 0xD2, CHR 0x8E]),
     ([CHR 0xD2, CHR 0x91], [CHR 0xD2, CHR 0x90]),
     ([CHR 0xD2, CHR 0x93], [CHR 0xD2, CHR 0x92]),
     ([CHR 0xD2, CHR 0x95], [CHR 0xD2, CHR 0x94]),
     ([CHR 0xD2, CHR 0x97], [CHR 0xD2, CHR 0x96]),
     ([CHR 0xD2, CHR 0x99], [CHR 0xD2, CHR 0x98]),
     ([CHR 0xD2, CHR 0x9B], [CHR 0xD2, CHR 0x9A]),
     ([CHR 0xD2, CHR 0x9D], [CHR 0xD2, CHR 0x9C]),
     ([CHR 0xD2, CHR 0x9F], [CHR 0xD2, CHR 0x9E]),
     ([CHR 0xD2, CHR 0xA1], [CHR 0xD2, CHR 0xA0]),
     ([CHR 0xD2, CHR 0xA3], [CHR 0xD2, CHR 0xA2]),
     ([CHR 0xD2, CHR 0xA5], [CHR 0xD2, CHR 0xA4]),
     ([CHR 0xD2, CHR 0xA7], [CHR 0xD2, CHR 0xA6]),
     ([CHR 0xD2, CHR 0xA9], [CHR 0xD2, CHR 0xA8]),
     ([CHR 0xD2, CHR 0xAB], [CHR 0xD2, CHR 0xAA]),
     ([CHR 0xD2, CHR 0xAD], [CHR 0xD2, CHR 0xAC]),
     ([CHR 0xD2, CHR 0xAF], [CHR 0xD2, CHR 0xAE]),
     ([CHR 0xD2, CHR 0xB1], [CHR 0xD2, CHR 0xB0]),
     ([CHR 0xD2, CHR 0xB3], [CHR 0xD2, CHR 0xB2]),
     ([CHR 0xD2, CHR 0xB5], [CHR 0xD2, CHR 0xB4]),
     ([CHR 0xD2, CHR 0xB7], [CHR 0xD2, CHR 0xB6]),
     ([CHR 0xD2, CHR 0xB9], [CHR 0xD2, CHR 0xB8]),
     ([CHR 0xD2, CHR 0xBB], [CHR 0xD2, CHR 0xBA]),
     ([CHR 0xD2, CHR 0xBD], [CHR 0xD2, CHR 0xBC]),
     ([CHR 0xD2, CHR 0xBF], [CHR 0xD2, CHR 0xBE]),
     ([CHR 0xD3, CHR 0x82], [CHR 0xD3, CHR 0x81]),
     ([CHR 0xD3, CHR 0x84], [CHR 0xD3, CHR 0x83]),
     ([CHR 0xD3, CHR 0x86], [CHR 0xD3, CHR 0x85]),
     ([CHR 0xD3, CHR 0x88], [CHR 0xD3, CHR 0x87]),
     ([CHR 0xD3, CHR 0x8A], [CHR 0xD3, CHR 0x89]),
     ([CHR 0xD3, CHR 0x8C], [CHR 0xD3, CHR 0x8B]),
     ([CHR 0xD3, CHR 0x8E], [CHR 0xD3, CHR 0x8D]),
     ([CHR 0xD3, CHR 0x8F], [CHR 0xD3, CHR 0x80]),
     ([CHR 0xD3, CHR 0x91], [CHR 0xD3, CHR 0x90]),
     ([CHR 0xD3, CHR 0x93], [CHR 0xD3, CHR 0x92]),
     ([CHR 0xD3, CHR 0x95], [CHR 0xD3, CHR 0x94]),
     ([CHR 0xD3, CHR 0x97], [CHR 0xD3, CHR 0x96]),
     ([CHR 0xD3, CHR 0x99], [CHR 0xD3, CHR 0x98]),
     ([CHR 0xD3, CHR 0x9B], [CHR 0xD3, CHR 0x9A]),
     ([CHR 0xD3, CHR 0x9D], [CHR 0xD3, CHR 0x9C]),
     ([CHR 0xD3, CHR 0x9F], [CHR 0xD3, CHR 0x9E]),
     ([CHR 0xD3, CHR 0xA1], [CHR 0xD3, CHR 0xA0]),
     ([CHR 0xD3, CHR 0xA3], [CHR 0xD3, CHR 0xA2]),
     ([CHR 0xD3, CHR 0xA5], [CHR 0xD3, CHR 0xA4]),
     ([CHR 0xD3, CHR 0xA7], [CHR 0xD3, CHR 0xA6])]"

definition upper_04E9 :: "(string \<times> string) list" where
  "upper_04E9 =
    [([CHR 0xD3, CHR 0xA9], [CHR 0xD3, CHR 0xA8]),
     ([CHR 0xD3, CHR 0xAB], [CHR 0xD3, CHR 0xAA]),
     ([CHR 0xD3, CHR 0xAD], [CHR 0xD3, CHR 0xAC]),
     ([CHR 0xD3, CHR 0xAF], [CHR 0xD3, CHR 0xAE]),
     ([CHR 0xD3, CHR 0xB1], [CHR 0xD3, CHR 0xB0]),
     ([CHR 0xD3, CHR 0xB3], [CHR 0xD3, CHR 0xB2]),
     ([CHR 0xD3, CHR 0xB5], [CHR 0xD3, CHR 0xB4]),
     ([CHR 0xD3, CHR 0xB7], [CHR 0xD3, CHR 0xB6]),
     ([CHR 0xD3, CHR 0xB9], [CHR 0xD3, CHR 0xB8]),
     ([CHR 0xD3, CHR 0xBB], [CHR 0xD3, CHR 0xBA]),
     ([CHR 0xD3, CHR 0xBD], [CHR 0xD3, CHR 0xBC]),
     ([CHR 0xD3, CHR 0xBF], [CHR 0xD3, CHR 0xBE]),
     ([CHR 0xD4, CHR 0x81], [CHR 0xD4, CHR 0x80]),
     ([CHR 0xD4, CHR 0x83], [CHR 0xD4, CHR 0x82]),
     ([CHR 0xD4, CHR 0x85], [CHR 0xD4, CHR 0x84]),
     ([CHR 0xD4, CHR 0x87], [CHR 0xD4, CHR 0x86]),
     ([CHR 0xD4, CHR 0x89], [CHR 0xD4, CHR 0x88]),
     ([CHR 0xD4, CHR 0x8B], [CHR 0xD4, CHR 0x8A]),
     ([CHR 0xD4, CHR 0x8D], [CHR 0xD4, CHR 0x8C]),
     ([CHR 0xD4, CHR 0x8F], [CHR 0xD4, CHR 0x8E]),
     ([CHR 0xD4, CHR 0x91], [CHR 0xD4, CHR 0x90]),
     ([CHR 0xD4, CHR 0x93], [CHR 0xD4, CHR 0x92]),
     ([CHR 0xD4, CHR 0x95], [CHR 0xD4, CHR 0x94]),
     ([CHR 0xD4, CHR 0x97], [CHR 0xD4, CHR 0x96]),
     ([CHR 0xD4, CHR 0x99], [CHR 0xD4, CHR 0x98]),
     ([CHR 0xD4, CHR 0x9B], [CHR 0xD4, CHR 0x9A]),
     ([CHR 0xD4, CHR 0x9D], [CHR 0xD4, CHR 0x9C]),
     ([CHR 0xD4, CHR 0x9F], [CHR 0xD4, CHR 0x9E]),
     ([CHR 0xD4, CHR 0xA1], [CHR 0xD4, CHR 0xA0]),
     ([CHR 0xD4, CHR 0xA3], [CHR 0xD4, CHR 0xA2]),
     ([CHR 0xD4, CHR 0xA5], [CHR 0xD4, CHR 0xA4]),
     ([CHR 0xD4, CHR 0xA7], [CHR 0xD4, CHR 0xA6]),
     ([CHR 0xD4, CHR 0xA9], [CHR 0xD4, CHR 0xA8]),
     ([CHR 0xD4, CHR 0xAB], [CHR 0xD4, CHR 0xAA]),
     ([CHR 0xD4, CHR 0xAD], [CHR 0xD4, CHR 0xAC]),
     ([CHR 0xD4, CHR 0xAF], [CHR 0xD4, CHR 0xAE]),
     ([CHR 0xD5, CHR 0xA1], [CHR 0xD4, CHR 0xB1]),
     ([CHR 0xD5, CHR 0xA2], [CHR 0xD4, CHR 0xB2]),
     ([CHR 0xD5, CHR 0xA3], [CHR 0xD4, CHR 0xB3]),
     ([CHR 0xD5, CHR 0xA4], [CHR 0xD4, CHR 0xB4]),
     ([CHR 0xD5, CHR 0xA5], [CHR 0xD4, CHR 0xB5]),
     ([CHR 0xD5, CHR 0xA6], [CHR 0xD4, CHR 0xB6]),
     ([CHR 0xD5, CHR 0xA7], [CHR 0xD4, CHR 0xB7]),
     ([CHR 0xD5, CHR 0xA8], [CHR 0xD4, CHR 0xB8]),
     ([CHR 0xD5, CHR 0xA9], [CHR 0xD4, CHR 0xB9]),
     ([CHR 0xD5, CHR 0xAA], [CHR 0xD4, CHR 0xBA]),
     ([CHR 0xD5, CHR 0xAB], [CHR 0xD4, CHR 0xBB]),
     ([CHR 0xD5, CHR 0xAC], [CHR 0xD4, CHR 0xBC]),
     ([CHR 0xD5, CHR 0xAD], [CHR 0xD4, CHR 0xBD]),
     ([CHR 0xD5, CHR 0xAE], [CHR 0xD4, CHR 0xBE])]"

definition upper_056F :: "(string \<times> string) list" where
  "upper_056F =
    [([CHR 0xD5, CHR 0xAF], [CHR 0xD4, CHR 0xBF]),
     ([CHR 0xD5, CHR 0xB0], [CHR 0xD5, CHR 0x80]),
     ([CHR 0xD5, CHR 0xB1], [CHR 0xD5, CHR 0x81]),
     ([CHR 0xD5, CHR 0xB2], [CHR 0xD5, CHR 0x82]),
     ([CHR 0xD5, CHR 0xB3], [CHR 0xD5, CHR 0x83]),
     ([CHR 0xD5, CHR 0xB4], [CHR 0xD5, CHR 0x84]),
     ([CHR 0xD5, CHR 0xB5], [CHR 0xD5, CHR 0x85]),
     ([CHR 0xD5, CHR 0xB6], [CHR 0xD5, CHR 0x86]),
     ([CHR 0xD5, CHR 0xB7], [CHR 0xD5, CHR 0x87]),
     ([CHR 0xD5, CHR 0xB8], [CHR 0xD5, CHR 0x88]),
     ([CHR 0xD5, CHR 0xB9], [CHR 0xD5, CHR 0x89]),
     ([CHR 0xD5, CHR 0xBA], [CHR 0xD5, CHR 0x8A]),
     ([CHR 0xD5, CHR 0xBB], [CHR 0xD5, CHR 0x8B]),
     ([CHR 0xD5, CHR 0xBC], [CHR 0xD5, CHR 0x8C]),
     ([CHR 0xD5, CHR 0xBD], [CHR 0xD5, CHR 0x8D]),
     ([CHR 0xD5, CHR 0xBE], [CHR 0xD5, CHR 0x8E]),
     ([CHR 0xD5, CHR 0xBF], [CHR 0xD5, CHR 0x8F]),
     ([CHR 0xD6, CHR 0x80], [CHR 0xD5, CHR 0x90]),
     ([CHR 0xD6, CHR 0x81], [CHR 0xD5, CHR 0x91]),
     ([CHR 0xD6, CHR 0x82], [CHR 0xD5, CHR 0x92]),
     ([CHR 0xD6, CHR 0x83], [CHR 0xD5, CHR 0x93]),
     ([CHR 0xD6, CHR 0x84], [CHR 0xD5, CHR 0x94]),
     ([CHR 0xD6, CHR 0x85], [CHR 0xD5, CHR 0x95]),
     ([CHR 0xD6, CHR 0x86], [CHR 0xD5, CHR 0x96]),
     ([CHR 0xD6, CHR 0x87], [CHR 0xD4, CHR 0xB5, CHR 0xD5, CHR 0x92]),
     ([CHR 0xE1, CHR 0x83, CHR 0x90], [CHR 0xE1, CHR 0xB2, CHR 0x90]),
     ([CHR 0xE1, CHR 0x83, CHR 0x91], [CHR 0xE1, CHR 0xB2, CHR 0x91]),
     ([CHR 0xE1, CHR 0x83, CHR 0x92], [CHR 0xE1, CHR 0xB2, CHR 0x92]),
     ([CHR 0xE1, CHR 0x83, CHR 0x93], [CHR 0xE1, CHR 0xB2, CHR 0x93]),
     ([CHR 0xE1, CHR 0x83, CHR 0x94], [CHR 0xE1, CHR 0xB2, CHR 0x94]),
     ([CHR 0xE1, CHR 0x83, CHR 0x95], [CHR 0xE1, CHR 0xB2, CHR 0x95]),
     ([CHR 0xE1, CHR 0x83, CHR 0x96], [CHR 0xE1, CHR 0xB2, CHR 0x96]),
     ([CHR 0xE1, CHR 0x83, CHR 0x97], [CHR 0xE1, CHR 0xB2, CHR 0x97]),
     ([CHR 0xE1, CHR 0x83, CHR 0x98], [CHR 0xE1, CHR 0xB2, CHR 0x98]),
     ([CHR 0xE1, CHR 0x83, CHR 0x99], [CHR 0xE1, CHR 0xB2, CHR 0x99]),
     ([CHR 0xE1, CHR 0x83, CHR 0x9A], [CHR 0xE1, CHR 0xB2, CHR 0x9A]),
     ([CHR 0xE1, CHR 0x83, CHR 0x9B], [CHR 0xE1, CHR 0xB2, CHR 0x9B]),
     ([CHR 0xE1, CHR 0x83, CHR 0x9C], [CHR 0xE1, CHR 0xB2, CHR 0x9C]),
     ([CHR 0xE1, CHR 0x83, CHR 0x9D], [CHR 0xE1, CHR 0xB2, CHR 0x9D]),
     ([CHR 0xE1, CHR 0x83, CHR 0x9E], [CHR 0xE1, CHR 0xB2, CHR 0x9E]),
     ([CHR 0xE1, CHR 0x83, CHR 0x9F], [CHR 0xE1, CHR 0xB2, CHR 0x9F]),
     ([CHR 0xE1, CHR 0x83, CHR 0xA0], [CHR 0xE1, CHR 0xB2, CHR 0xA0]),
     ([CHR 0xE1, CHR 0x83, CHR 0xA1], [CHR 0xE1, CHR 0xB2, CHR 0xA1]),
     ([CHR 0xE1, CHR 0x83, CHR 0xA2], [CHR 0xE1, CHR 0xB2, CHR 0xA2]),
     ([CHR 0xE1, CHR 0x83, CHR 0xA3], [CHR 0xE1, CHR 0xB2, CHR 0xA3]),
     ([CHR 0xE1, CHR 0x83, CHR 0xA4], [CHR 0xE1, CHR 0xB2, CHR 0xA4]),
     ([CHR 0xE1, CHR 0x83, CHR 0xA5], [CHR 0xE1, CHR 0xB2, CHR 0xA5]),
     ([CHR 0xE1, CHR 0x83, CHR 0xA6], [CHR 0xE1, CHR 0xB2, CHR 0xA6]),
     ([CHR 0xE1, CHR 0x83, CHR 0xA7], [CHR 0xE1, CHR 0xB2, CHR 0xA7]),
     ([CHR 0xE1, CHR 0x83, CHR 0xA8], [CHR 0xE1, CHR 0xB2, CHR 0xA8])]"

definition upper_10E9 :: "(string \<times> string) list" where
  "upper_10E9 =
    [([CHR 0xE1, CHR 0x83, CHR 0xA9], [CHR 0xE1, CHR 0xB2, CHR 0xA9]),
     ([CHR 0xE1, CHR 0x83, CHR 0xAA], [CHR 0xE1, CHR 0xB2, CHR 0xAA]),
     ([CHR 0xE1, CHR 0x83, CHR 0xAB], [CHR 0xE1, CHR 0xB2, CHR 0xAB]),
     ([CHR 0xE1, CHR 0x83, CHR 0xAC], [CHR 0xE1, CHR 0xB2, CHR 0xAC]),
     ([CHR 0xE1, CHR 0x83, CHR 0xAD], [CHR 0xE1, CHR 0xB2, CHR 0xAD]),
     ([CHR 0xE1, CHR 0x83, CHR 0xAE], [CHR 0xE1, CHR 0xB2, CHR 0xAE]),
     ([CHR 0xE1, CHR 0x83, CHR 0xAF], [CHR 0xE1, CHR 0xB2, CHR 0xAF]),
     ([CHR 0xE1, CHR 0x83, CHR 0xB0], [CHR 0xE1, CHR 0xB2, CHR 0xB0]),
     ([CHR 0xE1, CHR 0x83, CHR 0xB1], [CHR 0xE1, CHR 0xB2, CHR 0xB1]),
     ([CHR 0xE1, CHR 0x83, CHR 0xB2], [CHR 0xE1, CHR 0xB2, CHR 0xB2]),
     ([CHR 0xE1, CHR 0x83, CHR 0xB3], [CHR 0xE1, CHR 0xB2, CHR 0xB3]),
     ([CHR 0xE1, CHR 0x83, CHR 0xB4], [CHR 0xE1, CHR 0xB2, CHR 0xB4]),
     ([CHR 0xE1, CHR 0x83, CHR 0xB5], [CHR 0xE1, CHR 0xB2, CHR 0xB5]),
     ([CHR 0xE1, CHR 0x83, CHR 0xB6], [CHR 0xE1, CHR 0xB2, CHR 0xB6]),
     ([CHR 0xE1, CHR 0x83, CHR 0xB7], [CHR 0xE1, CHR 0xB2, CHR 0xB7]),
     ([CHR 0xE1, CHR 0x83, CHR 0xB8], [CHR 0xE1, CHR 0xB2, CHR 0xB8]),
     ([CHR 0xE1, CHR 0x83, CHR 0xB9], [CHR 0xE1, CHR 0xB2, CHR 0xB9]),
     ([CHR 0xE1, CHR 0x83, CHR 0xBA], [CHR 0xE1, CHR 0xB2, CHR 0xBA]),
     ([CHR 0xE1, CHR 0x83, CHR 0xBD], [CHR 0xE1, CHR 0xB2, CHR 0xBD]),
     ([CHR 0xE1, CHR 0x83, CHR 0xBE], [CHR 0xE1, CHR 0xB2, CHR 0xBE]),
     ([CHR 0xE1, CHR 0x83, CHR 0xBF], [CHR 0xE1, CHR 0xB2, CHR 0xBF]),
     ([CHR 0xE1, CHR 0x8F, CHR 0xB8], [CHR 0xE1, CHR 0x8F, CHR 0xB0]),
     ([CHR 0xE1, CHR 0x8F, CHR 0xB9], [CHR 0xE1, CHR 0x8F, CHR 0xB1]),
     ([CHR 0xE1, CHR 0x8F, CHR 0xBA], [CHR 0xE1, CHR 0x8F, CHR 0xB2]),
     ([CHR 0xE1, CHR 0x8F, CHR 0xBB], [CHR 0xE1, CHR 0x8F, CHR 0xB3]),
     ([CHR 0xE1, CHR 0x8F, CHR 0xBC], [CHR 0xE1, CHR 0x8F, CHR 0xB4]),
     ([CHR 0xE1, CHR 0x8F, CHR 0xBD], [CHR 0xE1, CHR 0x8F, CHR 0xB5]),
     ([CHR 0xE1, CHR 0xB2, CHR 0x80], [CHR 0xD0, CHR 0x92]),
     ([CHR 0xE1, CHR 0xB2, CHR 0x81], [CHR 0xD0, CHR 0x94]),
     ([CHR 0xE1, CHR 0xB2, CHR 0x82], [CHR 0xD0, CHR 0x9E]),
     ([CHR 0xE1, CHR 0xB2, CHR 0x83], [CHR 0xD0, CHR 0xA1]),
     ([CHR 0xE1, CHR 0xB2, CHR 0x84], [CHR 0xD0, CHR 0xA2]),
     ([CHR 0xE1, CHR 0xB2, CHR 0x85], [CHR 0xD0, CHR 0xA2]),
     ([CHR 0xE1, CHR 0xB2, CHR 0x86], [CHR 0xD0, CHR 0xAA]),
     ([CHR 0xE1, CHR 0xB2, CHR 0x87], [CHR 0xD1, CHR 0xA2]),
     ([CHR 0xE1, CHR 0xB2, CHR 0x88], [CHR 0xEA, CHR 0x99, CHR 0x8A]),
     ([CHR 0xE1, CHR 0xB5, CHR 0xB9], [CHR 0xEA, CHR 0x9D, CHR 0xBD]),
     ([CHR 0xE1, CHR 0xB5, CHR 0xBD], [CHR 0xE2, CHR 0xB1, CHR 0xA3]),
     ([CHR 0xE1, CHR 0xB6, CHR 0x8E], [CHR 0xEA, CHR 0x9F, CHR 0x86]),
     ([CHR 0xE1, CHR 0xB8, CHR 0x81], [CHR 0xE1, CHR 0xB8, CHR 0x80]),
     ([CHR 0xE1, CHR 0xB8, CHR 0x83], [CHR 0xE1, CHR 0xB8, CHR 0x82]),
     ([CHR 0xE1, CHR 0xB8, CHR 0x85], [CHR 0xE1, CHR 0xB8, CHR 0x84]),
     ([CHR 0xE1, CHR 0xB8, CHR 0x87], [CHR 0xE1, CHR 0xB8, CHR 0x86]),
     ([CHR 0xE1, CHR 0xB8, CHR 0x89], [CHR 0xE1, CHR 0xB8, CHR 0x88]),
     ([CHR 0xE1, CHR 0xB8, CHR 0x8B], [CHR 0xE1, CHR 0xB8, CHR 0x8A]),
     ([CHR 0xE1, CHR 0xB8, CHR 0x8D], [CHR 0xE1, CHR 0xB8, CHR 0x8C]),
     ([CHR 0xE1, CHR 0xB8, CHR 0x8F], [CHR 0xE1, CHR 0xB8, CHR 0x8E]),
     ([CHR 0xE1, CHR 0xB8, CHR 0x91], [CHR 0xE1, CHR 0xB8, CHR 0x90]),
     ([CHR 0xE1, CHR 0xB8, CHR 0x93], [CHR 0xE1, CHR 0xB8, CHR 0x92]),
     ([CHR 0xE1, CHR 0xB8, CHR 0x95], [CHR 0xE1, CHR 0xB8, CHR 0x94])]"

definition upper_1E17 :: "(string \<times> string) list" where
  "upper_1E17 =
    [([CHR 0xE1, CHR 0xB8, CHR 0x97], [CHR 0xE1, CHR 0xB8, CHR 0x96]),
     ([CHR 0xE1, CHR 0xB8, CHR 0x99], [CHR 0xE1, CHR 0xB8, CHR 0x98]),
     ([CHR 0xE1, CHR 0xB8, CHR 0x9B], [CHR 0xE1, CHR 0xB8, CHR 0x9A]),
     ([CHR 0xE1, CHR 0xB8, CHR 0x9D], [CHR 0xE1, CHR 0xB8, CHR 0x9C]),
     ([CHR 0xE1, CHR 0xB8, CHR 0x9F], [CHR 0xE1, CHR 0xB8, CHR 0x9E]),
     ([CHR 0xE1, CHR 0xB8, CHR 0xA1], [CHR 0xE1, CHR 0xB8, CHR 0xA0]),
     ([CHR 0xE1, CHR 0xB8, CHR 0xA3], [CHR 0xE1, CHR 0xB8, CHR 0xA2]),
     ([CHR 0xE1, CHR 0xB8, CHR 0xA5], [CHR 0xE1, CHR 0xB8, CHR 0xA4]),
     ([CHR 0xE1, CHR 0xB8, CHR 0xA7], [CHR 0xE1, CHR 0xB8, CHR 0xA6]),
     ([CHR 0xE1, CHR 0xB8, CHR 0xA9], [CHR 0xE1, CHR 0xB8, CHR 0xA8]),
     ([CHR 0xE1, CHR 0xB8, CHR 0xAB], [CHR 0xE1, CHR 0xB8, CHR 0xAA]),
     ([CHR 0xE1, CHR 0xB8, CHR 0xAD], [CHR 0xE1, CHR 0xB8, CHR 0xAC]),
     ([CHR 0xE1, CHR 0xB8, CHR 0xAF], [CHR 0xE1, CHR 0xB8, CHR 0xAE]),
     ([CHR 0xE1, CHR 0xB8, CHR 0xB1], [CHR 0xE1, CHR 0xB8, CHR 0xB0]),
     ([CHR 0xE1, CHR 0xB8, CHR 0xB3], [CHR 0xE1, CHR 0xB8, CHR 0xB2]),
     ([CHR 0xE1, CHR 0xB8, CHR 0xB5], [CHR 0xE1, CHR 0xB8, CHR 0xB4]),
     ([CHR 0xE1, CHR 0xB8, CHR 0xB7], [CHR 0xE1, CHR 0xB8, CHR 0xB6]),
     ([CHR 0xE1, CHR 0xB8, CHR 0xB9], [CHR 0xE1, CHR 0xB8, CHR 0xB8]),
     ([CHR 0xE1, CHR 0xB8, CHR 0xBB], [CHR 0xE1, CHR 0xB8, CHR 0xBA]),
     ([CHR 0xE1, CHR 0xB8, CHR 0xBD], [CHR 0xE1, CHR 0xB8, CHR 0xBC]),
     ([CHR 0xE1, CHR 0xB8, CHR 0xBF], [CHR 0xE1, CHR 0xB8, CHR 0xBE]),
     ([CHR 0xE1, CHR 0xB9, CHR 0x81], [CHR 0xE1, CHR 0xB9, CHR 0x80]),
     ([CHR 0xE1, CHR 0xB9, CHR 0x83], [CHR 0xE1, CHR 0xB9, CHR 0x82]),
     ([CHR 0xE1, CHR 0xB9, CHR 0x85], [CHR 0xE1, CHR 0xB9, CHR 0x84]),
     ([CHR 0xE1, CHR 0xB9, CHR 0x87], [CHR 0xE1, CHR 0xB9, CHR 0x86]),
     ([CHR 0xE1, CHR 0xB9, CHR 0x89], [CHR 0xE1, CHR 0xB9, CHR 0x88]),
     ([CHR 0xE1, CHR 0xB9, CHR 0x8B], [CHR 0xE1, CHR 0xB9, CHR 0x8A]),
     ([CHR 0xE1, CHR 0xB9, CHR 0x8D], [CHR 0xE1, CHR 0xB9, CHR 0x8C]),
     ([CHR 0xE1, CHR 0xB9, CHR 0x8F], [CHR 0xE1, CHR 0xB9, CHR 0x8E]),
     ([CHR 0xE1, CHR 0xB9, CHR 0x91], [CHR 0xE1, CHR 0xB9, CHR 0x90]),
     ([CHR 0xE1, CHR 0xB9, CHR 0x93], [CHR 0xE1, CHR 0xB9, CHR 0x92]),
     ([CHR 0xE1, CHR 0xB9, CHR 0x95], [CHR 0xE1, CHR 0xB9, CHR 0x94]),
     ([CHR 0xE1, CHR 0xB9, CHR 0x97], [CHR 0xE1, CHR 0xB9, CHR 0x96]),
     ([CHR 0xE1, CHR 0xB9, CHR 0x99], [CHR 0xE1, CHR 0xB9, CHR 0x98]),
     ([CHR 0xE1, CHR 0xB9, CHR 0x9B], [CHR 0xE1, CHR 0xB9, CHR 0x9A]),
     ([CHR 0xE1, CHR 0xB9, CHR 0x9D], [CHR 0xE1, CHR 0xB9, CHR 0x9C]),
     ([CHR 0xE1, CHR 0xB9, CHR 0x9F], [CHR 0xE1, CHR 0xB9, CHR 0x9E]),
     ([CHR 0xE1, CHR 0xB9, CHR 0xA1], [CHR 0xE1, CHR 0xB9, CHR 0xA0]),
     ([CHR 0xE1, CHR 0xB9, CHR 0xA3], [CHR 0xE1, CHR 0xB9, CHR 0xA2]),
     ([CHR 0xE1, CHR 0xB9, CHR 0xA5], [CHR 0xE1, CHR 0xB9, CHR 0xA4]),
     ([CHR 0xE1, CHR 0xB9, CHR 0xA7], [CHR 0xE1, CHR 0xB9, CHR 0xA6]),
     ([CHR 0xE1, CHR 0xB9, CHR 0xA9], [CHR 0xE1, CHR 0xB9, CHR 0xA8]),
     ([CHR 0xE1, CHR 0xB9, CHR 0xAB], [CHR 0xE1, CHR 0xB9, CHR 0xAA]),
     ([CHR 0xE1, CHR 0xB9, CHR 0xAD], [CHR 0xE1, CHR 0xB9, CHR 0xAC]),
     ([CHR 0xE1, CHR 0xB9, CHR 0xAF], [CHR 0xE1, CHR 0xB9, CHR 0xAE]),
     ([CHR 0xE1, CHR 0xB9, CHR 0xB1], [CHR 0xE1, CHR 0xB9, CHR 0xB0]),
     ([CHR 0xE1, CHR 0xB9, CHR 0xB3], [CHR 0xE1, CHR 0xB9, CHR 0xB2]),
     ([CHR 0xE1, CHR 0xB9, CHR 0xB5], [CHR 0xE1, CHR 0xB9, CHR 0xB4]),
     ([CHR 0xE1, CHR 0xB9, CHR 0xB7], [CHR 0xE1, CHR 0xB9, CHR 0xB6]),
     ([CHR 0xE1, CHR 0xB9, CHR 0xB9], [CHR 0xE1, CHR 0xB9, CHR 0xB8])]"

definition upper_1E7B :: "(string \<times> string) list" where
  "upper_1E7B =
    [([CHR 0xE1, CHR 0xB9, CHR 0xBB], [CHR 0xE1, CHR 0xB9, CHR 0xBA]),
     ([CHR 0xE1, CHR 0xB9, CHR 0xBD], [CHR 0xE1, CHR 0xB9, CHR 0xBC]),
     ([CHR 0xE1, CHR 0xB9, CHR 0xBF], [CHR 0xE1, CHR 0xB9, CHR 0xBE]),
     ([CHR 0xE1, CHR 0xBA, CHR 0x81], [CHR 0xE1, CHR 0xBA, CHR 0x80]),
     ([CHR 0xE1, CHR 0xBA, CHR 0x83], [CHR 0xE1, CHR 0xBA, CHR 0x82]),
     ([CHR 0xE1, CHR 0xBA, CHR 0x85], [CHR 0xE1, CHR 0xBA, CHR 0x84]),
     ([CHR 0xE1, CHR 0xBA, CHR 0x87], [CHR 0xE1, CHR 0xBA, CHR 0x86]),
     ([CHR 0xE1, CHR 0xBA, CHR 0x89], [CHR 0xE1, CHR 0xBA, CHR 0x88]),
     ([CHR 0xE1, CHR 0xBA, CHR 0x8B], [CHR 0xE1, CHR 0xBA, CHR 0x8A]),
     ([CHR 0xE1, CHR 0xBA, CHR 0x8D], [CHR 0xE1, CHR 0xBA, CHR 0x8C]),
     ([CHR 0xE1, CHR 0xBA, CHR 0x8F], [CHR 0xE1, CHR 0xBA, CHR 0x8E]),
     ([CHR 0xE1, CHR 0xBA, CHR 0x91], [CHR 0xE1, CHR 0xBA, CHR 0x90]),
     ([CHR 0xE1, CHR 0xBA, CHR 0x93], [CHR 0xE1, CHR 0xBA, CHR 0x92]),
     ([CHR 0xE1, CHR 0xBA, CHR 0x95], [CHR 0xE1, CHR 0xBA, CHR 0x94]),
     ([CHR 0xE1, CHR 0xBA, CHR 0x96], [CHR 0x48, CHR 0xCC, CHR 0xB1]),
     ([CHR 0xE1, CHR 0xBA, CHR 0x97], [CHR 0x54, CHR 0xCC, CHR 0x88]),
     ([CHR 0xE1, CHR 0xBA, CHR 0x98], [CHR 0x57, CHR 0xCC, CHR 0x8A]),
     ([CHR 0xE1, CHR 0xBA, CHR 0x99], [CHR 0x59, CHR 0xCC, CHR 0x8A]),
     ([CHR 0xE1, CHR 0xBA, CHR 0x9A], [CHR 0x41, CHR 0xCA, CHR 0xBE]),
     ([CHR 0xE1, CHR 0xBA, CHR 0x9B], [CHR 0xE1, CHR 0xB9, CHR 0xA0]),
     ([CHR 0xE1, CHR 0xBA, CHR 0xA1], [CHR 0xE1, CHR 0xBA, CHR 0xA0]),
     ([CHR 0xE1, CHR 0xBA, CHR 0xA3], [CHR 0xE1, CHR 0xBA, CHR 0xA2]),
     ([CHR 0xE1, CHR 0xBA, CHR 0xA5], [CHR 0xE1, CHR 0xBA, CHR 0xA4]),
     ([CHR 0xE1, CHR 0xBA, CHR 0xA7], [CHR 0xE1, CHR 0xBA, CHR 0xA6]),
     ([CHR 0xE1, CHR 0xBA, CHR 0xA9], [CHR 0xE1, CHR 0xBA, CHR 0xA8]),
     ([CHR 0xE1, CHR 0xBA, CHR 0xAB], [CHR 0xE1, CHR 0xBA, CHR 0xAA]),
     ([CHR 0xE1, CHR 0xBA, CHR 0xAD], [CHR 0xE1, CHR 0xBA, CHR 0xAC]),
     ([CHR 0xE1, CHR 0xBA, CHR 0xAF], [CHR 0xE1, CHR 0xBA, CHR 0xAE]),
     ([CHR 0xE1, CHR 0xBA, CHR 0xB1], [CHR 0xE1, CHR 0xBA, CHR 0xB0]),
     ([CHR 0xE1, CHR 0xBA, CHR 0xB3], [CHR 0xE1, CHR 0xBA, CHR 0xB2]),
     ([CHR 0xE1, CHR 0xBA, CHR 0xB5], [CHR 0xE1, CHR 0xBA, CHR 0xB4]),
     ([CHR 0xE1, CHR 0xBA, CHR 0xB7], [CHR 0xE1, CHR 0xBA, CHR 0xB6]),
     ([CHR 0xE1, CHR 0xBA, CHR 0xB9], [CHR 0xE1, CHR 0xBA, CHR 0xB8]),
     ([CHR 0xE1, CHR 0xBA, CHR 0xBB], [CHR 0xE1, CHR 0xBA, CHR 0xBA]),
     ([CHR 0xE1, CHR 0xBA, CHR 0xBD], [CHR 0xE1, CHR 0xBA, CHR 0xBC]),
     ([CHR 0xE1, CHR 0xBA, CHR 0xBF], [CHR 0xE1, CHR 0xBA, CHR 0xBE]),
     ([CHR 0xE1, CHR 0xBB, CHR 0x81], [CHR 0xE1, CHR 0xBB, CHR 0x80]),
     ([CHR 0xE1, CHR 0xBB, CHR 0x83], [CHR 0xE1, CHR 0xBB, CHR 0x82]),
     ([CHR 0xE1, CHR 0xBB, CHR 0x85], [CHR 0xE1, CHR 0xBB, CHR 0x84]),
     ([CHR 0xE1, CHR 0xBB, CHR 0x87], [CHR 0xE1, CHR 0xBB, CHR 0x86]),
     ([CHR 0xE1, CHR 0xBB, CHR 0x89], [CHR 0xE1, CHR 0xBB, CHR 0x88]),
     ([CHR 0xE1, CHR 0xBB, CHR 0x8B], [CHR 0xE1, CHR 0xBB, CHR 0x8A]),
     ([CHR 0xE1, CHR 0xBB, CHR 0x8D], [CHR 0xE1, CHR 0xBB, CHR 0x8C]),
     ([CHR 0xE1, CHR 0xBB, CHR 0x8F], [CHR 0xE1, CHR 0xBB, CHR 0x8E]),
     ([CHR 0xE1, CHR 0xBB, CHR 0x91], [CHR 0xE1, CHR 0xBB, CHR 0x90]),
     ([CHR 0xE1, CHR 0xBB, CHR 0x93], [CHR 0xE1, CHR 0xBB, CHR 0x92]),
     ([CHR 0xE1, CHR 0xBB, CHR 0x95], [CHR 0xE1, CHR 0xBB, CHR 0x94]),
     ([CHR 0xE1, CHR 0xBB, CHR 0x97], [CHR 0xE1, CHR 0xBB, CHR 0x96]),
     ([CHR 0xE1, CHR 0xBB, CHR 0x99], [CHR 0xE1, CHR 0xBB, CHR 0x98]),
     ([CHR 0xE1, CHR 0xBB, CHR 0x9B], [CHR 0xE1, CHR 0xBB, CHR 0x9A])]"

definition upper_1EDD :: "(string \<times> string) list" where
  "upper_1EDD =
    [([CHR 0xE1, CHR 0xBB, CHR 0x9D], [CHR 0xE1, CHR 0xBB, CHR 0x9C]),
     ([CHR 0xE1, CHR 0xBB, CHR 0x9F], [CHR 0xE1, CHR 0xBB, CHR 0x9E]),
     ([CHR 0xE1, CHR 0xBB, CHR 0xA1], [CHR 0xE1, CHR 0xBB, CHR 0xA0]),
     ([CHR 0xE1, CHR 0xBB, CHR 0xA3], [CHR 0xE1, CHR 0xBB, CHR 0xA2]),
     ([CHR 0xE1, CHR 0xBB, CHR 0xA5], [CHR 0xE1, CHR 0xBB, CHR 0xA4]),
     ([CHR 0xE1, CHR 0xBB, CHR 0xA7], [CHR 0xE1, CHR 0xBB, CHR 0xA6]),
     ([CHR 0xE1, CHR 0xBB, CHR 0xA9], [CHR 0xE1, CHR 0xBB, CHR 0xA8]),
     ([CHR 0xE1, CHR 0xBB, CHR 0xAB], [CHR 0xE1, CHR 0xBB, CHR 0xAA]),
     ([CHR 0xE1, CHR 0xBB, CHR 0xAD], [CHR 0xE1, CHR 0xBB, CHR 0xAC]),
     ([CHR 0xE1, CHR 0xBB, CHR 0xAF], [CHR 0xE1, CHR 0xBB, CHR 0xAE]),
     ([CHR 0xE1, CHR 0xBB, CHR 0xB1], [CHR 0xE1, CHR 0xBB, CHR 0xB0]),
     ([CHR 0xE1, CHR 0xBB, CHR 0xB3], [CHR 0xE1, CHR 0xBB, CHR 0xB2]),
     ([CHR 0xE1, CHR 0xBB, CHR 0xB5], [CHR 0xE1, CHR 0xBB, CHR 0xB4]),
     ([CHR 0xE1, CHR 0xBB, CHR 0xB7], [CHR 0xE1, CHR 0xBB, CHR 0xB6]),
     ([CHR 0xE1, CHR 0xBB, CHR 0xB9], [CHR 0xE1, CHR 0xBB, CHR 0xB8]),
     ([CHR 0xE1, CHR 0xBB, CHR 0xBB], [CHR 0xE1, CHR 0xBB, CHR 0xBA]),
     ([CHR 0xE1, CHR 0xBB, CHR 0xBD], [CHR 0xE1, CHR 0xBB, CHR 0xBC]),
     ([CHR 0xE1, CHR 0xBB, CHR 0xBF], [CHR 0xE1, CHR 0xBB, CHR 0xBE]),
     ([CHR 0xE1, CHR 0xBC, CHR 0x80], [CHR 0xE1, CHR 0xBC, CHR 0x88]),
     ([CHR 0xE1, CHR 0xBC, CHR 0x81], [CHR 0xE1, CHR 0xBC, CHR 0x89]),
     ([CHR 0xE1, CHR 0xBC, CHR 0x82], [CHR 0xE1, CHR 0xBC, CHR 0x8A]),
     ([CHR 0xE1, CHR 0xBC, CHR 0x83], [CHR 0xE1, CHR 0xBC, CHR 0x8B]),
     ([CHR 0xE1, CHR 0xBC, CHR 0x84], [CHR 0xE1, CHR 0xBC, CHR 0x8C]),
     ([CHR 0xE1, CHR 0xBC, CHR 0x85], [CHR 0xE1, CHR 0xBC, CHR 0x8D]),
     ([CHR 0xE1, CHR 0xBC, CHR 0x86], [CHR 0xE1, CHR 0xBC, CHR 0x8E]),
     ([CHR 0xE1, CHR 0xBC, CHR 0x87], [CHR 0xE1, CHR 0xBC, CHR 0x8F]),
     ([CHR 0xE1, CHR 0xBC, CHR 0x90], [CHR 0xE1, CHR 0xBC, CHR 0x98]),
     ([CHR 0xE1, CHR 0xBC, CHR 0x91], [CHR 0xE1, CHR 0xBC, CHR 0x99]),
     ([CHR 0xE1, CHR 0xBC, CHR 0x92], [CHR 0xE1, CHR 0xBC, CHR 0x9A]),
     ([CHR 0xE1, CHR 0xBC, CHR 0x93], [CHR 0xE1, CHR 0xBC, CHR 0x9B]),
     ([CHR 0xE1, CHR 0xBC, CHR 0x94], [CHR 0xE1, CHR 0xBC, CHR 0x9C]),
     ([CHR 0xE1, CHR 0xBC, CHR 0x95], [CHR 0xE1, CHR 0xBC, CHR 0x9D]),
     ([CHR 0xE1, CHR 0xBC, CHR 0xA0], [CHR 0xE1, CHR 0xBC, CHR 0xA8]),
     ([CHR 0xE1, CHR 0xBC, CHR 0xA1], [CHR 0xE1, CHR 0xBC, CHR 0xA9]),
     ([CHR 0xE1, CHR 0xBC, CHR 0xA2], [CHR 0xE1, CHR 0xBC, CHR 0xAA]),
     ([CHR 0xE1, CHR 0xBC, CHR 0xA3], [CHR 0xE1, CHR 0xBC, CHR 0xAB]),
     ([CHR 0xE1, CHR 0xBC, CHR 0xA4], [CHR 0xE1, CHR 0xBC, CHR 0xAC]),
     ([CHR 0xE1, CHR 0xBC, CHR 0xA5], [CHR 0xE1, CHR 0xBC, CHR 0xAD]),
     ([CHR 0xE1, CHR 0xBC, CHR 0xA6], [CHR 0xE1, CHR 0xBC, CHR 0xAE]),
     ([CHR 0xE1, CHR 0xBC, CHR 0xA7], [CHR 0xE1, CHR 0xBC, CHR 0xAF]),
     ([CHR 0xE1, CHR 0xBC, CHR 0xB0], [CHR 0xE1, CHR 0xBC, CHR 0xB8]),
     ([CHR 0xE1, CHR 0xBC, CHR 0xB1], [CHR 0xE1, CHR 0xBC, CHR 0xB9]),
     ([CHR 0xE1, CHR 0xBC, CHR 0xB2], [CHR 0xE1, CHR 0xBC, CHR 0xBA]),
     ([CHR 0xE1, CHR 0xBC, CHR 0xB3], [CHR 0xE1, CHR 0xBC, CHR 0xBB]),
     ([CHR 0xE1, CHR 0xBC, CHR 0xB4], [CHR 0xE1, CHR 0xBC, CHR 0xBC]),
     ([CHR 0xE1, CHR 0xBC, CHR 0xB5], [CHR 0xE1, CHR 0xBC, CHR 0xBD]),
     ([CHR 0xE1, CHR 0xBC, CHR 0xB6], [CHR 0xE1, CHR 0xBC, CHR 0xBE]),
     ([CHR 0xE1, CHR 0xBC, CHR 0xB7], [CHR 0xE1, CHR 0xBC, CHR 0xBF]),
     ([CHR 0xE1, CHR 0xBD, CHR 0x80], [CHR 0xE1, CHR 0xBD, CHR 0x88]),
     ([CHR 0xE1, CHR 0xBD, CHR 0x81], [CHR 0xE1, CHR 0xBD, CHR 0x89])]"

definition upper_1F42 :: "(string \<times> string) list" where
  "upper_1F42 =
    [([CHR 0xE1, CHR 0xBD, CHR 0x82], [CHR 0xE1, CHR 0xBD, CHR 0x8A]),
     ([CHR 0xE1, CHR 0xBD, CHR 0x83], [CHR 0xE1, CHR 0xBD, CHR 0x8B]),
     ([CHR 0xE1, CHR 0xBD, CHR 0x84], [CHR 0xE1, CHR 0xBD, CHR 0x8C]),
     ([CHR 0xE1, CHR 0xBD, CHR 0x85], [CHR 0xE1, CHR 0xBD, CHR 0x8D]),
     ([CHR 0xE1, CHR 0xBD, CHR 0x90], [CHR 0xCE, CHR 0xA5, CHR 0xCC, CHR 0x93]),
     ([CHR 0xE1, CHR 0xBD, CHR 0x91], [CHR 0xE1, CHR 0xBD, CHR 0x99]),
     ([CHR 0xE1, CHR 0xBD, CHR 0x92], [CHR 0xCE, CHR 0xA5, CHR 0xCC, CHR 0x93, CHR 0xCC, CHR 0x80]),
     ([CHR 0xE1, CHR 0xBD, CHR 0x93], [CHR 0xE1, CHR 0xBD, CHR 0x9B]),
     ([CHR 0xE1, CHR 0xBD, CHR 0x94], [CHR 0xCE, CHR 0xA5, CHR 0xCC, CHR 0x93, CHR 0xCC, CHR 0x81]),
     ([CHR 0xE1, CHR 0xBD, CHR 0x95], [CHR 0xE1, CHR 0xBD, CHR 0x9D]),
     ([CHR 0xE1, CHR 0xBD, CHR 0x96], [CHR 0xCE, CHR 0xA5, CHR 0xCC, CHR 0x93, CHR 0xCD, CHR 0x82]),
     ([CHR 0xE1, CHR 0xBD, CHR 0x97], [CHR 0xE1, CHR 0xBD, CHR 0x9F]),
     ([CHR 0xE1, CHR 0xBD, CHR 0xA0], [CHR 0xE1, CHR 0xBD, CHR 0xA8]),
     ([CHR 0xE1, CHR 0xBD, CHR 0xA1], [CHR 0xE1, CHR 0xBD, CHR 0xA9]),
     ([CHR 0xE1, CHR 0xBD, CHR 0xA2], [CHR 0xE1, CHR 0xBD, CHR 0xAA]),
     ([CHR 0xE1, CHR 0xBD, CHR 0xA3], [CHR 0xE1, CHR 0xBD, CHR 0xAB]),
     ([CHR 0xE1, CHR 0xBD, CHR 0xA4], [CHR 0xE1, CHR 0xBD, CHR 0xAC]),
     ([CHR 0xE1, CHR 0xBD, CHR 0xA5], [CHR 0xE1, CHR 0xBD, CHR 0xAD]),
     ([CHR 0xE1, CHR 0xBD, CHR 0xA6], [CHR 0xE1, CHR 0xBD, CHR 0xAE]),
     ([CHR 0xE1, CHR 0xBD, CHR 0xA7], [CHR 0xE1, CHR 0xBD, CHR 0xAF]),
     ([CHR 0xE1, CHR 0xBD, CHR 0xB0], [CHR 0xE1, CHR 0xBE, CHR 0xBA]),
     ([CHR 0xE1, CHR 0xBD, CHR 0xB1], [CHR 0xE1, CHR 0xBE, CHR 0xBB]),
     ([CHR 0xE1, CHR 0xBD, CHR 0xB2], [CHR 0xE1, CHR 0xBF, CHR 0x88]),
     ([CHR 0xE1, CHR 0xBD, CHR 0xB3], [CHR 0xE1, CHR 0xBF, CHR 0x89]),
     ([CHR 0xE1, CHR 0xBD, CHR 0xB4], [CHR 0xE1, CHR 0xBF, CHR 0x8A]),
     ([CHR 0xE1, CHR 0xBD, CHR 0xB5], [CHR 0xE1, CHR 0xBF, CHR 0x8B]),
     ([CHR 0xE1, CHR 0xBD, CHR 0xB6], [CHR 0xE1, CHR 0xBF, CHR 0x9A]),
     ([CHR 0xE1, CHR 0xBD, CHR 0xB7], [CHR 0xE1, CHR 0xBF, CHR 0x9B]),
     ([CHR 0xE1, CHR 0xBD, CHR 0xB8], [CHR 0xE1, CHR 0xBF, CHR 0xB8]),
     ([CHR 0xE1, CHR 0xBD, CHR 0xB9], [CHR 0xE1, CHR 0xBF, CHR 0xB9]),
     ([CHR 0xE1, CHR 0xBD, CHR 0xBA], [CHR 0xE1, CHR 0xBF, CHR 0xAA]),
     ([CHR 0xE1, CHR 0xBD, CHR 0xBB], [CHR 0xE1, CHR 0xBF, CHR 0xAB]),
     ([CHR 0xE1, CHR 0xBD, CHR 0xBC], [CHR 0xE1, CHR 0xBF, CHR 0xBA]),
     ([CHR 0xE1, CHR 0xBD, CHR 0xBD], [CHR 0xE1, CHR 0xBF, CHR 0xBB]),
     ([CHR 0xE1, CHR 0xBE, CHR 0x80], [CHR 0xE1, CHR 0xBC, CHR 0x88, CHR 0xCE, CHR 0x99]),
     ([CHR 0xE1, CHR 0xBE, CHR 0x81], [CHR 0xE1, CHR 0xBC, CHR 0x89, CHR 0xCE, CHR 0x99]),
     ([CHR 0xE1, CHR 0xBE, CHR 0x82], [CHR 0xE1, CHR 0xBC, CHR 0x8A, CHR 0xCE, CHR 0x99]),
     ([CHR 0xE1, CHR 0xBE, CHR 0x83], [CHR 0xE1, CHR 0xBC, CHR 0x8B, CHR 0xCE, CHR 0x99]),
     ([CHR 0xE1, CHR 0xBE, CHR 0x84], [CHR 0xE1, CHR 0xBC, CHR 0x8C, CHR 0xCE, CHR 0x99]),
     ([CHR 0xE1, CHR 0xBE, CHR 0x85], [CHR 0xE1, CHR 0xBC, CHR 0x8D, CHR 0xCE, CHR 0x99]),
     ([CHR 0xE1, CHR 0xBE, CHR 0x86], [CHR 0xE1, CHR 0xBC, CHR 0x8E, CHR 0xCE, CHR 0x99]),
     ([CHR 0xE1, CHR 0xBE, CHR 0x87], [CHR 0xE1, CHR 0xBC, CHR 0x8F, CHR 0xCE, CHR 0x99]),
     ([CHR 0xE1, CHR 0xBE, CHR 0x88], [CHR 0xE1, CHR 0xBC, CHR 0x88, CHR 0xCE, CHR 0x99]),
     ([CHR 0xE1, CHR 0xBE, CHR 0x89], [CHR 0xE1, CHR 0xBC, CHR 0x89, CHR 0xCE, CHR 0x99]),
     ([CHR 0xE1, CHR 0xBE, CHR 0x8A], [CHR 0xE1, CHR 0xBC, CHR 0x8A, CHR 0xCE, CHR 0x99]),
     ([CHR 0xE1, CHR 0xBE, CHR 0x8B], [CHR 0xE1, CHR 0xBC, CHR 0x8B, CHR 0xCE, CHR 0x99]),
     ([CHR 0xE1, CHR 0xBE, CHR 0x8C], [CHR 0xE1, CHR 0xBC, CHR 0x8C, CHR 0xCE, CHR 0x99]),
     ([CHR 0xE1, CHR 0xBE, CHR 0x8D], [CHR 0xE1, CHR 0xBC, CHR 0x8D, CHR 0xCE, CHR 0x99]),
     ([CHR 0xE1, CHR 0xBE, CHR 0x8E], [CHR 0xE1, CHR 0xBC, CHR 0x8E, CHR 0xCE, CHR 0x99]),
     ([CHR 0xE1, CHR 0xBE, CHR 0x8F], [CHR 0xE1, CHR 0xBC, CHR 0x8F, CHR 0xCE, CHR 0x99])]"

definition upper_1F90 :: "(string \<times> string) list" where
  "upper_1F90 =
    [([CHR 0xE1, CHR 0xBE, CHR 0x90], [CHR 0xE1, CHR 0xBC, CHR 0xA8, CHR 0xCE, CHR 0x99]),
     ([CHR 0xE1, CHR 0xBE, CHR 0x91], [CHR 0xE1, CHR 0xBC, CHR 0xA9, CHR 0xCE, CHR 0x99]),
     ([CHR 0xE1, CHR 0xBE, CHR 0x92], [CHR 0xE1, CHR 0xBC, CHR 0xAA, CHR 0xCE, CHR 0x99]),
     ([CHR 0xE1, CHR 0xBE, CHR 0x93], [CHR 0xE1, CHR 0xBC, CHR 0xAB, CHR 0xCE, CHR 0x99]),
     ([CHR 0xE1, CHR 0xBE, CHR 0x94], [CHR 0xE1, CHR 0xBC, CHR 0xAC, CHR 0xCE, CHR 0x99]),
     ([CHR 0xE1, CHR 0xBE, CHR 0x95], [CHR 0xE1, CHR 0xBC, CHR 0xAD, CHR 0xCE, CHR 0x99]),
     ([CHR 0xE1, CHR 0xBE, CHR 0x96], [CHR 0xE1, CHR 0xBC, CHR 0xAE, CHR 0xCE, CHR 0x99]),
     ([CHR 0xE1, CHR 0xBE, CHR 0x97], [CHR 0xE1, CHR 0xBC, CHR 0xAF, CHR 0xCE, CHR 0x99]),
     ([CHR 0xE1, CHR 0xBE, CHR 0x98], [CHR 0xE1, CHR 0xBC, CHR 0xA8, CHR 0xCE, CHR 0x99]),
     ([CHR 0xE1, CHR 0xBE, CHR 0x99], [CHR 0xE1, CHR 0xBC, CHR 0xA9, CHR 0xCE, CHR 0x99]),
     ([CHR 0xE1, CHR 0xBE, CHR 0x9A], [CHR 0xE1, CHR 0xBC, CHR 0xAA, CHR 0xCE, CHR 0x99]),
     ([CHR 0xE1, CHR 0xBE, CHR 0x9B], [CHR 0xE1, CHR 0xBC, CHR 0xAB, CHR 0xCE, CHR 0x99]),
     ([CHR 0xE1, CHR 0xBE, CHR 0x9C], [CHR 0xE1, CHR 0xBC, CHR 0xAC, CHR 0xCE, CHR 0x99]),
     ([CHR 0xE1, CHR 0xBE, CHR 0x9D], [CHR 0xE1, CHR 0xBC, CHR 0xAD, CHR 0xCE, CHR 0x99]),
     ([CHR 0xE1, CHR 0xBE, CHR 0x9E], [CHR 0xE1, CHR 0xBC, CHR 0xAE, CHR 0xCE, CHR 0x99]),
     ([CHR 0xE1, CHR 0xBE, CHR 0x9F], [CHR 0xE1, CHR 0xBC, CHR 0xAF, CHR 0xCE, CHR 0x99]),
     ([CHR 0xE1, CHR 0xBE, CHR 0xA0], [CHR 0xE1, CHR 0xBD, CHR 0xA8, CHR 0xCE, CHR 0x99]),
     ([CHR 0xE1, CHR 0xBE, CHR 0xA1], [CHR 0xE1, CHR 0xBD, CHR 0xA9, CHR 0xCE, CHR 0x99]),
     ([CHR 0xE1, CHR 0xBE, CHR 0xA2], [CHR 0xE1, CHR 0xBD, CHR 0xAA, CHR 0xCE, CHR 0x99]),
     ([CHR 0xE1, CHR 0xBE, CHR 0xA3], [CHR 0xE1, CHR 0xBD, CHR 0xAB, CHR 0xCE, CHR 0x99]),
     ([CHR 0xE1, CHR 0xBE, CHR 0xA4], [CHR 0xE1, CHR 0xBD, CHR 0xAC, CHR 0xCE, CHR 0x99]),
     ([CHR 0xE1, CHR 0xBE, CHR 0xA5], [CHR 0xE1, CHR 0xBD, CHR 0xAD, CHR 0xCE, CHR 0x99]),
     ([CHR 0xE1, CHR 0xBE, CHR 0xA6], [CHR 0xE1, CHR 0xBD, CHR 0xAE, CHR 0xCE, CHR 0x99]),
     ([CHR 0xE1, CHR 0xBE, CHR 0xA7], [CHR 0xE1, CHR 0xBD, CHR 0xAF, CHR 0xCE, CHR 0x99]),
     ([CHR 0xE1, CHR 0xBE, CHR 0xA8], [CHR 0xE1, CHR 0xBD, CHR 0xA8, CHR 0xCE, CHR 0x99]),
     ([CHR 0xE1, CHR 0xBE, CHR 0xA9], [CHR 0xE1, CHR 0xBD, CHR 0xA9, CHR 0xCE, CHR 0x99]),
     ([CHR 0xE1, CHR 0xBE, CHR 0xAA], [CHR 0xE1, CHR 0xBD, CHR 0xAA, CHR 0xCE, CHR 0x99]),
     ([CHR 0xE1, CHR 0xBE, CHR 0xAB], [CHR 0xE1, CHR 0xBD, CHR 0xAB, CHR 0xCE, CHR 0x99]),
     ([CHR 0xE1, CHR 0xBE, CHR 0xAC], [CHR 0xE1, CHR 0xBD, CHR 0xAC, CHR 0xCE, CHR 0x99]),
     ([CHR 0xE1, CHR 0xBE, CHR 0xAD], [CHR 0xE1, CHR 0xBD, CHR 0xAD, CHR 0xCE, CHR 0x99]),
     ([CHR 0xE1, CHR 0xBE, CHR 0xAE], [CHR 0xE1, CHR 0xBD, CHR 0xAE, CHR 0xCE, CHR 0x99]),
     ([CHR 0xE1, CHR 0xBE, CHR 0xAF], [CHR 0xE1, CHR 0xBD, CHR 0xAF, CHR 0xCE, CHR 0x99]),
     ([CHR 0xE1, CHR 0xBE, CHR 0xB0], [CHR 0xE1, CHR 0xBE, CHR 0xB8]),
     ([CHR 0xE1, CHR 0xBE, CHR 0xB1], [CHR 0xE1, CHR 0xBE, CHR 0xB9]),
     ([CHR 0xE1, CHR 0xBE, CHR 0xB2], [CHR 0xE1, CHR 0xBE, CHR 0xBA, CHR 0xCE, CHR 0x99]),
     ([CHR 0xE1, CHR 0xBE, CHR 0xB3], [CHR 0xCE, CHR 0x91, CHR 0xCE, CHR 0x99]),
     ([CHR 0xE1, CHR 0xBE, CHR 0xB4], [CHR 0xCE, CHR 0x86, CHR 0xCE, CHR 0x99]),
     ([CHR 0xE1, CHR 0xBE, CHR 0xB6], [CHR 0xCE, CHR 0x91, CHR 0xCD, CHR 0x82]),
     ([CHR 0xE1, CHR 0xBE, CHR 0xB7], [CHR 0xCE, CHR 0x91, CHR 0xCD, CHR 0x82, CHR 0xCE, CHR 0x99]),
     ([CHR 0xE1, CHR 0xBE, CHR 0xBC], [CHR 0xCE, CHR 0x91, CHR 0xCE, CHR 0x99]),
     ([CHR 0xE1, CHR 0xBE, CHR 0xBE], [CHR 0xCE, CHR 0x99]),
     ([CHR 0xE1, CHR 0xBF, CHR 0x82], [CHR 0xE1, CHR 0xBF, CHR 0x8A, CHR 0xCE, CHR 0x99]),
     ([CHR 0xE1, CHR 0xBF, CHR 0x83], [CHR 0xCE, CHR 0x97, CHR 0xCE, CHR 0x99]),
     ([CHR 0xE1, CHR 0xBF, CHR 0x84], [CHR 0xCE, CHR 0x89, CHR 0xCE, CHR 0x99]),
     ([CHR 0xE1, CHR 0xBF, CHR 0x86], [CHR 0xCE, CHR 0x97, CHR 0xCD, CHR 0x82]),
     ([CHR 0xE1, CHR 0xBF, CHR 0x87], [CHR 0xCE, CHR 0x97, CHR 0xCD, CHR 0x82, CHR 0xCE, CHR 0x99]),
     ([CHR 0xE1, CHR 0xBF, CHR 0x8C], [CHR 0xCE, CHR 0x97, CHR 0xCE, CHR 0x99]),
     ([CHR 0xE1, CHR 0xBF, CHR 0x90], [CHR 0xE1, CHR 0xBF, CHR 0x98]),
     ([CHR 0xE1, CHR 0xBF, CHR 0x91], [CHR 0xE1, CHR 0xBF, CHR 0x99]),
     ([CHR 0xE1, CHR 0xBF, CHR 0x92], [CHR 0xCE, CHR 0x99, CHR 0xCC, CHR 0x88, CHR 0xCC, CHR 0x80])]"

definition upper_1FD3 :: "(string \<times> string) list" where
  "upper_1FD3 =
    [([CHR 0xE1, CHR 0xBF, CHR 0x93], [CHR 0xCE, CHR 0x99, CHR 0xCC, CHR 0x88, CHR 0xCC, CHR 0x81]),
     ([CHR 0xE1, CHR 0xBF, CHR 0x96], [CHR 0xCE, CHR 0x99, CHR 0xCD, CHR 0x82]),
     ([CHR 0xE1, CHR 0xBF, CHR 0x97], [CHR 0xCE, CHR 0x99, CHR 0xCC, CHR 0x88, CHR 0xCD, CHR 0x82]),
     ([CHR 0xE1, CHR 0xBF, CHR 0xA0], [CHR 0xE1, CHR 0xBF, CHR 0xA8]),
     ([CHR 0xE1, CHR 0xBF, CHR 0xA1], [CHR 0xE1, CHR 0xBF, CHR 0xA9]),
     ([CHR 0xE1, CHR 0xBF, CHR 0xA2], [CHR 0xCE, CHR 0xA5, CHR 0xCC, CHR 0x88, CHR 0xCC, CHR 0x80]),
     ([CHR 0xE1, CHR 0xBF, CHR 0xA3], [CHR 0xCE, CHR 0xA5, CHR 0xCC, CHR 0x88, CHR 0xCC, CHR 0x81]),
     ([CHR 0xE1, CHR 0xBF, CHR 0xA4], [CHR 0xCE, CHR 0xA1, CHR 0xCC, CHR 0x93]),
     ([CHR 0xE1, CHR 0xBF, CHR 0xA5], [CHR 0xE1, CHR 0xBF, CHR 0xAC]),
     ([CHR 0xE1, CHR 0xBF, CHR 0xA6], [CHR 0xCE, CHR 0xA5, CHR 0xCD, CHR 0x82]),
     ([CHR 0xE1, CHR 0xBF, CHR 0xA7], [CHR 0xCE, CHR 0xA5, CHR 0xCC, CHR 0x88, CHR 0xCD, CHR 0x82]),
     ([CHR 0xE1, CHR 0xBF, CHR 0xB2], [CHR 0xE1, CHR 0xBF, CHR 0xBA, CHR 0xCE, CHR 0x99]),
     ([CHR 0xE1, CHR 0xBF, CHR 0xB3], [CHR 0xCE, CHR 0xA9, CHR 0xCE, CHR 0x99]),
     ([CHR 0xE1, CHR 0xBF, CHR 0xB4], [CHR 0xCE, CHR 0x8F, CHR 0xCE, CHR 0x99]),
     ([CHR 0xE1, CHR 0xBF, CHR 0xB6], [CHR 0xCE, CHR 0xA9, CHR 0xCD, CHR 0x82]),
     ([CHR 0xE1, CHR 0xBF, CHR 0xB7], [CHR 0xCE, CHR 0xA9, CHR 0xCD, CHR 0x82, CHR 0xCE, CHR 0x99]),
     ([CHR 0xE1, CHR 0xBF, CHR 0xBC], [CHR 0xCE, CHR 0xA9, CHR 0xCE, CHR 0x99]),
     ([CHR 0xE2, CHR 0x85, CHR 0x8E], [CHR 0xE2, CHR 0x84, CHR 0xB2]),
     ([CHR 0xE2, CHR 0x85, CHR 0xB0], [CHR 0xE2, CHR 0x85, CHR 0xA0]),
     ([CHR 0xE2, CHR 0x85, CHR 0xB1], [CHR 0xE2, CHR 0x85, CHR 0xA1]),
     ([CHR 0xE2, CHR 0x85, CHR 0xB2], [CHR 0xE2, CHR 0x85, CHR 0xA2]),
     ([CHR 0xE2, CHR 0x85, CHR 0xB3], [CHR 0xE2, CHR 0x85, CHR 0xA3]),
     ([CHR 0xE2, CHR 0x85, CHR 0xB4], [CHR 0xE2, CHR 0x85, CHR 0xA4]),
     ([CHR 0xE2, CHR 0x85, CHR 0xB5], [CHR 0xE2, CHR 0x85, CHR 0xA5]),
     ([CHR 0xE2, CHR 0x85, CHR 0xB6], [CHR 0xE2, CHR 0x85, CHR 0xA6]),
     ([CHR 0xE2, CHR 0x85, CHR 0xB7], [CHR 0xE2, CHR 0x85, CHR 0xA7]),
     ([CHR 0xE2, CHR 0x85, CHR 0xB8], [CHR 0xE2, CHR 0x85, CHR 0xA8]),
     ([CHR 0xE2, CHR 0x85, CHR 0xB9], [CHR 0xE2, CHR 0x85, CHR 0xA9]),
     ([CHR 0xE2, CHR 0x85, CHR 0xBA], [CHR 0xE2, CHR 0x85, CHR 0xAA]),
     ([CHR 0xE2, CHR 0x85, CHR 0xBB], [CHR 0xE2, CHR 0x85, CHR 0xAB]),
     ([CHR 0xE2, CHR 0x85, CHR 0xBC], [CHR 0xE2, CHR 0x85, CHR 0xAC]),
     ([CHR 0xE2, CHR 0x85, CHR 0xBD], [CHR 0xE2, CHR 0x85, CHR 0xAD]),
     ([CHR 0xE2, CHR 0x85, CHR 0xBE], [CHR 0xE2, CHR 0x85, CHR 0xAE]),
     ([CHR 0xE2, CHR 0x85, CHR 0xBF], [CHR 0xE2, CHR 0x85, CHR 0xAF]),
     ([CHR 0xE2, CHR 0x86, CHR 0x84], [CHR 0xE2, CHR 0x86, CHR 0x83]),
     ([CHR 0xE2, CHR 0x93, CHR 0x90], [CHR 0xE2, CHR 0x92, CHR 0xB6]),
     ([CHR 0xE2, CHR 0x93, CHR 0x91], [CHR 0xE2, CHR 0x92, CHR 0xB7]),
     ([CHR 0xE2, CHR 0x93, CHR 0x92], [CHR 0xE2, CHR 0x92, CHR 0xB8]),
     ([CHR 0xE2, CHR 0x93, CHR 0x93], [CHR 0xE2, CHR 0x92, CHR 0xB9]),
     ([CHR 0xE2, CHR 0x93, CHR 0x94], [CHR 0xE2, CHR 0x92, CHR 0xBA]),
     ([CHR 0xE2, CHR 0x93, CHR 0x95], [CHR 0xE2, CHR 0x92, CHR 0xBB]),
     ([CHR 0xE2, CHR 0x93, CHR 0x96], [CHR 0xE2, CHR 0x92, CHR 0xBC]),
     ([CHR 0xE2, CHR 0x93, CHR 0x97], [CHR 0xE2, CHR 0x92, CHR 0xBD]),
     ([CHR 0xE2, CHR 0x93, CHR 0x98], [CHR 0xE2, CHR 0x92, CHR 0xBE]),
     ([CHR 0xE2, CHR 0x93, CHR 0x99], [CHR 0xE2, CHR 0x92, CHR 0xBF]),
     ([CHR 0xE2, CHR 0x93, CHR 0x9A], [CHR 0xE2, CHR 0x93, CHR 0x80]),
     ([CHR 0xE2, CHR 0x93, CHR 0x9B], [CHR 0xE2, CHR 0x93, CHR 0x81]),
     ([CHR 0xE2, CHR 0x93, CHR 0x9C], [CHR 0xE2, CHR 0x93, CHR 0x82]),
     ([CHR 0xE2, CHR 0x93, CHR 0x9D], [CHR 0xE2, CHR 0x93, CHR 0x83]),
     ([CHR 0xE2, CHR 0x93, CHR 0x9E], [CHR 0xE2, CHR 0x93, CHR 0x84])]"

definition upper_24DF :: "(string \<times> string) list" where
  "upper_24DF =
    [([CHR 0xE2, CHR 0x93, CHR 0x9F], [CHR 0xE2, CHR 0x93, CHR 0x85]),
     ([CHR 0xE2, CHR 0x93, CHR 0xA0], [CHR 0xE2, CHR 0x93, CHR 0x86]),
     ([CHR 0xE2, CHR 0x93, CHR 0xA1], [CHR 0xE2, CHR 0x93, CHR 0x87]),
     ([CHR 0xE2, CHR 0x93, CHR 0xA2], [CHR 0xE2, CHR 0x93, CHR 0x88]),
     ([CHR 0xE2, CHR 0x93, CHR 0xA3], [CHR 0xE2, CHR 0x93, CHR 0x89]),
     ([CHR 0xE2, CHR 0x93, CHR 0xA4], [CHR 0xE2, CHR 0x93, CHR 0x8A]),
     ([CHR 0xE2, CHR 0x93, CHR 0xA5], [CHR 0xE2, CHR 0x93, CHR 0x8B]),
     ([CHR 0xE2, CHR 0x93, CHR 0xA6], [CHR 0xE2, CHR 0x93, CHR 0x8C]),
     ([CHR 0xE2, CHR 0x93, CHR 0xA7], [CHR 0xE2, CHR 0x93, CHR 0x8D]),
     ([CHR 0xE2, CHR 0x93, CHR 0xA8], [CHR 0xE2, CHR 0x93, CHR 0x8E]),
     ([CHR 0xE2, CHR 0x93, CHR 0xA9], [CHR 0xE2, CHR 0x93, CHR 0x8F]),
     ([CHR 0xE2, CHR 0xB0, CHR 0xB0], [CHR 0xE2, CHR 0xB0, CHR 0x80]),
     ([CHR 0xE2, CHR 0xB0, CHR 0xB1], [CHR 0xE2, CHR 0xB0, CHR 0x81]),
     ([CHR 0xE2, CHR 0xB0, CHR 0xB2], [CHR 0xE2, CHR 0xB0, CHR 0x82]),
     ([CHR 0xE2, CHR 0xB0, CHR 0xB3], [CHR 0xE2, CHR 0xB0, CHR 0x83]),
     ([CHR 0xE2, CHR 0xB0, CHR 0xB4], [CHR 0xE2, CHR 0xB0, CHR 0x84]),
     ([CHR 0xE2, CHR 0xB0, CHR 0xB5], [CHR 0xE2, CHR 0xB0, CHR 0x85]),
     ([CHR 0xE2, CHR 0xB0, CHR 0xB6], [CHR 0xE2, CHR 0xB0, CHR 0x86]),
     ([CHR 0xE2, CHR 0xB0, CHR 0xB7], [CHR 0xE2, CHR 0xB0, CHR 0x87]),
     ([CHR 0xE2, CHR 0xB0, CHR 0xB8], [CHR 0xE2, CHR 0xB0, CHR 0x88]),
     ([CHR 0xE2, CHR 0xB0, CHR 0xB9], [CHR 0xE2, CHR 0xB0, CHR 0x89]),
     ([CHR 0xE2, CHR 0xB0, CHR 0xBA], [CHR 0xE2, CHR 0xB0, CHR 0x8A]),
     ([CHR 0xE2, CHR 0xB0, CHR 0xBB], [CHR 0xE2, CHR 0xB0, CHR 0x8B]),
     ([CHR 0xE2, CHR 0xB0, CHR 0xBC], [CHR 0xE2, CHR 0xB0, CHR 0x8C]),
     ([CHR 0xE2, CHR 0xB0, CHR 0xBD], [CHR 0xE2, CHR 0xB0, CHR 0x8D]),
     ([CHR 0xE2, CHR 0xB0, CHR 0xBE], [CHR 0xE2, CHR 0xB0, CHR 0x8E]),
     ([CHR 0xE2, CHR 0xB0, CHR 0xBF], [CHR 0xE2, CHR 0xB0, CHR 0x8F]),
     ([CHR 0xE2, CHR 0xB1, CHR 0x80], [CHR 0xE2, CHR 0xB0, CHR 0x90]),
     ([CHR 0xE2, CHR 0xB1, CHR 0x81], [CHR 0xE2, CHR 0xB0, CHR 0x91]),
     ([CHR 0xE2, CHR 0xB1, CHR 0x82], [CHR 0xE2, CHR 0xB0, CHR 0x92]),
     ([CHR 0xE2, CHR 0xB1, CHR 0x83], [CHR 0xE2, CHR 0xB0, CHR 0x93]),
     ([CHR 0xE2, CHR 0xB1, CHR 0x84], [CHR 0xE2, CHR 0xB0, CHR 0x94]),
     ([CHR 0xE2, CHR 0xB1, CHR 0x85], [CHR 0xE2, CHR 0xB0, CHR 0x95]),
     ([CHR 0xE2, CHR 0xB1, CHR 0x86], [CHR 0xE2, CHR 0xB0, CHR 0x96]),
     ([CHR 0xE2, CHR 0xB1, CHR 0x87], [CHR 0xE2, CHR 0xB0, CHR 0x97]),
     ([CHR 0xE2, CHR 0xB1, CHR 0x88], [CHR 0xE2, CHR 0xB0, CHR 0x98]),
     ([CHR 0xE2, CHR 0xB1, CHR 0x89], [CHR 0xE2, CHR 0xB0, CHR 0x99]),
     ([CHR 0xE2, CHR 0xB1, CHR 0x8A], [CHR 0xE2, CHR 0xB0, CHR 0x9A]),
     ([CHR 0xE2, CHR 0xB1, CHR 0x8B], [CHR 0xE2, CHR 0xB0, CHR 0x9B]),
     ([CHR 0xE2, CHR 0xB1, CHR 0x8C], [CHR 0xE2, CHR 0xB0, CHR 0x9C]),
     ([CHR 0xE2, CHR 0xB1, CHR 0x8D], [CHR 0xE2, CHR 0xB0, CHR 0x9D]),
     ([CHR 0xE2, CHR 0xB1, CHR 0x8E], [CHR 0xE2, CHR 0xB0, CHR 0x9E]),
     ([CHR 0xE2, CHR 0xB1, CHR 0x8F], [CHR 0xE2, CHR 0xB0, CHR 0x9F]),
     ([CHR 0xE2, CHR 0xB1, CHR 0x90], [CHR 0xE2, CHR 0xB0, CHR 0xA0]),
     ([CHR 0xE2, CHR 0xB1, CHR 0x91], [CHR 0xE2, CHR 0xB0, CHR 0xA1]),
     ([CHR 0xE2, CHR 0xB1, CHR 0x92], [CHR 0xE2, CHR 0xB0, CHR 0xA2]),
     ([CHR 0xE2, CHR 0xB1, CHR 0x93], [CHR 0xE2, CHR 0xB0, CHR 0xA3]),
     ([CHR 0xE2, CHR 0xB1, CHR 0x94], [CHR 0xE2, CHR 0xB0, CHR 0xA4]),
     ([CHR 0xE2, CHR 0xB1, CHR 0x95], [CHR 0xE2, CHR 0xB0, CHR 0xA5]),
     ([CHR 0xE2, CHR 0xB1, CHR 0x96], [CHR 0xE2, CHR 0xB0, CHR 0xA6])]"

definition upper_2C57 :: "(string \<times> string) list" where
  "upper_2C57 =
    [([CHR 0xE2, CHR 0xB1, CHR 0x97], [CHR 0xE2, CHR 0xB0, CHR 0xA7]),
     ([CHR 0xE2, CHR 0xB1, CHR 0x98], [CHR 0xE2, CHR 0xB0, CHR 0xA8]),
     ([CHR 0xE2, CHR 0xB1, CHR 0x99], [CHR 0xE2, CHR 0xB0, CHR 0xA9]),
     ([CHR 0xE2, CHR 0xB1, CHR 0x9A], [CHR 0xE2, CHR 0xB0, CHR 0xAA]),
     ([CHR 0xE2, CHR 0xB1, CHR 0x9B], [CHR 0xE2, CHR 0xB0, CHR 0xAB]),
     ([CHR 0xE2, CHR 0xB1, CHR 0x9C], [CHR 0xE2, CHR 0xB0, CHR 0xAC]),
     ([CHR 0xE2, CHR 0xB1, CHR 0x9D], [CHR 0xE2, CHR 0xB0, CHR 0xAD]),
     ([CHR 0xE2, CHR 0xB1, CHR 0x9E], [CHR 0xE2, CHR 0xB0, CHR 0xAE]),
     ([CHR 0xE2, CHR 0xB1, CHR 0x9F], [CHR 0xE2, CHR 0xB0, CHR 0xAF]),
     ([CHR 0xE2, CHR 0xB1, CHR 0xA1], [CHR 0xE2, CHR 0xB1, CHR 0xA0]),
     ([CHR 0xE2, CHR 0xB1, CHR 0xA5], [CHR 0xC8, CHR 0xBA]),
     ([CHR 0xE2, CHR 0xB1, CHR 0xA6], [CHR 0xC8, CHR 0xBE]),
     ([CHR 0xE2, CHR 0xB1, CHR 0xA8], [CHR 0xE2, CHR 0xB1, CHR 0xA7]),
     ([CHR 0xE2, CHR 0xB1, CHR 0xAA], [CHR 0xE2, CHR 0xB1, CHR 0xA9]),
     ([CHR 0xE2, CHR 0xB1, CHR 0xAC], [CHR 0xE2, CHR 0xB1, CHR 0xAB]),
     ([CHR 0xE2, CHR 0xB1, CHR 0xB3], [CHR 0xE2, CHR 0xB1, CHR 0xB2]),
     ([CHR 0xE2, CHR 0xB1, CHR 0xB6], [CHR 0xE2, CHR 0xB1, CHR 0xB5]),
     ([CHR 0xE2, CHR 0xB2, CHR 0x81], [CHR 0xE2, CHR 0xB2, CHR 0x80]),
     ([CHR 0xE2, CHR 0xB2, CHR 0x83], [CHR 0xE2, CHR 0xB2, CHR 0x82]),
     ([CHR 0xE2, CHR 0xB2, CHR 0x85], [CHR 0xE2, CHR 0xB2, CHR 0x84]),
     ([CHR 0xE2, CHR 0xB2, CHR 0x87], [CHR 0xE2, CHR 0xB2, CHR 0x86]),
     ([CHR 0xE2, CHR 0xB2, CHR 0x89], [CHR 0xE2, CHR 0xB2, CHR 0x88]),
     ([CHR 0xE2, CHR 0xB2, CHR 0x8B], [CHR 0xE2, CHR 0xB2, CHR 0x8A]),
     ([CHR 0xE2, CHR 0xB2, CHR 0x8D], [CHR 0xE2, CHR 0xB2, CHR 0x8C]),
     ([CHR 0xE2, CHR 0xB2, CHR 0x8F], [CHR 0xE2, CHR 0xB2, CHR 0x8E]),
     ([CHR 0xE2, CHR 0xB2, CHR 0x91], [CHR 0xE2, CHR 0xB2, CHR 0x90]),
     ([CHR 0xE2, CHR 0xB2, CHR 0x93], [CHR 0xE2, CHR 0xB2, CHR 0x92]),
     ([CHR 0xE2, CHR 0xB2, CHR 0x95], [CHR 0xE2, CHR 0xB2, CHR 0x94]),
     ([CHR 0xE2, CHR 0xB2, CHR 0x97], [CHR 0xE2, CHR 0xB2, CHR 0x96]),
     ([CHR 0xE2, CHR 0xB2, CHR 0x99], [CHR 0xE2, CHR 0xB2, CHR 0x98]),
     ([CHR 0xE2, CHR 0xB2, CHR 0x9B], [CHR 0xE2, CHR 0xB2, CHR 0x9A]),
     ([CHR 0xE2, CHR 0xB2, CHR 0x9D], [CHR 0xE2, CHR 0xB2, CHR 0x9C]),
     ([CHR 0xE2, CHR 0xB2, CHR 0x9F], [CHR 0xE2, CHR 0xB2, CHR 0x9E]),
     ([CHR 0xE2, CHR 0xB2, CHR 0xA1], [CHR 0xE2, CHR 0xB2, CHR 0xA0]),
     ([CHR 0xE2, CHR 0xB2, CHR 0xA3], [CHR 0xE2, CHR 0xB2, CHR 0xA2]),
     ([CHR 0xE2, CHR 0xB2, CHR 0xA5], [CHR 0xE2, CHR 0xB2, CHR 0xA4]),
     ([CHR 0xE2, CHR 0xB2, CHR 0xA7], [CHR 0xE2, CHR 0xB2, CHR 0xA6]),
     ([CHR 0xE2, CHR 0xB2, CHR 0xA9], [CHR 0xE2, CHR 0xB2, CHR 0xA8]),
     ([CHR 0xE2, CHR 0xB2, CHR 0xAB], [CHR 0xE2, CHR 0xB2, CHR 0xAA]),
     ([CHR 0xE2, CHR 0xB2, CHR 0xAD], [CHR 0xE2, CHR 0xB2, CHR 0xAC]),
     ([CHR 0xE2, CHR 0xB2, CHR 0xAF], [CHR 0xE2, CHR 0xB2, CHR 0xAE]),
     ([CHR 0xE2, CHR 0xB2, CHR 0xB1], [CHR 0xE2, CHR 0xB2, CHR 0xB0]),
     ([CHR 0xE2, CHR 0xB2, CHR 0xB3], [CHR 0xE2, CHR 0xB2, CHR 0xB2]),
     ([CHR 0xE2, CHR 0xB2, CHR 0xB5], [CHR 0xE2, CHR 0xB2, CHR 0xB4]),
     ([CHR 0xE2, CHR 0xB2, CHR 0xB7], [CHR 0xE2, CHR 0xB2, CHR 0xB6]),
     ([CHR 0xE2, CHR 0xB2, CHR 0xB9], [CHR 0xE2, CHR 0xB2, CHR 0xB8]),
     ([CHR 0xE2, CHR 0xB2, CHR 0xBB], [CHR 0xE2, CHR 0xB2, CHR 0xBA]),
     ([CHR 0xE2, CHR 0xB2, CHR 0xBD], [CHR 0xE2, CHR 0xB2, CHR 0xBC]),
     ([CHR 0xE2, CHR 0xB2, CHR 0xBF], [CHR 0xE2, CHR 0xB2, CHR 0xBE]),
     ([CHR 0xE2, CHR 0xB3, CHR 0x81], [CHR 0xE2, CHR 0xB3, CHR 0x80])]"

definition upper_2CC3 :: "(string \<times> string) list" where
  "upper_2CC3 =
    [([CHR 0xE2, CHR 0xB3, CHR 0x83], [CHR 0xE2, CHR 0xB3, CHR 0x82]),
     ([CHR 0xE2, CHR 0xB3, CHR 0x85], [CHR 0xE2, CHR 0xB3, CHR 0x84]),
     ([CHR 0xE2, CHR 0xB3, CHR 0x87], [CHR 0xE2, CHR 0xB3, CHR 0x86]),
     ([CHR 0xE2, CHR 0xB3, CHR 0x89], [CHR 0xE2, CHR 0xB3, CHR 0x88]),
     ([CHR 0xE2, CHR 0xB3, CHR 0x8B], [CHR 0xE2, CHR 0xB3, CHR 0x8A]),
     ([CHR 0xE2, CHR 0xB3, CHR 0x8D], [CHR 0xE2, CHR 0xB3, CHR 0x8C]),
     ([CHR 0xE2, CHR 0xB3, CHR 0x8F], [CHR 0xE2, CHR 0xB3, CHR 0x8E]),
     ([CHR 0xE2, CHR 0xB3, CHR 0x91], [CHR 0xE2, CHR 0xB3, CHR 0x90]),
     ([CHR 0xE2, CHR 0xB3, CHR 0x93], [CHR 0xE2, CHR 0xB3, CHR 0x92]),
     ([CHR 0xE2, CHR 0xB3, CHR 0x95], [CHR 0xE2, CHR 0xB3, CHR 0x94]),
     ([CHR 0xE2, CHR 0xB3, CHR 0x97], [CHR 0xE2, CHR 0xB3, CHR 0x96]),
     ([CHR 0xE2, CHR 0xB3, CHR 0x99], [CHR 0xE2, CHR 0xB3, CHR 0x98]),
     ([CHR 0xE2, CHR 0xB3, CHR 0x9B], [CHR 0xE2, CHR 0xB3, CHR 0x9A]),
     ([CHR 0xE2, CHR 0xB3, CHR 0x9D], [CHR 0xE2, CHR 0xB3, CHR 0x9C]),
     ([CHR 0xE2, CHR 0xB3, CHR 0x9F], [CHR 0xE2, CHR 0xB3, CHR 0x9E]),
     ([CHR 0xE2, CHR 0xB3, CHR 0xA1], [CHR 0xE2, CHR 0xB3, CHR 0xA0]),
     ([CHR 0xE2, CHR 0xB3, CHR 0xA3], [CHR 0xE2, CHR 0xB3, CHR 0xA2]),
     ([CHR 0xE2, CHR 0xB3, CHR 0xAC], [CHR 0xE2, CHR 0xB3, CHR 0xAB]),
     ([CHR 0xE2, CHR 0xB3, CHR 0xAE], [CHR 0xE2, CHR 0xB3, CHR 0xAD]),
     ([CHR 0xE2, CHR 0xB3, CHR 0xB3], [CHR 0xE2, CHR 0xB3, CHR 0xB2]),
     ([CHR 0xE2, CHR 0xB4, CHR 0x80], [CHR 0xE1, CHR 0x82, CHR 0xA0]),
     ([CHR 0xE2, CHR 0xB4, CHR 0x81], [CHR 0xE1, CHR 0x82, CHR 0xA1]),
     ([CHR 0xE2, CHR 0xB4, CHR 0x82], [CHR 0xE1, CHR 0x82, CHR 0xA2]),
     ([CHR 0xE2, CHR 0xB4, CHR 0x83], [CHR 0xE1, CHR 0x82, CHR 0xA3]),
     ([CHR 0xE2, CHR 0xB4, CHR 0x84], [CHR 0xE1, CHR 0x82, CHR 0xA4]),
     ([CHR 0xE2, CHR 0xB4, CHR 0x85], [CHR 0xE1, CHR 0x82, CHR 0xA5]),
     ([CHR 0xE2, CHR 0xB4, CHR 0x86], [CHR 0xE1, CHR 0x82, CHR 0xA6]),
     ([CHR 0xE2, CHR 0xB4, CHR 0x87], [CHR 0xE1, CHR 0x82, CHR 0xA7]),
     ([CHR 0xE2, CHR 0xB4, CHR 0x88], [CHR 0xE1, CHR 0x82, CHR 0xA8]),
     ([CHR 0xE2, CHR 0xB4, CHR 0x89], [CHR 0xE1, CHR 0x82, CHR 0xA9]),
     ([CHR 0xE2, CHR 0xB4, CHR 0x8A], [CHR 0xE1, CHR 0x82, CHR 0xAA]),
     ([CHR 0xE2, CHR 0xB4, CHR 0x8B], [CHR 0xE1, CHR 0x82, CHR 0xAB]),
     ([CHR 0xE2, CHR 0xB4, CHR 0x8C], [CHR 0xE1, CHR 0x82, CHR 0xAC]),
     ([CHR 0xE2, CHR 0xB4, CHR 0x8D], [CHR 0xE1, CHR 0x82, CHR 0xAD]),
     ([CHR 0xE2, CHR 0xB4, CHR 0x8E], [CHR 0xE1, CHR 0x82, CHR 0xAE]),
     ([CHR 0xE2, CHR 0xB4, CHR 0x8F], [CHR 0xE1, CHR 0x82, CHR 0xAF]),
     ([CHR 0xE2, CHR 0xB4, CHR 0x90], [CHR 0xE1, CHR 0x82, CHR 0xB0]),
     ([CHR 0xE2, CHR 0xB4, CHR 0x91], [CHR 0xE1, CHR 0x82, CHR 0xB1]),
     ([CHR 0xE2, CHR 0xB4, CHR 0x92], [CHR 0xE1, CHR 0x82, CHR 0xB2]),
     ([CHR 0xE2, CHR 0xB4, CHR 0x93], [CHR 0xE1, CHR 0x82, CHR 0xB3]),
     ([CHR 0xE2, CHR 0xB4, CHR 0x94], [CHR 0xE1, CHR 0x82, CHR 0xB4]),
     ([CHR 0xE2, CHR 0xB4, CHR 0x95], [CHR 0xE1, CHR 0x82, CHR 0xB5]),
     ([CHR 0xE2, CHR 0xB4, CHR 0x96], [CHR 0xE1, CHR 0x82, CHR 0xB6]),
     ([CHR 0xE2, CHR 0xB4, CHR 0x97], [CHR 0xE1, CHR 0x82, CHR 0xB7]),
     ([CHR 0xE2, CHR 0xB4, CHR 0x98], [CHR 0xE1, CHR 0x82, CHR 0xB8]),
     ([CHR 0xE2, CHR 0xB4, CHR 0x99], [CHR 0xE1, CHR 0x82, CHR 0xB9]),
     ([CHR 0xE2, CHR 0xB4, CHR 0x9A], [CHR 0xE1, CHR 0x82, CHR 0xBA]),
     ([CHR 0xE2, CHR 0xB4, CHR 0x9B], [CHR 0xE1, CHR 0x82, CHR 0xBB]),
     ([CHR 0xE2, CHR 0xB4, CHR 0x9C], [CHR 0xE1, CHR 0x82, CHR 0xBC]),
     ([CHR 0xE2, CHR 0xB4, CHR 0x9D], [CHR 0xE1, CHR 0x82, CHR 0xBD])]"

definition upper_2D1E :: "(string \<times> string) list" where
  "upper_2D1E =
    [([CHR 0xE2, CHR 0xB4, CHR 0x9E], [CHR 0xE1, CHR 0x82, CHR 0xBE]),
     ([CHR 0xE2, CHR 0xB4, CHR 0x9F], [CHR 0xE1, CHR 0x82, CHR 0xBF]),
     ([CHR 0xE2, CHR 0xB4, CHR 0xA0], [CHR 0xE1, CHR 0x83, CHR 0x80]),
     ([CHR 0xE2, CHR 0xB4, CHR 0xA1], [CHR 0xE1, CHR 0x83, CHR 0x81]),
     ([CHR 0xE2, CHR 0xB4, CHR 0xA2], [CHR 0xE1, CHR 0x83, CHR 0x82]),
     ([CHR 0xE2, CHR 0xB4, CHR 0xA3], [CHR 0xE1, CHR 0x83, CHR 0x83]),
     ([CHR 0xE2, CHR 0xB4, CHR 0xA4], [CHR 0xE1, CHR 0x83, CHR 0x84]),
     ([CHR 0xE2, CHR 0xB4, CHR 0xA5], [CHR 0xE1, CHR 0x83, CHR 0x85]),
     ([CHR 0xE2, CHR 0xB4, CHR 0xA7], [CHR 0xE1, CHR 0x83, CHR 0x87]),
     ([CHR 0xE2, CHR 0xB4, CHR 0xAD], [CHR 0xE1, CHR 0x83, CHR 0x8D]),
     ([CHR 0xEA, CHR 0x99, CHR 0x81], [CHR 0xEA, CHR 0x99, CHR 0x80]),
     ([CHR 0xEA, CHR 0x99, CHR 0x83], [CHR 0xEA, CHR 0x99, CHR 0x82]),
     ([CHR 0xEA, CHR 0x99, CHR 0x85], [CHR 0xEA, CHR 0x99, CHR 0x84]),
     ([CHR 0xEA, CHR 0x99, CHR 0x87], [CHR 0xEA, CHR 0x99, CHR 0x86]),
     ([CHR 0xEA, CHR 0x99, CHR 0x89], [CHR 0xEA, CHR 0x99, CHR 0x88]),
     ([CHR 0xEA, CHR 0x99, CHR 0x8B], [CHR 0xEA, CHR 0x99, CHR 0x8A]),
     ([CHR 0xEA, CHR 0x99, CHR 0x8D], [CHR 0xEA, CHR 0x99, CHR 0x8C]),
     ([CHR 0xEA, CHR 0x99, CHR 0x8F], [CHR 0xEA, CHR 0x99, CHR 0x8E]),
     ([CHR 0xEA, CHR 0x99, CHR 0x91], [CHR 0xEA, CHR 0x99, CHR 0x90]),
     ([CHR 0xEA, CHR 0x99, CHR 0x93], [CHR 0xEA, CHR 0x99, CHR 0x92]),
     ([CHR 0xEA, CHR 0x99, CHR 0x95], [CHR 0xEA, CHR 0x99, CHR 0x94]),
     ([CHR 0xEA, CHR 0x99, CHR 0x97], [CHR 0xEA, CHR 0x99, CHR 0x96]),
     ([CHR 0xEA, CHR 0x99, CHR 0x99], [CHR 0xEA, CHR 0x99, CHR 0x98]),
     ([CHR 0xEA, CHR 0x99, CHR 0x9B], [CHR 0xEA, CHR 0x99, CHR 0x9A]),
     ([CHR 0xEA, CHR 0x99, CHR 0x9D], [CHR 0xEA, CHR 0x99, CHR 0x9C]),
     ([CHR 0xEA, CHR 0x99, CHR 0x9F], [CHR 0xEA, CHR 0x99, CHR 0x9E]),
     ([CHR 0xEA, CHR 0x99, CHR 0xA1], [CHR 0xEA, CHR 0x99, CHR 0xA0]),
     ([CHR 0xEA, CHR 0x99, CHR 0xA3], [CHR 0xEA, CHR 0x99, CHR 0xA2]),
     ([CHR 0xEA, CHR 0x99, CHR 0xA5], [CHR 0xEA, CHR 0x99, CHR 0xA4]),
     ([CHR 0xEA, CHR 0x99, CHR 0xA7], [CHR 0xEA, CHR 0x99, CHR 0xA6]),
     ([CHR 0xEA, CHR 0x99, CHR 0xA9], [CHR 0xEA, CHR 0x99, CHR 0xA8]),
     ([CHR 0xEA, CHR 0x99, CHR 0xAB], [CHR 0xEA, CHR 0x99, CHR 0xAA]),
     ([CHR 0xEA, CHR 0x99, CHR 0xAD], [CHR 0xEA, CHR 0x99, CHR 0xAC]),
     ([CHR 0xEA, CHR 0x9A, CHR 0x81], [CHR 0xEA, CHR 0x9A, CHR 0x80]),
     ([CHR 0xEA, CHR 0x9A, CHR 0x83], [CHR 0xEA, CHR 0x9A, CHR 0x82]),
     ([CHR 0xEA, CHR 0x9A, CHR 0x85], [CHR 0xEA, CHR 0x9A, CHR 0x84]),
     ([CHR 0xEA, CHR 0x9A, CHR 0x87], [CHR 0xEA, CHR 0x9A, CHR 0x86]),
     ([CHR 0xEA, CHR 0x9A, CHR 0x89], [CHR 0xEA, CHR 0x9A, CHR 0x88]),
     ([CHR 0xEA, CHR 0x9A, CHR 0x8B], [CHR 0xEA, CHR 0x9A, CHR 0x8A]),
     ([CHR 0xEA, CHR 0x9A, CHR 0x8D], [CHR 0xEA, CHR 0x9A, CHR 0x8C]),
     ([CHR 0xEA, CHR 0x9A, CHR 0x8F], [CHR 0xEA, CHR 0x9A, CHR 0x8E]),
     ([CHR 0xEA, CHR 0x9A, CHR 0x91], [CHR 0xEA, CHR 0x9A, CHR 0x90]),
     ([CHR 0xEA, CHR 0x9A, CHR 0x93], [CHR 0xEA, CHR 0x9A, CHR 0x92]),
     ([CHR 0xEA, CHR 0x9A, CHR 0x95], [CHR 0xEA, CHR 0x9A, CHR 0x94]),
     ([CHR 0xEA, CHR 0x9A, CHR 0x97], [CHR 0xEA, CHR 0x9A, CHR 0x96]),
     ([CHR 0xEA, CHR 0x9A, CHR 0x99], [CHR 0xEA, CHR 0x9A, CHR 0x98]),
     ([CHR 0xEA, CHR 0x9A, CHR 0x9B], [CHR 0xEA, CHR 0x9A, CHR 0x9A]),
     ([CHR 0xEA, CHR 0x9C, CHR 0xA3], [CHR 0xEA, CHR 0x9C, CHR 0xA2]),
     ([CHR 0xEA, CHR 0x9C, CHR 0xA5], [CHR 0xEA, CHR 0x9C, CHR 0xA4]),
     ([CHR 0xEA, CHR 0x9C, CHR 0xA7], [CHR 0xEA, CHR 0x9C, CHR 0xA6])]"

definition upper_A729 :: "(string \<times> string) list" where
  "upper_A729 =
    [([CHR 0xEA, CHR 0x9C, CHR 0xA9], [CHR 0xEA, CHR 0x9C, CHR 0xA8]),
     ([CHR 0xEA, CHR 0x9C, CHR 0xAB], [CHR 0xEA, CHR 0x9C, CHR 0xAA]),
     ([CHR 0xEA, CHR 0x9C, CHR 0xAD], [CHR 0xEA, CHR 0x9C, CHR 0xAC]),
     ([CHR 0xEA, CHR 0x9C, CHR 0xAF], [CHR 0xEA, CHR 0x9C, CHR 0xAE]),
     ([CHR 0xEA, CHR 0x9C, CHR 0xB3], [CHR 0xEA, CHR 0x9C, CHR 0xB2]),
     ([CHR 0xEA, CHR 0x9C, CHR 0xB5], [CHR 0xEA, CHR 0x9C, CHR 0xB4]),
     ([CHR 0xEA, CHR 0x9C, CHR 0xB7], [CHR 0xEA, CHR 0x9C, CHR 0xB6]),
     ([CHR 0xEA, CHR 0x9C, CHR 0xB9], [CHR 0xEA, CHR 0x9C, CHR 0xB8]),
     ([CHR 0xEA, CHR 0x9C, CHR 0xBB], [CHR 0xEA, CHR 0x9C, CHR 0xBA]),
     ([CHR 0xEA, CHR 0x9C, CHR 0xBD], [CHR 0xEA, CHR 0x9C, CHR 0xBC]),
     ([CHR 0xEA, CHR 0x9C, CHR 0xBF], [CHR 0xEA, CHR 0x9C, CHR 0xBE]),
     ([CHR 0xEA, CHR 0x9D, CHR 0x81], [CHR 0xEA, CHR 0x9D, CHR 0x80]),
     ([CHR 0xEA, CHR 0x9D, CHR 0x83], [CHR 0xEA, CHR 0x9D, CHR 0x82]),
     ([CHR 0xEA, CHR 0x9D, CHR 0x85], [CHR 0xEA, CHR 0x9D, CHR 0x84]),
     ([CHR 0xEA, CHR 0x9D, CHR 0x87], [CHR 0xEA, CHR 0x9D, CHR 0x86]),
     ([CHR 0xEA, CHR 0x9D, CHR 0x89], [CHR 0xEA, CHR 0x9D, CHR 0x88]),
     ([CHR 0xEA, CHR 0x9D, CHR 0x8B], [CHR 0xEA, CHR 0x9D, CHR 0x8A]),
     ([CHR 0xEA, CHR 0x9D, CHR 0x8D], [CHR 0xEA, CHR 0x9D, CHR 0x8C]),
     ([CHR 0xEA, CHR 0x9D, CHR 0x8F], [CHR 0xEA, CHR 0x9D, CHR 0x8E]),
     ([CHR 0xEA, CHR 0x9D, CHR 0x91], [CHR 0xEA, CHR 0x9D, CHR 0x90]),
     ([CHR 0xEA, CHR 0x9D, CHR 0x93], [CHR 0xEA, CHR 0x9D, CHR 0x92]),
     ([CHR 0xEA, CHR 0x9D, CHR 0x95], [CHR 0xEA, CHR 0x9D, CHR 0x94]),
     ([CHR 0xEA, CHR 0x9D, CHR 0x97], [CHR 0xEA, CHR 0x9D, CHR 0x96]),
     ([CHR 0xEA, CHR 0x9D, CHR 0x99], [CHR 0xEA, CHR 0x9D, CHR 0x98]),
     ([CHR 0xEA, CHR 0x9D, CHR 0x9B], [CHR 0xEA, CHR 0x9D, CHR 0x9A]),
     ([CHR 0xEA, CHR 0x9D, CHR 0x9D], [CHR 0xEA, CHR 0x9D, CHR 0x9C]),
     ([CHR 0xEA, CHR 0x9D, CHR 0x9F], [CHR 0xEA, CHR 0x9D, CHR 0x9E]),
     ([CHR 0xEA, CHR 0x9D, CHR 0xA1], [CHR 0xEA, CHR 0x9D, CHR 0xA0]),
     ([CHR 0xEA, CHR 0x9D, CHR 0xA3], [CHR 0xEA, CHR 0x9D, CHR 0xA2]),
     ([CHR 0xEA, CHR 0x9D, CHR 0xA5], [CHR 0xEA, CHR 0x9D, CHR 0xA4]),
     ([CHR 0xEA, CHR 0x9D, CHR 0xA7], [CHR 0xEA, CHR 0x9D, CHR 0xA6]),
     ([CHR 0xEA, CHR 0x9D, CHR 0xA9], [CHR 0xEA, CHR 0x9D, CHR 0xA8]),
     ([CHR 0xEA, CHR 0x9D, CHR 0xAB], [CHR 0xEA, CHR 0x9D, CHR 0xAA]),
     ([CHR 0xEA, CHR 0x9D, CHR 0xAD], [CHR 0xEA, CHR 0x9D, CHR 0xAC]),
     ([CHR 0xEA, CHR 0x9D, CHR 0xAF], [CHR 0xEA, CHR 0x9D, CHR 0xAE]),
     ([CHR 0xEA, CHR 0x9D, CHR 0xBA], [CHR 0xEA, CHR 0x9D, CHR 0xB9]),
     ([CHR 0xEA, CHR 0x9D, CHR 0xBC], [CHR 0xEA, CHR 0x9D, CHR 0xBB]),
     ([CHR 0xEA, CHR 0x9D, CHR 0xBF], [CHR 0xEA, CHR 0x9D, CHR 0xBE]),
     ([CHR 0xEA, CHR 0x9E, CHR 0x81], [CHR 0xEA, CHR 0x9E, CHR 0x80]),
     ([CHR 0xEA, CHR 0x9E, CHR 0x83], [CHR 0xEA, CHR 0x9E, CHR 0x82]),
     ([CHR 0xEA, CHR 0x9E, CHR 0x85], [CHR 0xEA, CHR 0x9E, CHR 0x84]),
     ([CHR 0xEA, CHR 0x9E, CHR 0x87], [CHR 0xEA, CHR 0x9E, CHR 0x86]),
     ([CHR 0xEA, CHR 0x9E, CHR 0x8C], [CHR 0xEA, CHR 0x9E, CHR 0x8B]),
     ([CHR 0xEA, CHR 0x9E, CHR 0x91], [CHR 0xEA, CHR 0x9E, CHR 0x90]),
     ([CHR 0xEA, CHR 0x9E, CHR 0x93], [CHR 0xEA, CHR 0x9E, CHR 0x92]),
     ([CHR 0xEA, CHR 0x9E, CHR 0x94], [CHR 0xEA, CHR 0x9F, CHR 0x84]),
     ([CHR 0xEA, CHR 0x9E, CHR 0x97], [CHR 0xEA, CHR 0x9E, CHR 0x96]),
     ([CHR 0xEA, CHR 0x9E, CHR 0x99], [CHR 0xEA, CHR 0x9E, CHR 0x98]),
     ([CHR 0xEA, CHR 0x9E, CHR 0x9B], [CHR 0xEA, CHR 0x9E, CHR 0x9A]),
     ([CHR 0xEA, CHR 0x9E, CHR 0x9D], [CHR 0xEA, CHR 0x9E, CHR 0x9C])]"

definition upper_A79F :: "(string \<times> string) list" where
  "upper_A79F =
    [([CHR 0xEA, CHR 0x9E, CHR 0x9F], [CHR 0xEA, CHR 0x9E, CHR 0x9E]),
     ([CHR 0xEA, CHR 0x9E, CHR 0xA1], [CHR 0xEA, CHR 0x9E, CHR 0xA0]),
     ([CHR 0xEA, CHR 0x9E, CHR 0xA3], [CHR 0xEA, CHR 0x9E, CHR 0xA2]),
     ([CHR 0xEA, CHR 0x9E, CHR 0xA5], [CHR 0xEA, CHR 0x9E, CHR 0xA4]),
     ([CHR 0xEA, CHR 0x9E, CHR 0xA7], [CHR 0xEA, CHR 0x9E, CHR 0xA6]),
     ([CHR 0xEA, CHR 0x9E, CHR 0xA9], [CHR 0xEA, CHR 0x9E, CHR 0xA8]),
     ([CHR 0xEA, CHR 0x9E, CHR 0xB5], [CHR 0xEA, CHR 0x9E, CHR 0xB4]),
     ([CHR 0xEA, CHR 0x9E, CHR 0xB7], [CHR 0xEA, CHR 0x9E, CHR 0xB6]),
     ([CHR 0xEA, CHR 0x9E, CHR 0xB9], [CHR 0xEA, CHR 0x9E, CHR 0xB8]),
     ([CHR 0xEA, CHR 0x9E, CHR 0xBB], [CHR 0xEA, CHR 0x9E, CHR 0xBA]),
     ([CHR 0xEA, CHR 0x9E, CHR 0xBD], [CHR 0xEA, CHR 0x9E, CHR 0xBC]),
     ([CHR 0xEA, CHR 0x9E, CHR 0xBF], [CHR 0xEA, CHR 0x9E, CHR 0xBE]),
     ([CHR 0xEA, CHR 0x9F, CHR 0x81], [CHR 0xEA, CHR 0x9F, CHR 0x80]),
     ([CHR 0xEA, CHR 0x9F, CHR 0x83], [CHR 0xEA, CHR 0x9F, CHR 0x82]),
     ([CHR 0xEA, CHR 0x9F, CHR 0x88], [CHR 0xEA, CHR 0x9F, CHR 0x87]),
     ([CHR 0xEA, CHR 0x9F, CHR 0x8A], [CHR 0xEA, CHR 0x9F, CHR 0x89]),
     ([CHR 0xEA, CHR 0x9F, CHR 0x91], [CHR 0xEA, CHR 0x9F, CHR 0x90]),
     ([CHR 0xEA, CHR 0x9F, CHR 0x97], [CHR 0xEA, CHR 0x9F, CHR 0x96]),
     ([CHR 0xEA, CHR 0x9F, CHR 0x99], [CHR 0xEA, CHR 0x9F, CHR 0x98]),
     ([CHR 0xEA, CHR 0x9F, CHR 0xB6], [CHR 0xEA, CHR 0x9F, CHR 0xB5]),
     ([CHR 0xEA, CHR 0xAD, CHR 0x93], [CHR 0xEA, CHR 0x9E, CHR 0xB3]),
     ([CHR 0xEA, CHR 0xAD, CHR 0xB0], [CHR 0xE1, CHR 0x8E, CHR 0xA0]),
     ([CHR 0xEA, CHR 0xAD, CHR 0xB1], [CHR 0xE1, CHR 0x8E, CHR 0xA1]),
     ([CHR 0xEA, CHR 0xAD, CHR 0xB2], [CHR 0xE1, CHR 0x8E, CHR 0xA2]),
     ([CHR 0xEA, CHR 0xAD, CHR 0xB3], [CHR 0xE1, CHR 0x8E, CHR 0xA3]),
     ([CHR 0xEA, CHR 0xAD, CHR 0xB4], [CHR 0xE1, CHR 0x8E, CHR 0xA4]),
     ([CHR 0xEA, CHR 0xAD, CHR 0xB5], [CHR 0xE1, CHR 0x8E, CHR 0xA5]),
     ([CHR 0xEA, CHR 0xAD, CHR 0xB6], [CHR 0xE1, CHR 0x8E, CHR 0xA6]),
     ([CHR 0xEA, CHR 0xAD, CHR 0xB7], [CHR 0xE1, CHR 0x8E, CHR 0xA7]),
     ([CHR 0xEA, CHR 0xAD, CHR 0xB8], [CHR 0xE1, CHR 0x8E, CHR 0xA8]),
     ([CHR 0xEA, CHR 0xAD, CHR 0xB9], [CHR 0xE1, CHR 0x8E, CHR 0xA9]),
     ([CHR 0xEA, CHR 0xAD, CHR 0xBA], [CHR 0xE1, CHR 0x8E, CHR 0xAA]),
     ([CHR 0xEA, CHR 0xAD, CHR 0xBB], [CHR 0xE1, CHR 0x8E, CHR 0xAB]),
     ([CHR 0xEA, CHR 0xAD, CHR 0xBC], [CHR 0xE1, CHR 0x8E, CHR 0xAC]),
     ([CHR 0xEA, CHR 0xAD, CHR 0xBD], [CHR 0xE1, CHR 0x8E, CHR 0xAD]),
     ([CHR 0xEA, CHR 0xAD, CHR 0xBE], [CHR 0xE1, CHR 0x8E, CHR 0xAE]),
     ([CHR 0xEA, CHR 0xAD, CHR 0xBF], [CHR 0xE1, CHR 0x8E, CHR 0xAF]),
     ([CHR 0xEA, CHR 0xAE, CHR 0x80], [CHR 0xE1, CHR 0x8E, CHR 0xB0]),
     ([CHR 0xEA, CHR 0xAE, CHR 0x81], [CHR 0xE1, CHR 0x8E, CHR 0xB1]),
     ([CHR 0xEA, CHR 0xAE, CHR 0x82], [CHR 0xE1, CHR 0x8E, CHR 0xB2]),
     ([CHR 0xEA, CHR 0xAE, CHR 0x83], [CHR 0xE1, CHR 0x8E, CHR 0xB3]),
     ([CHR 0xEA, CHR 0xAE, CHR 0x84], [CHR 0xE1, CHR 0x8E, CHR 0xB4]),
     ([CHR 0xEA, CHR 0xAE, CHR 0x85], [CHR 0xE1, CHR 0x8E, CHR 0xB5]),
     ([CHR 0xEA, CHR 0xAE, CHR 0x86], [CHR 0xE1, CHR 0x8E, CHR 0xB6]),
     ([CHR 0xEA, CHR 0xAE, CHR 0x87], [CHR 0xE1, CHR 0x8E, CHR 0xB7]),
     ([CHR 0xEA, CHR 0xAE, CHR 0x88], [CHR 0xE1, CHR 0x8E, CHR 0xB8]),
     ([CHR 0xEA, CHR 0xAE, CHR 0x89], [CHR 0xE1, CHR 0x8E, CHR 0xB9]),
     ([CHR 0xEA, CHR 0xAE, CHR 0x8A], [CHR 0xE1, CHR 0x8E, CHR 0xBA]),
     ([CHR 0xEA, CHR 0xAE, CHR 0x8B], [CHR 0xE1, CHR 0x8E, CHR 0xBB]),
     ([CHR 0xEA, CHR 0xAE, CHR 0x8C], [CHR 0xE1, CHR 0x8E, CHR 0xBC])]"

definition upper_AB8D :: "(string \<times> string) list" where
  "upper_AB8D =
    [([CHR 0xEA, CHR 0xAE, CHR 0x8D], [CHR 0xE1, CHR 0x8E, CHR 0xBD]),
     ([CHR 0xEA, CHR 0xAE, CHR 0x8E], [CHR 0xE1, CHR 0x8E, CHR 0xBE]),
     ([CHR 0xEA, CHR 0xAE, CHR 0x8F], [CHR 0xE1, CHR 0x8E, CHR 0xBF]),
     ([CHR 0xEA, CHR 0xAE, CHR 0x90], [CHR 0xE1, CHR 0x8F, CHR 0x80]),
     ([CHR 0xEA, CHR 0xAE, CHR 0x91], [CHR 0xE1, CHR 0x8F, CHR 0x81]),
     ([CHR 0xEA, CHR 0xAE, CHR 0x92], [CHR 0xE1, CHR 0x8F, CHR 0x82]),
     ([CHR 0xEA, CHR 0xAE, CHR 0x93], [CHR 0xE1, CHR 0x8F, CHR 0x83]),
     ([CHR 0xEA, CHR 0xAE, CHR 0x94], [CHR 0xE1, CHR 0x8F, CHR 0x84]),
     ([CHR 0xEA, CHR 0xAE, CHR 0x95], [CHR 0xE1, CHR 0x8F, CHR 0x85]),
     ([CHR 0xEA, CHR 0xAE, CHR 0x96], [CHR 0xE1, CHR 0x8F, CHR 0x86]),
     ([CHR 0xEA, CHR 0xAE, CHR 0x97], [CHR 0xE1, CHR 0x8F, CHR 0x87]),
     ([CHR 0xEA, CHR 0xAE, CHR 0x98], [CHR 0xE1, CHR 0x8F, CHR 0x88]),
     ([CHR 0xEA, CHR 0xAE, CHR 0x99], [CHR 0xE1, CHR 0x8F, CHR 0x89]),
     ([CHR 0xEA, CHR 0xAE, CHR 0x9A], [CHR 0xE1, CHR 0x8F, CHR 0x8A]),
     ([CHR 0xEA, CHR 0xAE, CHR 0x9B], [CHR 0xE1, CHR 0x8F, CHR 0x8B]),
     ([CHR 0xEA, CHR 0xAE, CHR 0x9C], [CHR 0xE1, CHR 0x8F, CHR 0x8C]),
     ([CHR 0xEA, CHR 0xAE, CHR 0x9D], [CHR 0xE1, CHR 0x8F, CHR 0x8D]),
     ([CHR 0xEA, CHR 0xAE, CHR 0x9E], [CHR 0xE1, CHR 0x8F, CHR 0x8E]),
     ([CHR 0xEA, CHR 0xAE, CHR 0x9F], [CHR 0xE1, CHR 0x8F, CHR 0x8F]),
     ([CHR 0xEA, CHR 0xAE, CHR 0xA0], [CHR 0xE1, CHR 0x8F, CHR 0x90]),
     ([CHR 0xEA, CHR 0xAE, CHR 0xA1], [CHR 0xE1, CHR 0x8F, CHR 0x91]),
     ([CHR 0xEA, CHR 0xAE, CHR 0xA2], [CHR 0xE1, CHR 0x8F, CHR 0x92]),
     ([CHR 0xEA, CHR 0xAE, CHR 0xA3], [CHR 0xE1, CHR 0x8F, CHR 0x93]),
     ([CHR 0xEA, CHR 0xAE, CHR 0xA4], [CHR 0xE1, CHR 0x8F, CHR 0x94]),
     ([CHR 0xEA, CHR 0xAE, CHR 0xA5], [CHR 0xE1, CHR 0x8F, CHR 0x95]),
     ([CHR 0xEA, CHR 0xAE, CHR 0xA6], [CHR 0xE1, CHR 0x8F, CHR 0x96]),
     ([CHR 0xEA, CHR 0xAE, CHR 0xA7], [CHR 0xE1, CHR 0x8F, CHR 0x97]),
     ([CHR 0xEA, CHR 0xAE, CHR 0xA8], [CHR 0xE1, CHR 0x8F, CHR 0x98]),
     ([CHR 0xEA, CHR 0xAE, CHR 0xA9], [CHR 0xE1, CHR 0x8F, CHR 0x99]),
     ([CHR 0xEA, CHR 0xAE, CHR 0xAA], [CHR 0xE1, CHR 0x8F, CHR 0x9A]),
     ([CHR 0xEA, CHR 0xAE, CHR 0xAB], [CHR 0xE1, CHR 0x8F, CHR 0x9B]),
     ([CHR 0xEA, CHR 0xAE, CHR 0xAC], [CHR 0xE1, CHR 0x8F, CHR 0x9C]),
     ([CHR 0xEA, CHR 0xAE, CHR 0xAD], [CHR 0xE1, CHR 0x8F, CHR 0x9D]),
     ([CHR 0xEA, CHR 0xAE, CHR 0xAE], [CHR 0xE1, CHR 0x8F, CHR 0x9E]),
     ([CHR 0xEA, CHR 0xAE, CHR 0xAF], [CHR 0xE1, CHR 0x8F, CHR 0x9F]),
     ([CHR 0xEA, CHR 0xAE, CHR 0xB0], [CHR 0xE1, CHR 0x8F, CHR 0xA0]),
     ([CHR 0xEA, CHR 0xAE, CHR 0xB1], [CHR 0xE1, CHR 0x8F, CHR 0xA1]),
     ([CHR 0xEA, CHR 0xAE, CHR 0xB2], [CHR 0xE1, CHR 0x8F, CHR 0xA2]),
     ([CHR 0xEA, CHR 0xAE, CHR 0xB3], [CHR 0xE1, CHR 0x8F, CHR 0xA3]),
     ([CHR 0xEA, CHR 0xAE, CHR 0xB4], [CHR 0xE1, CHR 0x8F, CHR 0xA4]),
     ([CHR 0xEA, CHR 0xAE, CHR 0xB5], [CHR 0xE1, CHR 0x8F, CHR 0xA5]),
     ([CHR 0xEA, CHR 0xAE, CHR 0xB6], [CHR 0xE1, CHR 0x8F, CHR 0xA6]),
     ([CHR 0xEA, CHR 0xAE, CHR 0xB7], [CHR 0xE1, CHR 0x8F, CHR 0xA7]),
     ([CHR 0xEA, CHR 0xAE, CHR 0xB8], [CHR 0xE1, CHR 0x8F, CHR 0xA8]),
     ([CHR 0xEA, CHR 0xAE, CHR 0xB9], [CHR 0xE1, CHR 0x8F, CHR 0xA9]),
     ([CHR 0xEA, CHR 0xAE, CHR 0xBA], [CHR 0xE1, CHR 0x8F, CHR 0xAA]),
     ([CHR 0xEA, CHR 0xAE, CHR 0xBB], [CHR 0xE1, CHR 0x8F, CHR 0xAB]),
     ([CHR 0xEA, CHR 0xAE, CHR 0xBC], [CHR 0xE1, CHR 0x8F, CHR 0xAC]),
     ([CHR 0xEA, CHR 0xAE, CHR 0xBD], [CHR 0xE1, CHR 0x8F, CHR 0xAD]),
     ([CHR 0xEA, CHR 0xAE, CHR 0xBE], [CHR 0xE1, CHR 0x8F, CHR 0xAE])]"

definition upper_ABBF :: "(string \<times> string) list" where
  "upper_ABBF =
    [([CHR 0xEA, CHR 0xAE, CHR 0xBF], [CHR 0xE1, CHR 0x8F, CHR 0xAF]),
     ([CHR 0xEF, CHR 0xAC, CHR 0x80], [CHR 0x46, CHR 0x46]),
     ([CHR 0xEF, CHR 0xAC, CHR 0x81], [CHR 0x46, CHR 0x49]),
     ([CHR 0xEF, CHR 0xAC, CHR 0x82], [CHR 0x46, CHR 0x4C]),
     ([CHR 0xEF, CHR 0xAC, CHR 0x83], [CHR 0x46, CHR 0x46, CHR 0x49]),
     ([CHR 0xEF, CHR 0xAC, CHR 0x84], [CHR 0x46, CHR 0x46, CHR 0x4C]),
     ([CHR 0xEF, CHR 0xAC, CHR 0x85], [CHR 0x53, CHR 0x54]),
     ([CHR 0xEF, CHR 0xAC, CHR 0x86], [CHR 0x53, CHR 0x54]),
     ([CHR 0xEF, CHR 0xAC, CHR 0x93], [CHR 0xD5, CHR 0x84, CHR 0xD5, CHR 0x86]),
     ([CHR 0xEF, CHR 0xAC, CHR 0x94], [CHR 0xD5, CHR 0x84, CHR 0xD4, CHR 0xB5]),
     ([CHR 0xEF, CHR 0xAC, CHR 0x95], [CHR 0xD5, CHR 0x84, CHR 0xD4, CHR 0xBB]),
     ([CHR 0xEF, CHR 0xAC, CHR 0x96], [CHR 0xD5, CHR 0x8E, CHR 0xD5, CHR 0x86]),
     ([CHR 0xEF, CHR 0xAC, CHR 0x97], [CHR 0xD5, CHR 0x84, CHR 0xD4, CHR 0xBD]),
     ([CHR 0xEF, CHR 0xBD, CHR 0x81], [CHR 0xEF, CHR 0xBC, CHR 0xA1]),
     ([CHR 0xEF, CHR 0xBD, CHR 0x82], [CHR 0xEF, CHR 0xBC, CHR 0xA2]),
     ([CHR 0xEF, CHR 0xBD, CHR 0x83], [CHR 0xEF, CHR 0xBC, CHR 0xA3]),
     ([CHR 0xEF, CHR 0xBD, CHR 0x84], [CHR 0xEF, CHR 0xBC, CHR 0xA4]),
     ([CHR 0xEF, CHR 0xBD, CHR 0x85], [CHR 0xEF, CHR 0xBC, CHR 0xA5]),
     ([CHR 0xEF, CHR 0xBD, CHR 0x86], [CHR 0xEF, CHR 0xBC, CHR 0xA6]),
     ([CHR 0xEF, CHR 0xBD, CHR 0x87], [CHR 0xEF, CHR 0xBC, CHR 0xA7]),
     ([CHR 0xEF, CHR 0xBD, CHR 0x88], [CHR 0xEF, CHR 0xBC, CHR 0xA8]),
     ([CHR 0xEF, CHR 0xBD, CHR 0x89], [CHR 0xEF, CHR 0xBC, CHR 0xA9]),
     ([CHR 0xEF, CHR 0xBD, CHR 0x8A], [CHR 0xEF, CHR 0xBC, CHR 0xAA]),
     ([CHR 0xEF, CHR 0xBD, CHR 0x8B], [CHR 0xEF, CHR 0xBC, CHR 0xAB]),
     ([CHR 0xEF, CHR 0xBD, CHR 0x8C], [CHR 0xEF, CHR 0xBC, CHR 0xAC]),
     ([CHR 0xEF, CHR 0xBD, CHR 0x8D], [CHR 0xEF, CHR 0xBC, CHR 0xAD]),
     ([CHR 0xEF, CHR 0xBD, CHR 0x8E], [CHR 0xEF, CHR 0xBC, CHR 0xAE]),
     ([CHR 0xEF, CHR 0xBD, CHR 0x8F], [CHR 0xEF, CHR 0xBC, CHR 0xAF]),
     ([CHR 0xEF, CHR 0xBD, CHR 0x90], [CHR 0xEF, CHR 0xBC, CHR 0xB0]),
     ([CHR 0xEF, CHR 0xBD, CHR 0x91], [CHR 0xEF, CHR 0xBC, CHR 0xB1]),
     ([CHR 0xEF, CHR 0xBD, CHR 0x92], [CHR 0xEF, CHR 0xBC, CHR 0xB2]),
     ([CHR 0xEF, CHR 0xBD, CHR 0x93], [CHR 0xEF, CHR 0xBC, CHR 0xB3]),
     ([CHR 0xEF, CHR 0xBD, CHR 0x94], [CHR 0xEF, CHR 0xBC, CHR 0xB4]),
     ([CHR 0xEF, CHR 0xBD, CHR 0x95], [CHR 0xEF, CHR 0xBC, CHR 0xB5]),
     ([CHR 0xEF, CHR 0xBD, CHR 0x96], [CHR 0xEF, CHR 0xBC, CHR 0xB6]),
     ([CHR 0xEF, CHR 0xBD, CHR 0x97], [CHR 0xEF, CHR 0xBC, CHR 0xB7]),
     ([CHR 0xEF, CHR 0xBD, CHR 0x98], [CHR 0xEF, CHR 0xBC, CHR 0xB8]),
     ([CHR 0xEF, CHR 0xBD, CHR 0x99], [CHR 0xEF, CHR 0xBC, CHR 0xB9]),
     ([CHR 0xEF, CHR 0xBD, CHR 0x9A], [CHR 0xEF, CHR 0xBC, CHR 0xBA]),
     ([CHR 0xF0, CHR 0x90, CHR 0x90, CHR 0xA8], [CHR 0xF0, CHR 0x90, CHR 0x90, CHR 0x80]),
     ([CHR 0xF0, CHR 0x90, CHR 0x90, CHR 0xA9], [CHR 0xF0, CHR 0x90, CHR 0x90, CHR 0x81]),
     ([CHR 0xF0, CHR 0x90, CHR 0x90, CHR 0xAA], [CHR 0xF0, CHR 0x90, CHR 0x90, CHR 0x82]),
     ([CHR 0xF0, CHR 0x90, CHR 0x90, CHR 0xAB], [CHR 0xF0, CHR 0x90, CHR 0x90, CHR 0x83]),
     ([CHR 0xF0, CHR 0x90, CHR 0x90, CHR 0xAC], [CHR 0xF0, CHR 0x90, CHR 0x90, CHR 0x84]),
     ([CHR 0xF0, CHR 0x90, CHR 0x90, CHR 0xAD], [CHR 0xF0, CHR 0x90, CHR 0x90, CHR 0x85]),
     ([CHR 0xF0, CHR 0x90, CHR 0x90, CHR 0xAE], [CHR 0xF0, CHR 0x90, CHR 0x90, CHR 0x86]),
     ([CHR 0xF0, CHR 0x90, CHR 0x90, CHR 0xAF], [CHR 0xF0, CHR 0x90, CHR 0x90, CHR 0x87]),
     ([CHR 0xF0, CHR 0x90, CHR 0x90, CHR 0xB0], [CHR 0xF0, CHR 0x90, CHR 0x90, CHR 0x88]),
     ([CHR 0xF0, CHR 0x90, CHR 0x90, CHR 0xB1], [CHR 0xF0, CHR 0x90, CHR 0x90, CHR 0x89]),
     ([CHR 0xF0, CHR 0x90, CHR 0x90, CHR 0xB2], [CHR 0xF0, CHR 0x90, CHR 0x90, CHR 0x8A])]"

definition upper_10433 :: "(string \<times> string) list" where
  "upper_10433 =
    [([CHR 0xF0, CHR 0x90, CHR 0x90, CHR 0xB3], [CHR 0xF0, CHR 0x90, CHR 0x90, CHR 0x8B]),
     ([CHR 0xF0, CHR 0x90, CHR 0x90, CHR 0xB4], [CHR 0xF0, CHR 0x90, CHR 0x90, CHR 0x8C]),
     ([CHR 0xF0, CHR 0x90, CHR 0x90, CHR 0xB5], [CHR 0xF0, CHR 0x90, CHR 0x90, CHR 0x8D]),
     ([CHR 0xF0, CHR 0x90, CHR 0x90, CHR 0xB6], [CHR 0xF0, CHR 0x90, CHR 0x90, CHR 0x8E]),
     ([CHR 0xF0, CHR 0x90, CHR 0x90, CHR 0xB7], [CHR 0xF0, CHR 0x90, CHR 0x90, CHR 0x8F]),
     ([CHR 0xF0, CHR 0x90, CHR 0x90, CHR 0xB8], [CHR 0xF0, CHR 0x90, CHR 0x90, CHR 0x90]),
     ([CHR 0xF0, CHR 0x90, CHR 0x90, CHR 0xB9], [CHR 0xF0, CHR 0x90, CHR 0x90, CHR 0x91]),
     ([CHR 0xF0, CHR 0x90, CHR 0x90, CHR 0xBA], [CHR 0xF0, CHR 0x90, CHR 0x90, CHR 0x92]),
     ([CHR 0xF0, CHR 0x90, CHR 0x90, CHR 0xBB], [CHR 0xF0, CHR 0x90, CHR 0x90, CHR 0x93]),
     ([CHR 0xF0, CHR 0x90, CHR 0x90, CHR 0xBC], [CHR 0xF0, CHR 0x90, CHR 0x90, CHR 0x94]),
     ([CHR 0xF0, CHR 0x90, CHR 0x90, CHR 0xBD], [CHR 0xF0, CHR 0x90, CHR 0x90, CHR 0x95]),
     ([CHR 0xF0, CHR 0x90, CHR 0x90, CHR 0xBE], [CHR 0xF0, CHR 0x90, CHR 0x90, CHR 0x96]),
     ([CHR 0xF0, CHR 0x90, CHR 0x90, CHR 0xBF], [CHR 0xF0, CHR 0x90, CHR 0x90, CHR 0x97]),
     ([CHR 0xF0, CHR 0x90, CHR 0x91, CHR 0x80], [CHR 0xF0, CHR 0x90, CHR 0x90, CHR 0x98]),
     ([CHR 0xF0, CHR 0x90, CHR 0x91, CHR 0x81], [CHR 0xF0, CHR 0x90, CHR 0x90, CHR 0x99]),
     ([CHR 0xF0, CHR 0x90, CHR 0x91, CHR 0x82], [CHR 0xF0, CHR 0x90, CHR 0x90, CHR 0x9A]),
     ([CHR 0xF0, CHR 0x90, CHR 0x91, CHR 0x83], [CHR 0xF0, CHR 0x90, CHR 0x90, CHR 0x9B]),
     ([CHR 0xF0, CHR 0x90, CHR 0x91, CHR 0x84], [CHR 0xF0, CHR 0x90, CHR 0x90, CHR 0x9C]),
     ([CHR 0xF0, CHR 0x90, CHR 0x91, CHR 0x85], [CHR 0xF0, CHR 0x90, CHR 0x90, CHR 0x9D]),
     ([CHR 0xF0, CHR 0x90, CHR 0x91, CHR 0x86], [CHR 0xF0, CHR 0x90, CHR 0x90, CHR 0x9E]),
     ([CHR 0xF0, CHR 0x90, CHR 0x91, CHR 0x87], [CHR 0xF0, CHR 0x90, CHR 0x90, CHR 0x9F]),
     ([CHR 0xF0, CHR 0x90, CHR 0x91, CHR 0x88], [CHR 0xF0, CHR 0x90, CHR 0x90, CHR 0xA0]),
     ([CHR 0xF0, CHR 0x90, CHR 0x91, CHR 0x89], [CHR 0xF0, CHR 0x90, CHR 0x90, CHR 0xA1]),
     ([CHR 0xF0, CHR 0x90, CHR 0x91, CHR 0x8A], [CHR 0xF0, CHR 0x90, CHR 0x90, CHR 0xA2]),
     ([CHR 0xF0, CHR 0x90, CHR 0x91, CHR 0x8B], [CHR 0xF0, CHR 0x90, CHR 0x90, CHR 0xA3]),
     ([CHR 0xF0, CHR 0x90, CHR 0x91, CHR 0x8C], [CHR 0xF0, CHR 0x90, CHR 0x90, CHR 0xA4]),
     ([CHR 0xF0, CHR 0x90, CHR 0x91, CHR 0x8D], [CHR 0xF0, CHR 0x90, CHR 0x90, CHR 0xA5]),
     ([CHR 0xF0, CHR 0x90, CHR 0x91, CHR 0x8E], [CHR 0xF0, CHR 0x90, CHR 0x90, CHR 0xA6]),
     ([CHR 0xF0, CHR 0x90, CHR 0x91, CHR 0x8F], [CHR 0xF0, CHR 0x90, CHR 0x90, CHR 0xA7]),
     ([CHR 0xF0, CHR 0x90, CHR 0x93, CHR 0x98], [CHR 0xF0, CHR 0x90, CHR 0x92, CHR 0xB0]),
     ([CHR 0xF0, CHR 0x90, CHR 0x93, CHR 0x99], [CHR 0xF0, CHR 0x90, CHR 0x92, CHR 0xB1]),
     ([CHR 0xF0, CHR 0x90, CHR 0x93, CHR 0x9A], [CHR 0xF0, CHR 0x90, CHR 0x92, CHR 0xB2]),
     ([CHR 0xF0, CHR 0x90, CHR 0x93, CHR 0x9B], [CHR 0xF0, CHR 0x90, CHR 0x92, CHR 0xB3]),
     ([CHR 0xF0, CHR 0x90, CHR 0x93, CHR 0x9C], [CHR 0xF0, CHR 0x90, CHR 0x92, CHR 0xB4]),
     ([CHR 0xF0, CHR 0x90, CHR 0x93, CHR 0x9D], [CHR 0xF0, CHR 0x90, CHR 0x92, CHR 0xB5]),
     ([CHR 0xF0, CHR 0x90, CHR 0x93, CHR 0x9E], [CHR 0xF0, CHR 0x90, CHR 0x92, CHR 0xB6]),
     ([CHR 0xF0, CHR 0x90, CHR 0x93, CHR 0x9F], [CHR 0xF0, CHR 0x90, CHR 0x92, CHR 0xB7]),
     ([CHR 0xF0, CHR 0x90, CHR 0x93, CHR 0xA0], [CHR 0xF0, CHR 0x90, CHR 0x92, CHR 0xB8]),
     ([CHR 0xF0, CHR 0x90, CHR 0x93, CHR 0xA1], [CHR 0xF0, CHR 0x90, CHR 0x92, CHR 0xB9]),
     ([CHR 0xF0, CHR 0x90, CHR 0x93, CHR 0xA2], [CHR 0xF0, CHR 0x90, CHR 0x92, CHR 0xBA]),
     ([CHR 0xF0, CHR 0x90, CHR 0x93, CHR 0xA3], [CHR 0xF0, CHR 0x90, CHR 0x92, CHR 0xBB]),
     ([CHR 0xF0, CHR 0x90, CHR 0x93, CHR 0xA4], [CHR 0xF0, CHR 0x90, CHR 0x92, CHR 0xBC]),
     ([CHR 0xF0, CHR 0x90, CHR 0x93, CHR 0xA5], [CHR 0xF0, CHR 0x90, CHR 0x92, CHR 0xBD]),
     ([CHR 0xF0, CHR 0x90, CHR 0x93, CHR 0xA6], [CHR 0xF0, CHR 0x90, CHR 0x92, CHR 0xBE]),
     ([CHR 0xF0, CHR 0x90, CHR 0x93, CHR 0xA7], [CHR 0xF0, CHR 0x90, CHR 0x92, CHR 0xBF]),
     ([CHR 0xF0, CHR 0x90, CHR 0x93, CHR 0xA8], [CHR 0xF0, CHR 0x90, CHR 0x93, CHR 0x80]),
     ([CHR 0xF0, CHR 0x90, CHR 0x93, CHR 0xA9], [CHR 0xF0, CHR 0x90, CHR 0x93, CHR 0x81]),
     ([CHR 0xF0, CHR 0x90, CHR 0x93, CHR 0xAA], [CHR 0xF0, CHR 0x90, CHR 0x93, CHR 0x82]),
     ([CHR 0xF0, CHR 0x90, CHR 0x93, CHR 0xAB], [CHR 0xF0, CHR 0x90, CHR 0x93, CHR 0x83]),
     ([CHR 0xF0, CHR 0x90, CHR 0x93, CHR 0xAC], [CHR 0xF0, CHR 0x90, CHR 0x93, CHR 0x84])]"

definition upper_104ED :: "(string \<times> string) list" where
  "upper_104ED =
    [([CHR 0xF0, CHR 0x90, CHR 0x93, CHR 0xAD], [CHR 0xF0, CHR 0x90, CHR 0x93, CHR 0x85]),
     ([CHR 0xF0, CHR 0x90, CHR 0x93, CHR 0xAE], [CHR 0xF0, CHR 0x90, CHR 0x93, CHR 0x86]),
     ([CHR 0xF0, CHR 0x90, CHR 0x93, CHR 0xAF], [CHR 0xF0, CHR 0x90, CHR 0x93, CHR 0x87]),
     ([CHR 0xF0, CHR 0x90, CHR 0x93, CHR 0xB0], [CHR 0xF0, CHR 0x90, CHR 0x93, CHR 0x88]),
     ([CHR 0xF0, CHR 0x90, CHR 0x93, CHR 0xB1], [CHR 0xF0, CHR 0x90, CHR 0x93, CHR 0x89]),
     ([CHR 0xF0, CHR 0x90, CHR 0x93, CHR 0xB2], [CHR 0xF0, CHR 0x90, CHR 0x93, CHR 0x8A]),
     ([CHR 0xF0, CHR 0x90, CHR 0x93, CHR 0xB3], [CHR 0xF0, CHR 0x90, CHR 0x93, CHR 0x8B]),
     ([CHR 0xF0, CHR 0x90, CHR 0x93, CHR 0xB4], [CHR 0xF0, CHR 0x90, CHR 0x93, CHR 0x8C]),
     ([CHR 0xF0, CHR 0x90, CHR 0x93, CHR 0xB5], [CHR 0xF0, CHR 0x90, CHR 0x93, CHR 0x8D]),
     ([CHR 0xF0, CHR 0x90, CHR 0x93, CHR 0xB6], [CHR 0xF0, CHR 0x90, CHR 0x93, CHR 0x8E]),
     ([CHR 0xF0, CHR 0x90, CHR 0x93, CHR 0xB7], [CHR 0xF0, CHR 0x90, CHR 0x93, CHR 0x8F]),
     ([CHR 0xF0, CHR 0x90, CHR 0x93, CHR 0xB8], [CHR 0xF0, CHR 0x90, CHR 0x93, CHR 0x90]),
     ([CHR 0xF0, CHR 0x90, CHR 0x93, CHR 0xB9], [CHR 0xF0, CHR 0x90, CHR 0x93, CHR 0x91]),
     ([CHR 0xF0, CHR 0x90, CHR 0x93, CHR 0xBA], [CHR 0xF0, CHR 0x90, CHR 0x93, CHR 0x92]),
     ([CHR 0xF0, CHR 0x90, CHR 0x93, CHR 0xBB], [CHR 0xF0, CHR 0x90, CHR 0x93, CHR 0x93]),
     ([CHR 0xF0, CHR 0x90, CHR 0x96, CHR 0x97], [CHR 0xF0, CHR 0x90, CHR 0x95, CHR 0xB0]),
     ([CHR 0xF0, CHR 0x90, CHR 0x96, CHR 0x98], [CHR 0xF0, CHR 0x90, CHR 0x95, CHR 0xB1]),
     ([CHR 0xF0, CHR 0x90, CHR 0x96, CHR 0x99], [CHR 0xF0, CHR 0x90, CHR 0x95, CHR 0xB2]),
     ([CHR 0xF0, CHR 0x90, CHR 0x96, CHR 0x9A], [CHR 0xF0, CHR 0x90, CHR 0x95, CHR 0xB3]),
     ([CHR 0xF0, CHR 0x90, CHR 0x96, CHR 0x9B], [CHR 0xF0, CHR 0x90, CHR 0x95, CHR 0xB4]),
     ([CHR 0xF0, CHR 0x90, CHR 0x96, CHR 0x9C], [CHR 0xF0, CHR 0x90, CHR 0x95, CHR 0xB5]),
     ([CHR 0xF0, CHR 0x90, CHR 0x96, CHR 0x9D], [CHR 0xF0, CHR 0x90, CHR 0x95, CHR 0xB6]),
     ([CHR 0xF0, CHR 0x90, CHR 0x96, CHR 0x9E], [CHR 0xF0, CHR 0x90, CHR 0x95, CHR 0xB7]),
     ([CHR 0xF0, CHR 0x90, CHR 0x96, CHR 0x9F], [CHR 0xF0, CHR 0x90, CHR 0x95, CHR 0xB8]),
     ([CHR 0xF0, CHR 0x90, CHR 0x96, CHR 0xA0], [CHR 0xF0, CHR 0x90, CHR 0x95, CHR 0xB9]),
     ([CHR 0xF0, CHR 0x90, CHR 0x96, CHR 0xA1], [CHR 0xF0, CHR 0x90, CHR 0x95, CHR 0xBA]),
     ([CHR 0xF0, CHR 0x90, CHR 0x96, CHR 0xA3], [CHR 0xF0, CHR 0x90, CHR 0x95, CHR 0xBC]),
     ([CHR 0xF0, CHR 0x90, CHR 0x96, CHR 0xA4], [CHR 0xF0, CHR 0x90, CHR 0x95, CHR 0xBD]),
     ([CHR 0xF0, CHR 0x90, CHR 0x96, CHR 0xA5], [CHR 0xF0, CHR 0x90, CHR 0x95, CHR 0xBE]),
     ([CHR 0xF0, CHR 0x90, CHR 0x96, CHR 0xA6], [CHR 0xF0, CHR 0x90, CHR 0x95, CHR 0xBF]),
     ([CHR 0xF0, CHR 0x90, CHR 0x96, CHR 0xA7], [CHR 0xF0, CHR 0x90, CHR 0x96, CHR 0x80]),
     ([CHR 0xF0, CHR 0x90, CHR 0x96, CHR 0xA8], [CHR 0xF0, CHR 0x90, CHR 0x96, CHR 0x81]),
     ([CHR 0xF0, CHR 0x90, CHR 0x96, CHR 0xA9], [CHR 0xF0, CHR 0x90, CHR 0x96, CHR 0x82]),
     ([CHR 0xF0, CHR 0x90, CHR 0x96, CHR 0xAA], [CHR 0xF0, CHR 0x90, CHR 0x96, CHR 0x83]),
     ([CHR 0xF0, CHR 0x90, CHR 0x96, CHR 0xAB], [CHR 0xF0, CHR 0x90, CHR 0x96, CHR 0x84]),
     ([CHR 0xF0, CHR 0x90, CHR 0x96, CHR 0xAC], [CHR 0xF0, CHR 0x90, CHR 0x96, CHR 0x85]),
     ([CHR 0xF0, CHR 0x90, CHR 0x96, CHR 0xAD], [CHR 0xF0, CHR 0x90, CHR 0x96, CHR 0x86]),
     ([CHR 0xF0, CHR 0x90, CHR 0x96, CHR 0xAE], [CHR 0xF0, CHR 0x90, CHR 0x96, CHR 0x87]),
     ([CHR 0xF0, CHR 0x90, CHR 0x96, CHR 0xAF], [CHR 0xF0, CHR 0x90, CHR 0x96, CHR 0x88]),
     ([CHR 0xF0, CHR 0x90, CHR 0x96, CHR 0xB0], [CHR 0xF0, CHR 0x90, CHR 0x96, CHR 0x89]),
     ([CHR 0xF0, CHR 0x90, CHR 0x96, CHR 0xB1], [CHR 0xF0, CHR 0x90, CHR 0x96, CHR 0x8A]),
     ([CHR 0xF0, CHR 0x90, CHR 0x96, CHR 0xB3], [CHR 0xF0, CHR 0x90, CHR 0x96, CHR 0x8C]),
     ([CHR 0xF0, CHR 0x90, CHR 0x96, CHR 0xB4], [CHR 0xF0, CHR 0x90, CHR 0x96, CHR 0x8D]),
     ([CHR 0xF0, CHR 0x90, CHR 0x96, CHR 0xB5], [CHR 0xF0, CHR 0x90, CHR 0x96, CHR 0x8E]),
     ([CHR 0xF0, CHR 0x90, CHR 0x96, CHR 0xB6], [CHR 0xF0, CHR 0x90, CHR 0x96, CHR 0x8F]),
     ([CHR 0xF0, CHR 0x90, CHR 0x96, CHR 0xB7], [CHR 0xF0, CHR 0x90, CHR 0x96, CHR 0x90]),
     ([CHR 0xF0, CHR 0x90, CHR 0x96, CHR 0xB8], [CHR 0xF0, CHR 0x90, CHR 0x96, CHR 0x91]),
     ([CHR 0xF0, CHR 0x90, CHR 0x96, CHR 0xB9], [CHR 0xF0, CHR 0x90, CHR 0x96, CHR 0x92]),
     ([CHR 0xF0, CHR 0x90, CHR 0x96, CHR 0xBB], [CHR 0xF0, CHR 0x90, CHR 0x96, CHR 0x94]),
     ([CHR 0xF0, CHR 0x90, CHR 0x96, CHR 0xBC], [CHR 0xF0, CHR 0x90, CHR 0x96, CHR 0x95])]"

definition upper_10CC0 :: "(string \<times> string) list" where
  "upper_10CC0 =
    [([CHR 0xF0, CHR 0x90, CHR 0xB3, CHR 0x80], [CHR 0xF0, CHR 0x90, CHR 0xB2, CHR 0x80]),
     ([CHR 0xF0, CHR 0x90, CHR 0xB3, CHR 0x81], [CHR 0xF0, CHR 0x90, CHR 0xB2, CHR 0x81]),
     ([CHR 0xF0, CHR 0x90, CHR 0xB3, CHR 0x82], [CHR 0xF0, CHR 0x90, CHR 0xB2, CHR 0x82]),
     ([CHR 0xF0, CHR 0x90, CHR 0xB3, CHR 0x83], [CHR 0xF0, CHR 0x90, CHR 0xB2, CHR 0x83]),
     ([CHR 0xF0, CHR 0x90, CHR 0xB3, CHR 0x84], [CHR 0xF0, CHR 0x90, CHR 0xB2, CHR 0x84]),
     ([CHR 0xF0, CHR 0x90, CHR 0xB3, CHR 0x85], [CHR 0xF0, CHR 0x90, CHR 0xB2, CHR 0x85]),
     ([CHR 0xF0, CHR 0x90, CHR 0xB3, CHR 0x86], [CHR 0xF0, CHR 0x90, CHR 0xB2, CHR 0x86]),
     ([CHR 0xF0, CHR 0x90, CHR 0xB3, CHR 0x87], [CHR 0xF0, CHR 0x90, CHR 0xB2, CHR 0x87]),
     ([CHR 0xF0, CHR 0x90, CHR 0xB3, CHR 0x88], [CHR 0xF0, CHR 0x90, CHR 0xB2, CHR 0x88]),
     ([CHR 0xF0, CHR 0x90, CHR 0xB3, CHR 0x89], [CHR 0xF0, CHR 0x90, CHR 0xB2, CHR 0x89]),
     ([CHR 0xF0, CHR 0x90, CHR 0xB3, CHR 0x8A], [CHR 0xF0, CHR 0x90, CHR 0xB2, CHR 0x8A]),
     ([CHR 0xF0, CHR 0x90, CHR 0xB3, CHR 0x8B], [CHR 0xF0, CHR 0x90, CHR 0xB2, CHR 0x8B]),
     ([CHR 0xF0, CHR 0x90, CHR 0xB3, CHR 0x8C], [CHR 0xF0, CHR 0x90, CHR 0xB2, CHR 0x8C]),
     ([CHR 0xF0, CHR 0x90, CHR 0xB3, CHR 0x8D], [CHR 0xF0, CHR 0x90, CHR 0xB2, CHR 0x8D]),
     ([CHR 0xF0, CHR 0x90, CHR 0xB3, CHR 0x8E], [CHR 0xF0, CHR 0x90, CHR 0xB2, CHR 0x8E]),
     ([CHR 0xF0, CHR 0x90, CHR 0xB3, CHR 0x8F], [CHR 0xF0, CHR 0x90, CHR 0xB2, CHR 0x8F]),
     ([CHR 0xF0, CHR 0x90, CHR 0xB3, CHR 0x90], [CHR 0xF0, CHR 0x90, CHR 0xB2, CHR 0x90]),
     ([CHR 0xF0, CHR 0x90, CHR 0xB3, CHR 0x91], [CHR 0xF0, CHR 0x90, CHR 0xB2, CHR 0x91]),
     ([CHR 0xF0, CHR 0x90, CHR 0xB3, CHR 0x92], [CHR 0xF0, CHR 0x90, CHR 0xB2, CHR 0x92]),
     ([CHR 0xF0, CHR 0x90, CHR 0xB3, CHR 0x93], [CHR 0xF0, CHR 0x90, CHR 0xB2, CHR 0x93]),
     ([CHR 0xF0, CHR 0x90, CHR 0xB3, CHR 0x94], [CHR 0xF0, CHR 0x90, CHR 0xB2, CHR 0x94]),
     ([CHR 0xF0, CHR 0x90, CHR 0xB3, CHR 0x95], [CHR 0xF0, CHR 0x90, CHR 0xB2, CHR 0x95]),
     ([CHR 0xF0, CHR 0x90, CHR 0xB3, CHR 0x96], [CHR 0xF0, CHR 0x90, CHR 0xB2, CHR 0x96]),
     ([CHR 0xF0, CHR 0x90, CHR 0xB3, CHR 0x97], [CHR 0xF0, CHR 0x90, CHR 0xB2, CHR 0x97]),
     ([CHR 0xF0, CHR 0x90, CHR 0xB3, CHR 0x98], [CHR 0xF0, CHR 0x90, CHR 0xB2, CHR 0x98]),
     ([CHR 0xF0, CHR 0x90, CHR 0xB3, CHR 0x99], [CHR 0xF0, CHR 0x90, CHR 0xB2, CHR 0x99]),
     ([CHR 0xF0, CHR 0x90, CHR 0xB3, CHR 0x9A], [CHR 0xF0, CHR 0x90, CHR 0xB2, CHR 0x9A]),
     ([CHR 0xF0, CHR 0x90, CHR 0xB3, CHR 0x9B], [CHR 0xF0, CHR 0x90, CHR 0xB2, CHR 0x9B]),
     ([CHR 0xF0, CHR 0x90, CHR 0xB3, CHR 0x9C], [CHR 0xF0, CHR 0x90, CHR 0xB2, CHR 0x9C]),
     ([CHR 0xF0, CHR 0x90, CHR 0xB3, CHR 0x9D], [CHR 0xF0, CHR 0x90, CHR 0xB2, CHR 0x9D]),
     ([CHR 0xF0, CHR 0x90, CHR 0xB3, CHR 0x9E], [CHR 0xF0, CHR 0x90, CHR 0xB2, CHR 0x9E]),
     ([CHR 0xF0, CHR 0x90, CHR 0xB3, CHR 0x9F], [CHR 0xF0, CHR 0x90, CHR 0xB2, CHR 0x9F]),
     ([CHR 0xF0, CHR 0x90, CHR 0xB3, CHR 0xA0], [CHR 0xF0, CHR 0x90, CHR 0xB2, CHR 0xA0]),
     ([CHR 0xF0, CHR 0x90, CHR 0xB3, CHR 0xA1], [CHR 0xF0, CHR 0x90, CHR 0xB2, CHR 0xA1]),
     ([CHR 0xF0, CHR 0x90, CHR 0xB3, CHR 0xA2], [CHR 0xF0, CHR 0x90, CHR 0xB2, CHR 0xA2]),
     ([CHR 0xF0, CHR 0x90, CHR 0xB3, CHR 0xA3], [CHR 0xF0, CHR 0x90, CHR 0xB2, CHR 0xA3]),
     ([CHR 0xF0, CHR 0x90, CHR 0xB3, CHR 0xA4], [CHR 0xF0, CHR 0x90, CHR 0xB2, CHR 0xA4]),
     ([CHR 0xF0, CHR 0x90, CHR 0xB3, CHR 0xA5], [CHR 0xF0, CHR 0x90, CHR 0xB2, CHR 0xA5]),
     ([CHR 0xF0, CHR 0x90, CHR 0xB3, CHR 0xA6], [CHR 0xF0, CHR 0x90, CHR 0xB2, CHR 0xA6]),
     ([CHR 0xF0, CHR 0x90, CHR 0xB3, CHR 0xA7], [CHR 0xF0, CHR 0x90, CHR 0xB2, CHR 0xA7]),
     ([CHR 0xF0, CHR 0x90, CHR 0xB3, CHR 0xA8], [CHR 0xF0, CHR 0x90, CHR 0xB2, CHR 0xA8]),
     ([CHR 0xF0, CHR 0x90, CHR 0xB3, CHR 0xA9], [CHR 0xF0, CHR 0x90, CHR 0xB2, CHR 0xA9]),
     ([CHR 0xF0, CHR 0x90, CHR 0xB3, CHR 0xAA], [CHR 0xF0, CHR 0x90, CHR 0xB2, CHR 0xAA]),
     ([CHR 0xF0, CHR 0x90, CHR 0xB3, CHR 0xAB], [CHR 0xF0, CHR 0x90, CHR 0xB2, CHR 0xAB]),
     ([CHR 0xF0, CHR 0x90, CHR 0xB3, CHR 0xAC], [CHR 0xF0, CHR 0x90, CHR 0xB2, CHR 0xAC]),
     ([CHR 0xF0, CHR 0x90, CHR 0xB3, CHR 0xAD], [CHR 0xF0, CHR 0x90, CHR 0xB2, CHR 0xAD]),
     ([CHR 0xF0, CHR 0x90, CHR 0xB3, CHR 0xAE], [CHR 0xF0, CHR 0x90, CHR 0xB2, CHR 0xAE]),
     ([CHR 0xF0, CHR 0x90, CHR 0xB3, CHR 0xAF], [CHR 0xF0, CHR 0x90, CHR 0xB2, CHR 0xAF]),
     ([CHR 0xF0, CHR 0x90, CHR 0xB3, CHR 0xB0], [CHR 0xF0, CHR 0x90, CHR 0xB2, CHR 0xB0]),
     ([CHR 0xF0, CHR 0x90, CHR 0xB3, CHR 0xB1], [CHR 0xF0, CHR 0x90, CHR 0xB2, CHR 0xB1])]"

definition upper_10CF2 :: "(string \<times> string) list" where
  "upper_10CF2 =
    [([CHR 0xF0, CHR 0x90, CHR 0xB3, CHR 0xB2], [CHR 0xF0, CHR 0x90, CHR 0xB2, CHR 0xB2]),
     ([CHR 0xF0, CHR 0x91, CHR 0xA3, CHR 0x80], [CHR 0xF0, CHR 0x91, CHR 0xA2, CHR 0xA0]),
     ([CHR 0xF0, CHR 0x91, CHR 0xA3, CHR 0x81], [CHR 0xF0, CHR 0x91, CHR 0xA2, CHR 0xA1]),
     ([CHR 0xF0, CHR 0x91, CHR 0xA3, CHR 0x82], [CHR 0xF0, CHR 0x91, CHR 0xA2, CHR 0xA2]),
     ([CHR 0xF0, CHR 0x91, CHR 0xA3, CHR 0x83], [CHR 0xF0, CHR 0x91, CHR 0xA2, CHR 0xA3]),
     ([CHR 0xF0, CHR 0x91, CHR 0xA3, CHR 0x84], [CHR 0xF0, CHR 0x91, CHR 0xA2, CHR 0xA4]),
     ([CHR 0xF0, CHR 0x91, CHR 0xA3, CHR 0x85], [CHR 0xF0, CHR 0x91, CHR 0xA2, CHR 0xA5]),
     ([CHR 0xF0, CHR 0x91, CHR 0xA3, CHR 0x86], [CHR 0xF0, CHR 0x91, CHR 0xA2, CHR 0xA6]),
     ([CHR 0xF0, CHR 0x91, CHR 0xA3, CHR 0x87], [CHR 0xF0, CHR 0x91, CHR 0xA2, CHR 0xA7]),
     ([CHR 0xF0, CHR 0x91, CHR 0xA3, CHR 0x88], [CHR 0xF0, CHR 0x91, CHR 0xA2, CHR 0xA8]),
     ([CHR 0xF0, CHR 0x91, CHR 0xA3, CHR 0x89], [CHR 0xF0, CHR 0x91, CHR 0xA2, CHR 0xA9]),
     ([CHR 0xF0, CHR 0x91, CHR 0xA3, CHR 0x8A], [CHR 0xF0, CHR 0x91, CHR 0xA2, CHR 0xAA]),
     ([CHR 0xF0, CHR 0x91, CHR 0xA3, CHR 0x8B], [CHR 0xF0, CHR 0x91, CHR 0xA2, CHR 0xAB]),
     ([CHR 0xF0, CHR 0x91, CHR 0xA3, CHR 0x8C], [CHR 0xF0, CHR 0x91, CHR 0xA2, CHR 0xAC]),
     ([CHR 0xF0, CHR 0x91, CHR 0xA3, CHR 0x8D], [CHR 0xF0, CHR 0x91, CHR 0xA2, CHR 0xAD]),
     ([CHR 0xF0, CHR 0x91, CHR 0xA3, CHR 0x8E], [CHR 0xF0, CHR 0x91, CHR 0xA2, CHR 0xAE]),
     ([CHR 0xF0, CHR 0x91, CHR 0xA3, CHR 0x8F], [CHR 0xF0, CHR 0x91, CHR 0xA2, CHR 0xAF]),
     ([CHR 0xF0, CHR 0x91, CHR 0xA3, CHR 0x90], [CHR 0xF0, CHR 0x91, CHR 0xA2, CHR 0xB0]),
     ([CHR 0xF0, CHR 0x91, CHR 0xA3, CHR 0x91], [CHR 0xF0, CHR 0x91, CHR 0xA2, CHR 0xB1]),
     ([CHR 0xF0, CHR 0x91, CHR 0xA3, CHR 0x92], [CHR 0xF0, CHR 0x91, CHR 0xA2, CHR 0xB2]),
     ([CHR 0xF0, CHR 0x91, CHR 0xA3, CHR 0x93], [CHR 0xF0, CHR 0x91, CHR 0xA2, CHR 0xB3]),
     ([CHR 0xF0, CHR 0x91, CHR 0xA3, CHR 0x94], [CHR 0xF0, CHR 0x91, CHR 0xA2, CHR 0xB4]),
     ([CHR 0xF0, CHR 0x91, CHR 0xA3, CHR 0x95], [CHR 0xF0, CHR 0x91, CHR 0xA2, CHR 0xB5]),
     ([CHR 0xF0, CHR 0x91, CHR 0xA3, CHR 0x96], [CHR 0xF0, CHR 0x91, CHR 0xA2, CHR 0xB6]),
     ([CHR 0xF0, CHR 0x91, CHR 0xA3, CHR 0x97], [CHR 0xF0, CHR 0x91, CHR 0xA2, CHR 0xB7]),
     ([CHR 0xF0, CHR 0x91, CHR 0xA3, CHR 0x98], [CHR 0xF0, CHR 0x91, CHR 0xA2, CHR 0xB8]),
     ([CHR 0xF0, CHR 0x91, CHR 0xA3, CHR 0x99], [CHR 0xF0, CHR 0x91, CHR 0xA2, CHR 0xB9]),
     ([CHR 0xF0, CHR 0x91, CHR 0xA3, CHR 0x9A], [CHR 0xF0, CHR 0x91, CHR 0xA2, CHR 0xBA]),
     ([CHR 0xF0, CHR 0x91, CHR 0xA3, CHR 0x9B], [CHR 0xF0, CHR 0x91, CHR 0xA2, CHR 0xBB]),
     ([CHR 0xF0, CHR 0x91, CHR 0xA3, CHR 0x9C], [CHR 0xF0, CHR 0x91, CHR 0xA2, CHR 0xBC]),
     ([CHR 0xF0, CHR 0x91, CHR 0xA3, CHR 0x9D], [CHR 0xF0, CHR 0x91, CHR 0xA2, CHR 0xBD]),
     ([CHR 0xF0, CHR 0x91, CHR 0xA3, CHR 0x9E], [CHR 0xF0, CHR 0x91, CHR 0xA2, CHR 0xBE]),
     ([CHR 0xF0, CHR 0x91, CHR 0xA3, CHR 0x9F], [CHR 0xF0, CHR 0x91, CHR 0xA2, CHR 0xBF]),
     ([CHR 0xF0, CHR 0x96, CHR 0xB9, CHR 0xA0], [CHR 0xF0, CHR 0x96, CHR 0xB9, CHR 0x80]),
     ([CHR 0xF0, CHR 0x96, CHR 0xB9, CHR 0xA1], [CHR 0xF0, CHR 0x96, CHR 0xB9, CHR 0x81]),
     ([CHR 0xF0, CHR 0x96, CHR 0xB9, CHR 0xA2], [CHR 0xF0, CHR 0x96, CHR 0xB9, CHR 0x82]),
     ([CHR 0xF0, CHR 0x96, CHR 0xB9, CHR 0xA3], [CHR 0xF0, CHR 0x96, CHR 0xB9, CHR 0x83]),
     ([CHR 0xF0, CHR 0x96, CHR 0xB9, CHR 0xA4], [CHR 0xF0, CHR 0x96, CHR 0xB9, CHR 0x84]),
     ([CHR 0xF0, CHR 0x96, CHR 0xB9, CHR 0xA5], [CHR 0xF0, CHR 0x96, CHR 0xB9, CHR 0x85]),
     ([CHR 0xF0, CHR 0x96, CHR 0xB9, CHR 0xA6], [CHR 0xF0, CHR 0x96, CHR 0xB9, CHR 0x86]),
     ([CHR 0xF0, CHR 0x96, CHR 0xB9, CHR 0xA7], [CHR 0xF0, CHR 0x96, CHR 0xB9, CHR 0x87]),
     ([CHR 0xF0, CHR 0x96, CHR 0xB9, CHR 0xA8], [CHR 0xF0, CHR 0x96, CHR 0xB9, CHR 0x88]),
     ([CHR 0xF0, CHR 0x96, CHR 0xB9, CHR 0xA9], [CHR 0xF0, CHR 0x96, CHR 0xB9, CHR 0x89]),
     ([CHR 0xF0, CHR 0x96, CHR 0xB9, CHR 0xAA], [CHR 0xF0, CHR 0x96, CHR 0xB9, CHR 0x8A]),
     ([CHR 0xF0, CHR 0x96, CHR 0xB9, CHR 0xAB], [CHR 0xF0, CHR 0x96, CHR 0xB9, CHR 0x8B]),
     ([CHR 0xF0, CHR 0x96, CHR 0xB9, CHR 0xAC], [CHR 0xF0, CHR 0x96, CHR 0xB9, CHR 0x8C]),
     ([CHR 0xF0, CHR 0x96, CHR 0xB9, CHR 0xAD], [CHR 0xF0, CHR 0x96, CHR 0xB9, CHR 0x8D]),
     ([CHR 0xF0, CHR 0x96, CHR 0xB9, CHR 0xAE], [CHR 0xF0, CHR 0x96, CHR 0xB9, CHR 0x8E]),
     ([CHR 0xF0, CHR 0x96, CHR 0xB9, CHR 0xAF], [CHR 0xF0, CHR 0x96, CHR 0xB9, CHR 0x8F]),
     ([CHR 0xF0, CHR 0x96, CHR 0xB9, CHR 0xB0], [CHR 0xF0, CHR 0x96, CHR 0xB9, CHR 0x90])]"

definition upper_16E71 :: "(string \<times> string) list" where
  "upper_16E71 =
    [([CHR 0xF0, CHR 0x96, CHR 0xB9, CHR 0xB1], [CHR 0xF0, CHR 0x96, CHR 0xB9, CHR 0x91]),
     ([CHR 0xF0, CHR 0x96, CHR 0xB9, CHR 0xB2], [CHR 0xF0, CHR 0x96, CHR 0xB9, CHR 0x92]),
     ([CHR 0xF0, CHR 0x96, CHR 0xB9, CHR 0xB3], [CHR 0xF0, CHR 0x96, CHR 0xB9, CHR 0x93]),
     ([CHR 0xF0, CHR 0x96, CHR 0xB9, CHR 0xB4], [CHR 0xF0, CHR 0x96, CHR 0xB9, CHR 0x94]),
     ([CHR 0xF0, CHR 0x96, CHR 0xB9, CHR 0xB5], [CHR 0xF0, CHR 0x96, CHR 0xB9, CHR 0x95]),
     ([CHR 0xF0, CHR 0x96, CHR 0xB9, CHR 0xB6], [CHR 0xF0, CHR 0x96, CHR 0xB9, CHR 0x96]),
     ([CHR 0xF0, CHR 0x96, CHR 0xB9, CHR 0xB7], [CHR 0xF0, CHR 0x96, CHR 0xB9, CHR 0x97]),
     ([CHR 0xF0, CHR 0x96, CHR 0xB9, CHR 0xB8], [CHR 0xF0, CHR 0x96, CHR 0xB9, CHR 0x98]),
     ([CHR 0xF0, CHR 0x96, CHR 0xB9, CHR 0xB9], [CHR 0xF0, CHR 0x96, CHR 0xB9, CHR 0x99]),
     ([CHR 0xF0, CHR 0x96, CHR 0xB9, CHR 0xBA], [CHR 0xF0, CHR 0x96, CHR 0xB9, CHR 0x9A]),
     ([CHR 0xF0, CHR 0x96, CHR 0xB9, CHR 0xBB], [CHR 0xF0, CHR 0x96, CHR 0xB9, CHR 0x9B]),
     ([CHR 0xF0, CHR 0x96, CHR 0xB9, CHR 0xBC], [CHR 0xF0, CHR 0x96, CHR 0xB9, CHR 0x9C]),
     ([CHR 0xF0, CHR 0x96, CHR 0xB9, CHR 0xBD], [CHR 0xF0, CHR 0x96, CHR 0xB9, CHR 0x9D]),
     ([CHR 0xF0, CHR 0x96, CHR 0xB9, CHR 0xBE], [CHR 0xF0, CHR 0x96, CHR 0xB9, CHR 0x9E]),
     ([CHR 0xF0, CHR 0x96, CHR 0xB9, CHR 0xBF], [CHR 0xF0, CHR 0x96, CHR 0xB9, CHR 0x9F]),
     ([CHR 0xF0, CHR 0x9E, CHR 0xA4, CHR 0xA2], [CHR 0xF0, CHR 0x9E, CHR 0xA4, CHR 0x80]),
     ([CHR 0xF0, CHR 0x9E, CHR 0xA4, CHR 0xA3], [CHR 0xF0, CHR 0x9E, CHR 0xA4, CHR 0x81]),
     ([CHR 0xF0, CHR 0x9E, CHR 0xA4, CHR 0xA4], [CHR 0xF0, CHR 0x9E, CHR 0xA4, CHR 0x82]),
     ([CHR 0xF0, CHR 0x9E, CHR 0xA4, CHR 0xA5], [CHR 0xF0, CHR 0x9E, CHR 0xA4, CHR 0x83]),
     ([CHR 0xF0, CHR 0x9E, CHR 0xA4, CHR 0xA6], [CHR 0xF0, CHR 0x9E, CHR 0xA4, CHR 0x84]),
     ([CHR 0xF0, CHR 0x9E, CHR 0xA4, CHR 0xA7], [CHR 0xF0, CHR 0x9E, CHR 0xA4, CHR 0x85]),
     ([CHR 0xF0, CHR 0x9E, CHR 0xA4, CHR 0xA8], [CHR 0xF0, CHR 0x9E, CHR 0xA4, CHR 0x86]),
     ([CHR 0xF0, CHR 0x9E, CHR 0xA4, CHR 0xA9], [CHR 0xF0, CHR 0x9E, CHR 0xA4, CHR 0x87]),
     ([CHR 0xF0, CHR 0x9E, CHR 0xA4, CHR 0xAA], [CHR 0xF0, CHR 0x9E, CHR 0xA4, CHR 0x88]),
     ([CHR 0xF0, CHR 0x9E, CHR 0xA4, CHR 0xAB], [CHR 0xF0, CHR 0x9E, CHR 0xA4, CHR 0x89]),
     ([CHR 0xF0, CHR 0x9E, CHR 0xA4, CHR 0xAC], [CHR 0xF0, CHR 0x9E, CHR 0xA4, CHR 0x8A]),
     ([CHR 0xF0, CHR 0x9E, CHR 0xA4, CHR 0xAD], [CHR 0xF0, CHR 0x9E, CHR 0xA4, CHR 0x8B]),
     ([CHR 0xF0, CHR 0x9E, CHR 0xA4, CHR 0xAE], [CHR 0xF0, CHR 0x9E, CHR 0xA4, CHR 0x8C]),
     ([CHR 0xF0, CHR 0x9E, CHR 0xA4, CHR 0xAF], [CHR 0xF0, CHR 0x9E, CHR 0xA4, CHR 0x8D]),
     ([CHR 0xF0, CHR 0x9E, CHR 0xA4, CHR 0xB0], [CHR 0xF0, CHR 0x9E, CHR 0xA4, CHR 0x8E]),
     ([CHR 0xF0, CHR 0x9E, CHR 0xA4, CHR 0xB1], [CHR 0xF0, CHR 0x9E, CHR 0xA4, CHR 0x8F]),
     ([CHR 0xF0, CHR 0x9E, CHR 0xA4, CHR 0xB2], [CHR 0xF0, CHR 0x9E, CHR 0xA4, CHR 0x90]),
     ([CHR 0xF0, CHR 0x9E, CHR 0xA4, CHR 0xB3], [CHR 0xF0, CHR 0x9E, CHR 0xA4, CHR 0x91]),
     ([CHR 0xF0, CHR 0x9E, CHR 0xA4, CHR 0xB4], [CHR 0xF0, CHR 0x9E, CHR 0xA4, CHR 0x92]),
     ([CHR 0xF0, CHR 0x9E, CHR 0xA4, CHR 0xB5], [CHR 0xF0, CHR 0x9E, CHR 0xA4, CHR 0x93]),
     ([CHR 0xF0, CHR 0x9E, CHR 0xA4, CHR 0xB6], [CHR 0xF0, CHR 0x9E, CHR 0xA4, CHR 0x94]),
     ([CHR 0xF0, CHR 0x9E, CHR 0xA4, CHR 0xB7], [CHR 0xF0, CHR 0x9E, CHR 0xA4, CHR 0x95]),
     ([CHR 0xF0, CHR 0x9E, CHR 0xA4, CHR 0xB8], [CHR 0xF0, CHR 0x9E, CHR 0xA4, CHR 0x96]),
     ([CHR 0xF0, CHR 0x9E, CHR 0xA4, CHR 0xB9], [CHR 0xF0, CHR 0x9E, CHR 0xA4, CHR 0x97]),
     ([CHR 0xF0, CHR 0x9E, CHR 0xA4, CHR 0xBA], [CHR 0xF0, CHR 0x9E, CHR 0xA4, CHR 0x98]),
     ([CHR 0xF0, CHR 0x9E, CHR 0xA4, CHR 0xBB], [CHR 0xF0, CHR 0x9E, CHR 0xA4, CHR 0x99]),
     ([CHR 0xF0, CHR 0x9E, CHR 0xA4, CHR 0xBC], [CHR 0xF0, CHR 0x9E, CHR 0xA4, CHR 0x9A]),
     ([CHR 0xF0, CHR 0x9E, CHR 0xA4, CHR 0xBD], [CHR 0xF0, CHR 0x9E, CHR 0xA4, CHR 0x9B]),
     ([CHR 0xF0, CHR 0x9E, CHR 0xA4, CHR 0xBE], [CHR 0xF0, CHR 0x9E, CHR 0xA4, CHR 0x9C]),
     ([CHR 0xF0, CHR 0x9E, CHR 0xA4, CHR 0xBF], [CHR 0xF0, CHR 0x9E, CHR 0xA4, CHR 0x9D]),
     ([CHR 0xF0, CHR 0x9E, CHR 0xA5, CHR 0x80], [CHR 0xF0, CHR 0x9E, CHR 0xA4, CHR 0x9E]),
     ([CHR 0xF0, CHR 0x9E, CHR 0xA5, CHR 0x81], [CHR 0xF0, CHR 0x9E, CHR 0xA4, CHR 0x9F]),
     ([CHR 0xF0, CHR 0x9E, CHR 0xA5, CHR 0x82], [CHR 0xF0, CHR 0x9E, CHR 0xA4, CHR 0xA0]),
     ([CHR 0xF0, CHR 0x9E, CHR 0xA5, CHR 0x83], [CHR 0xF0, CHR 0x9E, CHR 0xA4, CHR 0xA1])]"

definition unicode_upper :: "(string \<times> string) list" where
  "unicode_upper =
     upper_00B5 @ upper_0123 @ upper_0188 @ upper_0201 @ upper_0269 @ upper_03C1 @
     upper_043C @ upper_047D @ upper_04E9 @ upper_056F @ upper_10E9 @ upper_1E17 @
     upper_1E7B @ upper_1EDD @ upper_1F42 @ upper_1F90 @ upper_1FD3 @ upper_24DF @
     upper_2C57 @ upper_2CC3 @ upper_2D1E @ upper_A729 @ upper_A79F @ upper_AB8D @
     upper_ABBF @ upper_10433 @ upper_104ED @ upper_10CC0 @ upper_10CF2 @ upper_16E71"

lemmas upper_blocks =
  upper_00B5_def upper_0123_def upper_0188_def upper_0201_def upper_0269_def upper_03C1_def
  upper_043C_def upper_047D_def upper_04E9_def upper_056F_def upper_10E9_def upper_1E17_def
  upper_1E7B_def upper_1EDD_def upper_1F42_def upper_1F90_def upper_1FD3_def upper_24DF_def
  upper_2C57_def upper_2CC3_def upper_2D1E_def upper_A729_def upper_A79F_def upper_AB8D_def
  upper_ABBF_def upper_10433_def upper_104ED_def upper_10CC0_def upper_10CF2_def
  upper_16E71_def

subsection \<open>The string methods\<close>

text \<open>
  \<open>s.upper()\<close>. An ASCII byte is capitalised if it is one of \<open>a\<close>..\<open>z\<close>; a character
  beyond ASCII is replaced as the tables say, and stays as it is if they do not list it.
\<close>

definition upper_char :: "char \<Rightarrow> char" where
  "upper_char c =
     (case map_of (zip ''abcdefghijklmnopqrstuvwxyz'' ''ABCDEFGHIJKLMNOPQRSTUVWXYZ'') c of
        Some capital \<Rightarrow> capital
      | None \<Rightarrow> c)"

function py_upper :: "string \<Rightarrow> string" where
  "py_upper [] = []"
| "py_upper (c # s) =
     (if is_ascii c then upper_char c # py_upper s
      else case map_of unicode_upper (take (utf8_len c) (c # s)) of
             Some capitals \<Rightarrow> capitals @ py_upper (drop (utf8_len c) (c # s))
           | None \<Rightarrow> c # py_upper s)"
  by pat_completeness auto
termination
proof (relation "measure length")
  fix c :: char and s :: string
  have "0 < utf8_len c" by (simp add: utf8_len_def)
  then show "(drop (utf8_len c) (c # s), c # s) \<in> measure length"
    by (cases "utf8_len c") simp_all
qed simp_all

text \<open>
  The characters that \<open>str.isspace\<close> accepts, which are those that \<open>strip\<close> removes:
  \<open>U+0009\<close> to \<open>U+000D\<close>, \<open>U+001C\<close> to \<open>U+0020\<close>, \<open>U+0085\<close>, \<open>U+00A0\<close>, \<open>U+1680\<close>,
  \<open>U+2000\<close> to \<open>U+200A\<close>, \<open>U+2028\<close>, \<open>U+2029\<close>, \<open>U+202F\<close>, \<open>U+205F\<close> and \<open>U+3000\<close>.
\<close>

definition whitespace :: "string list" where
  "whitespace =
     [[CHR 0x09], [CHR 0x0A], [CHR 0x0B], [CHR 0x0C], [CHR 0x0D],
      [CHR 0x1C], [CHR 0x1D], [CHR 0x1E], [CHR 0x1F], [CHR 0x20],
      [CHR 0xC2, CHR 0x85], [CHR 0xC2, CHR 0xA0], [CHR 0xE1, CHR 0x9A, CHR 0x80],
      [CHR 0xE2, CHR 0x80, CHR 0x80], [CHR 0xE2, CHR 0x80, CHR 0x81],
      [CHR 0xE2, CHR 0x80, CHR 0x82], [CHR 0xE2, CHR 0x80, CHR 0x83],
      [CHR 0xE2, CHR 0x80, CHR 0x84], [CHR 0xE2, CHR 0x80, CHR 0x85],
      [CHR 0xE2, CHR 0x80, CHR 0x86], [CHR 0xE2, CHR 0x80, CHR 0x87],
      [CHR 0xE2, CHR 0x80, CHR 0x88], [CHR 0xE2, CHR 0x80, CHR 0x89],
      [CHR 0xE2, CHR 0x80, CHR 0x8A], [CHR 0xE2, CHR 0x80, CHR 0xA8],
      [CHR 0xE2, CHR 0x80, CHR 0xA9], [CHR 0xE2, CHR 0x80, CHR 0xAF],
      [CHR 0xE2, CHR 0x81, CHR 0x9F], [CHR 0xE3, CHR 0x80, CHR 0x80]]"

definition isspace :: "char \<Rightarrow> bool" where
  "isspace c = ([c] \<in> set whitespace)"

lemma find_SomeD: "find P xs = Some x \<Longrightarrow> x \<in> set xs \<and> P x"
  by (induction xs) (auto split: if_splits)

text \<open>\<open>s.lstrip()\<close> and \<open>s.rstrip()\<close>: white space is removed as long as there is some.\<close>

function py_lstrip :: "string \<Rightarrow> string" where
  "py_lstrip s =
     (case find (\<lambda>q. prefix q s) whitespace of
        Some q \<Rightarrow> py_lstrip (drop (length q) s)
      | None \<Rightarrow> s)"
  by pat_completeness auto
termination
proof (relation "measure length")
  fix s q :: string
  assume "find (\<lambda>q. prefix q s) whitespace = Some q"
  then have "q \<in> set whitespace" and "prefix q s"
    by (auto dest: find_SomeD)
  then have "q \<noteq> []" and "length q \<le> length s"
    by (auto simp add: whitespace_def prefix_length_le)
  then show "(drop (length q) s, s) \<in> measure length"
    by (cases q) auto
qed simp

function py_rstrip :: "string \<Rightarrow> string" where
  "py_rstrip s =
     (case find (\<lambda>q. suffix q s) whitespace of
        Some q \<Rightarrow> py_rstrip (take (length s - length q) s)
      | None \<Rightarrow> s)"
  by pat_completeness auto
termination
proof (relation "measure length")
  fix s q :: string
  assume "find (\<lambda>q. suffix q s) whitespace = Some q"
  then have "q \<in> set whitespace" and "suffix q s"
    by (auto dest: find_SomeD)
  then have "q \<noteq> []" and "length q \<le> length s"
    by (auto simp add: whitespace_def suffix_length_le)
  then show "(take (length s - length q) s, s) \<in> measure length"
    by (cases q) auto
qed simp

declare py_lstrip.simps [simp del] py_rstrip.simps [simp del]

text \<open>\<open>s.strip()\<close>.\<close>

definition py_strip :: "string \<Rightarrow> string" where
  "py_strip s = py_rstrip (py_lstrip s)"

text \<open>\<open>sub in s\<close>: \<open>sub\<close> occurs in \<open>s\<close> as a contiguous run.\<close>

fun py_in :: "string \<Rightarrow> string \<Rightarrow> bool" where
  "py_in sub [] = (sub = [])"
| "py_in sub (c # s) = (prefix sub (c # s) \<or> py_in sub s)"

text \<open>
  \<open>s.count(sub)\<close>: the number of non-overlapping occurrences, scanning from the left;
  for the empty \<open>sub\<close> Python answers \<open>len(s) + 1\<close>, one more than the number of
  characters, that is of bytes other than continuation bytes.
\<close>

function py_count :: "string \<Rightarrow> string \<Rightarrow> nat" where
  "py_count [] sub = (if sub = [] then 1 else 0)"
| "py_count (c # s) sub =
     (if sub = [] then
        (if digit7 c \<and> \<not> digit6 c then py_count s sub else Suc (py_count s sub))
      else if prefix sub (c # s) then Suc (py_count (drop (length sub) (c # s)) sub)
      else py_count s sub)"
  by pat_completeness auto
termination
proof (relation "measure (\<lambda>(s, sub). length s)")
  fix c :: char and s sub :: string
  assume "sub \<noteq> []"
  then have "0 < length sub" by simp
  then show "((drop (length sub) (c # s), sub), (c # s, sub)) \<in> measure (\<lambda>(s, sub). length s)"
    by simp
qed simp_all

text \<open>\<open>str(n)\<close> and \<open>{n}\<close> in an f-string, for an integer \<open>n\<close>.\<close>

fun str_nat :: "nat \<Rightarrow> string" where
  "str_nat n =
     (if n < 10 then [''0123456789'' ! n]
      else str_nat (n div 10) @ [''0123456789'' ! (n mod 10)])"

definition str_int :: "int \<Rightarrow> string" where
  "str_int i = (if i < 0 then ''-'' @ str_nat (nat (- i)) else str_nat (nat i))"

declare str_nat.simps [simp del]

text \<open>\<open>sep.join(parts)\<close>.\<close>

fun join :: "string \<Rightarrow> string list \<Rightarrow> string" where
  "join sep [] = []"
| "join sep [p] = p"
| "join sep (p # q # ps) = p @ sep @ join sep (q # ps)"

section \<open>The world the orchestrator runs in\<close>

text \<open>
  The three state tags of \<open>class State(Enum)\<close>, the exceptions that can travel through
  the orchestrator, and the effects on the operating system that the properties below
  speak about.
\<close>

datatype State = PROPOSER_TURN | CRITIC_TURN | CONSENSUS

datatype error =
    FileNotFoundError string
  | TimeoutExpired
  | RuntimeError string
  | ValueError string
  | ProcessLookupError

datatype signal = SIGTERM

datatype event =
    Spawned nat "string list"
  | Killpg nat signal
  | Print string

text \<open>
  What one external process does, as far as the parent can see: how long it runs, its exit
  status, what it wrote on its two output channels, and the files it wrote
  (\<open>Some text\<close>) or removed (\<open>None\<close>) on the way, in order.
\<close>

record process =
  duration :: nat
  returncode :: int
  stdout :: string
  stderr :: string
  file_ops :: "(string \<times> string option) list"

text \<open>
  The environment answers what the program cannot decide: the behaviour of the process
  started with a given pid and argument vector, the text of
  \<open>datetime.now().strftime("%Y-%m-%d %H:%M")\<close>, and the name chosen by
  \<open>tempfile.NamedTemporaryFile\<close>. The last two are asked with the current \<open>tick\<close>.
\<close>

record env =
  behaviour :: "nat \<Rightarrow> string list \<Rightarrow> process"
  now :: "nat \<Rightarrow> string"
  tmp_name :: "nat \<Rightarrow> string"

text \<open>
  \<open>debate_dir\<close> is the directory \<open>./debate\<close>: \<open>None\<close> when it does not exist, otherwise
  its files by name. \<open>files\<close> holds every other file by path. \<open>pgid_of\<close> is the process
  table (pid to process group), \<open>current_process\<close> the global \<open>_current_process\<close>,
  \<open>trace\<close> the effects in the order they happened. External processes write to \<open>files\<close>
  only, never into \<open>./debate\<close>.

  A function that can raise returns the exception as \<open>Inl\<close>, together with the world as
  it is at that moment, so that what was done before the exception stays done. Outside the
  model are interrupts (\<open>SIGINT\<close> and its handler), an executable that cannot be started,
  failures of the file system other than a missing file or directory, and files or process
  output that cannot be decoded as text.
\<close>

record world =
  debate_dir :: "(string \<rightharpoonup> string) option"
  files :: "string \<rightharpoonup> string"
  pgid_of :: "nat \<rightharpoonup> nat"
  current_process :: "nat option"
  trace :: "event list"
  tick :: nat

subsection \<open>Session Store primitives\<close>

definition read_file :: "string \<Rightarrow> world \<Rightarrow> error + string" where
  "read_file name w =
     (case debate_dir w of
        None \<Rightarrow> Inl (FileNotFoundError (''debate/'' @ name))
      | Some d \<Rightarrow>
          (case d name of
             None \<Rightarrow> Inl (FileNotFoundError (''debate/'' @ name))
           | Some text \<Rightarrow> Inr text))"

definition write_file :: "string \<Rightarrow> string \<Rightarrow> world \<Rightarrow> (error + unit) \<times> world" where
  "write_file name content w =
     (case debate_dir w of
        None \<Rightarrow> (Inl (FileNotFoundError (''debate/'' @ name)), w)
      | Some d \<Rightarrow> (Inr (), w\<lparr>debate_dir := Some (d(name \<mapsto> content))\<rparr>))"

definition append_file :: "string \<Rightarrow> string \<Rightarrow> world \<Rightarrow> (error + unit) \<times> world" where
  "append_file name content w =
     (case debate_dir w of
        None \<Rightarrow> (Inl (FileNotFoundError (''debate/'' @ name)), w)
      | Some d \<Rightarrow>
          (Inr (), w\<lparr>debate_dir :=
             Some (d(name \<mapsto> (case d name of None \<Rightarrow> content | Some old \<Rightarrow> old @ content)))\<rparr>))"

definition State_value :: "State \<Rightarrow> string" where
  "State_value st =
     (case st of
        PROPOSER_TURN \<Rightarrow> ''PROPOSER_TURN''
      | CRITIC_TURN \<Rightarrow> ''CRITIC_TURN''
      | CONSENSUS \<Rightarrow> ''CONSENSUS'')"

text \<open>\<open>State(text)\<close>: the member with that value, or \<open>ValueError\<close>.\<close>

definition State_of :: "string \<Rightarrow> error + State" where
  "State_of text =
     (if text = ''PROPOSER_TURN'' then Inr PROPOSER_TURN
      else if text = ''CRITIC_TURN'' then Inr CRITIC_TURN
      else if text = ''CONSENSUS'' then Inr CONSENSUS
      else Inl (ValueError text))"

definition get_state :: "world \<Rightarrow> error + State" where
  "get_state w =
     (case read_file ''state.md'' w of
        Inl e \<Rightarrow> Inl e
      | Inr text \<Rightarrow> State_of (py_strip text))"

definition set_state :: "State \<Rightarrow> world \<Rightarrow> (error + unit) \<times> world" where
  "set_state st w = write_file ''state.md'' (State_value st) w"

definition get_round :: "world \<Rightarrow> error + int" where
  "get_round w =
     (case read_file ''history.md'' w of
        Inl e \<Rightarrow> Inl e
      | Inr history \<Rightarrow> Inr (int (py_count history ''## [PROPOSER]'') + 1))"

subsection \<open>Agent Gateway\<close>

text \<open>
  \<open>subprocess.Popen(argv, ..., start_new_session=True)\<close>: the child gets a fresh pid and,
  being the leader of a new session, a process group of its own whose id is that pid.
\<close>

definition Popen :: "string list \<Rightarrow> world \<Rightarrow> nat \<times> world" where
  "Popen argv w =
     (tick w,
      w\<lparr>pgid_of := (pgid_of w)(tick w \<mapsto> tick w),
        trace := trace w @ [Spawned (tick w) argv],
        tick := Suc (tick w)\<rparr>)"

fun apply_file_ops :: "(string \<times> string option) list \<Rightarrow> (string \<rightharpoonup> string) \<Rightarrow> (string \<rightharpoonup> string)" where
  "apply_file_ops [] fs = fs"
| "apply_file_ops ((path, text) # ops) fs = apply_file_ops ops (fs(path := text))"

text \<open>
  \<open>proc.communicate(timeout=t)\<close>: the process runs, touching the files it touches; if it
  needs more than \<open>t\<close> time units the call raises \<open>TimeoutExpired\<close>, otherwise it returns
  both output channels (and \<open>proc.returncode\<close> is set, returned here as third component).
\<close>

definition communicate ::
  "env \<Rightarrow> nat \<Rightarrow> string list \<Rightarrow> nat \<Rightarrow> world \<Rightarrow> (error + string \<times> string \<times> int) \<times> world" where
  "communicate env pid argv t w =
     (let p = behaviour env pid argv;
          w' = w\<lparr>files := apply_file_ops (file_ops p) (files w)\<rparr>
      in if t < duration p then (Inl TimeoutExpired, w')
         else (Inr (stdout p, stderr p, returncode p), w'))"

definition getpgid :: "nat \<Rightarrow> world \<Rightarrow> error + nat" where
  "getpgid pid w =
     (case pgid_of w pid of None \<Rightarrow> Inl ProcessLookupError | Some g \<Rightarrow> Inr g)"

definition killpg :: "nat \<Rightarrow> signal \<Rightarrow> world \<Rightarrow> world" where
  "killpg g sig w = w\<lparr>trace := trace w @ [Killpg g sig]\<rparr>"

definition call_claude :: "env \<Rightarrow> string \<Rightarrow> world \<Rightarrow> (error + string) \<times> world" where
  "call_claude env prompt w =
     (let argv = [''claude'', ''-p'', prompt, ''--dangerously-skip-permissions''];
          (pid, w1) = Popen argv w;
          w2 = w1\<lparr>current_process := Some pid\<rparr>
      in case communicate env pid argv 600 w2 of
           (Inl e, w3) \<Rightarrow>
             (if e = TimeoutExpired then
                (case getpgid pid w3 of
                   Inl e' \<Rightarrow> (Inl e', w3\<lparr>current_process := None\<rparr>)
                 | Inr g \<Rightarrow> (Inl e, (killpg g SIGTERM w3)\<lparr>current_process := None\<rparr>))
              else (Inl e, w3\<lparr>current_process := None\<rparr>))
         | (Inr (out, err, rc), w3) \<Rightarrow>
             (let w4 = w3\<lparr>current_process := None\<rparr>
              in if rc \<noteq> 0 then (Inl (RuntimeError (''Claude CLI failed: '' @ err)), w4)
                 else (Inr (py_strip out), w4)))"

text \<open>
  \<open>with tempfile.NamedTemporaryFile(mode='w', suffix='.txt', delete=False) as f\<close>:
  an empty file is created under the name the environment picks, and stays.
\<close>

definition NamedTemporaryFile :: "env \<Rightarrow> world \<Rightarrow> string \<times> world" where
  "NamedTemporaryFile env w =
     (tmp_name env (tick w),
      w\<lparr>files := (files w)(tmp_name env (tick w) \<mapsto> []), tick := Suc (tick w)\<rparr>)"

text \<open>\<open>Path(path).unlink(missing_ok=True)\<close>.\<close>

definition unlink :: "string \<Rightarrow> world \<Rightarrow> world" where
  "unlink path w = w\<lparr>files := (files w)(path := None)\<rparr>"

text \<open>
  The inner \<open>try\<close> is the one of \<open>call_claude\<close>; the outer \<open>try ... finally\<close> unlinks
  the output file on the way out, whatever happened inside. The exit status is not
  looked at.
\<close>

definition call_codex :: "env \<Rightarrow> string \<Rightarrow> world \<Rightarrow> (error + string) \<times> world" where
  "call_codex env prompt w =
     (let (output_file, w1) = NamedTemporaryFile env w;
          argv = [''codex'', ''exec'', ''--dangerously-bypass-approvals-and-sandbox'',
                  ''-o'', output_file, prompt];
          (pid, w2) = Popen argv w1;
          w3 = w2\<lparr>current_process := Some pid\<rparr>;
          (r, w6) =
            (case communicate env pid argv 600 w3 of
               (Inl e, w4) \<Rightarrow>
                 (if e = TimeoutExpired then
                    (case getpgid pid w4 of
                       Inl e' \<Rightarrow> (Inl e', w4\<lparr>current_process := None\<rparr>)
                     | Inr g \<Rightarrow> (Inl e, (killpg g SIGTERM w4)\<lparr>current_process := None\<rparr>))
                  else (Inl e, w4\<lparr>current_process := None\<rparr>))
             | (Inr (out, err, rc), w4) \<Rightarrow>
                 (let w5 = w4\<lparr>current_process := None\<rparr>
                  in (Inr (case files w5 output_file of Some text \<Rightarrow> text | None \<Rightarrow> out), w5)));
          w7 = unlink output_file w6
      in case r of
           Inl e \<Rightarrow> (Inl e, w7)
         | Inr output \<Rightarrow> (Inr (py_strip output), w7))"

definition call_agent :: "env \<Rightarrow> string \<Rightarrow> string \<Rightarrow> world \<Rightarrow> (error + string) \<times> world" where
  "call_agent env agent prompt w =
     (if agent = ''claude'' then call_claude env prompt w
      else if agent = ''codex'' then call_codex env prompt w
      else (Inl (ValueError (''Unknown agent: '' @ agent)), w))"

subsection \<open>Prompt Builder\<close>

text \<open>The two templates, with \<open>.format(round=round_num)\<close> applied.\<close>

definition PROPOSER_SYSTEM :: "int \<Rightarrow> string" where
  \<open>PROPOSER_SYSTEM round_num =
     join nl
       [''You are the PROPOSER in a structured debate. Your job is to propose solutions and refine them based on critique.'',
        '''',
        ''## Proposal Format'',
        '''',
        ''# Proposal (Round '' @ str_int round_num @ '')'',
        '''',
        ''## Summary'',
        ''[One paragraph overview]'',
        '''',
        ''## Detailed Approach'',
        ''[Specific steps, architecture, implementation details]'',
        '''',
        ''## Addressing Previous Critique'',
        ''[How you addressed each point raised - skip if Round 1]'',
        '''',
        ''## Trade-offs Acknowledged'',
        ''[Known limitations and why they're acceptable]'',
        '''',
        ''## Guidelines'',
        '''',
        ''- Be specific and actionable'',
        ''- Address ALL previous critiques explicitly'',
        ''- Justify trade-offs'',
        ''- Keep it focused - solve the goal, don't over-engineer'',
        ''- Output ONLY the proposal, no preamble'',
        '''',
        ''## IMPORTANT: Follow Workflow Instructions'',
        '''',
        ''If the GOAL contains specific workflow instructions (e.g., "list 10 ideas first", "brainstorm before narrowing"), you MUST follow them. Read the goal carefully for any process requirements.'']\<close>

definition CRITIC_SYSTEM :: "int \<Rightarrow> string" where
  \<open>CRITIC_SYSTEM round_num =
     join nl
       [''You are the CRITIC in a structured debate. Your job is to rigorously evaluate proposals and push for better solutions '' @ [CHR 0xE2, CHR 0x80, CHR 0x94] @ '' but also recognize when a proposal is good enough.'',
        '''',
        ''## Critique Format'',
        '''',
        ''# Critique (Round '' @ str_int round_num @ '')'',
        '''',
        ''## Verdict'',
        ''[NEEDS_REVISION | MINOR_ISSUES | CONSENSUS REACHED]'',
        '''',
        ''## What Works Well'',
        ''[Genuine positives]'',
        '''',
        ''## Blocking Issues'',
        ''[Problems that MUST be fixed - empty if none]'',
        '''',
        ''## Suggestions'',
        ''[Improvements, prioritized]'',
        '''',
        ''## Consensus Criteria'',
        '''',
        ''Declare "CONSENSUS REACHED" as your verdict when:'',
        ''- The proposal achieves the stated goal'',
        ''- No blocking issues remain'',
        ''- Trade-offs are reasonable'',
        ''- Further iteration has diminishing returns'',
        '''',
        ''## IMPORTANT: When Declaring CONSENSUS REACHED'',
        '''',
        ''When you declare "CONSENSUS REACHED", you MUST include a comprehensive summary section at the end:'',
        '''',
        ''### Debate Summary'',
        '''',
        ''#### Ideas Considered'',
        ''[List ALL ideas that were proposed and debated, with one-line descriptions]'',
        '''',
        ''#### Debate Progression'',
        ''[Brief timeline: what was proposed, what was critiqued, how ideas were narrowed down, key turning points]'',
        '''',
        ''#### Final Selected Idea'',
        ''[Name of the selected idea]'',
        '''',
        ''#### Key Agreements Made'',
        ''[Bullet list of all major agreements reached during the debate, including: scope, timeline, pricing, GTM strategy, validation criteria, trade-offs accepted, etc.]'',
        '''',
        ''#### Final Idea Details'',
        ''[Comprehensive description of the final agreed idea with all specifications consolidated in one place]'',
        '''',
        ''## Guidelines'',
        '''',
        ''- Be constructive, not obstructive'',
        ''- Be specific with critiques'',
        ''- Suggest alternatives, don't just criticize'',
        ''- Don't demand perfection when good enough suffices'',
        ''- Output ONLY the critique, no preamble'',
        '''',
        ''## IMPORTANT: Follow Workflow Instructions'',
        '''',
        ''If the GOAL contains specific workflow instructions (e.g., "pick a few ideas to focus on", "debate each idea"), you MUST follow them. Read the goal carefully for any process requirements.'']\<close>

definition build_proposer_prompt :: "int \<Rightarrow> world \<Rightarrow> error + string" where
  "build_proposer_prompt round_num w =
     (case read_file ''goal.md'' w of
        Inl e \<Rightarrow> Inl e
      | Inr goal \<Rightarrow>
     (case read_file ''history.md'' w of
        Inl e \<Rightarrow> Inl e
      | Inr history \<Rightarrow>
     (case read_file ''critic.md'' w of
        Inl e \<Rightarrow> Inl e
      | Inr critique \<Rightarrow>
          Inr (join nl
            [PROPOSER_SYSTEM round_num,
             '''',
             ''---'',
             '''',
             ''## GOAL'',
             '''',
             goal,
             '''',
             ''## DEBATE HISTORY'',
             '''',
             history,
             '''',
             ''## LATEST CRITIQUE'',
             '''',
             critique,
             '''',
             ''---'',
             '''',
             ''Write your proposal for Round '' @ str_int round_num @ ''.'']))))"

definition build_critic_prompt :: "int \<Rightarrow> world \<Rightarrow> error + string" where
  "build_critic_prompt round_num w =
     (case read_file ''goal.md'' w of
        Inl e \<Rightarrow> Inl e
      | Inr goal \<Rightarrow>
     (case read_file ''history.md'' w of
        Inl e \<Rightarrow> Inl e
      | Inr history \<Rightarrow>
     (case read_file ''proposer.md'' w of
        Inl e \<Rightarrow> Inl e
      | Inr proposal \<Rightarrow>
          Inr (join nl
            [CRITIC_SYSTEM round_num,
             '''',
             ''---'',
             '''',
             ''## GOAL'',
             '''',
             goal,
             '''',
             ''## DEBATE HISTORY'',
             '''',
             history,
             '''',
             ''## LATEST PROPOSAL'',
             '''',
             proposal,
             '''',
             ''---'',
             '''',
             ''Evaluate this proposal for Round '' @ str_int round_num @ ''.'']))))"

subsection \<open>Session creation\<close>

text \<open>
  \<open>DEBATE_DIR.mkdir(exist_ok=True)\<close>, then the five files in the order of the dictionary.
  \<open>goal or default\<close> takes the default for \<open>None\<close> and for the empty text.
\<close>

definition setup_debate_dir :: "string option \<Rightarrow> world \<Rightarrow> world" where
  "setup_debate_dir goal w =
     (let d = (case debate_dir w of None \<Rightarrow> Map.empty | Some d \<Rightarrow> d);
          initial =
            [(''goal.md'',
                (case goal of
                   None \<Rightarrow> ''# Goal'' @ nl @ nl @ ''[Define your goal here]''
                 | Some g \<Rightarrow>
                     if g = [] then ''# Goal'' @ nl @ nl @ ''[Define your goal here]'' else g)),
             (''state.md'', State_value PROPOSER_TURN),
             (''proposer.md'', ''# Proposal'' @ nl @ nl @ ''(Awaiting first proposal)''),
             (''critic.md'', ''# Critique'' @ nl @ nl @ ''(No critique yet - this is Round 1)''),
             (''history.md'', ''# Debate History'' @ nl @ nl @ ''---'' @ nl)]
      in w\<lparr>debate_dir :=
           Some (fold (\<lambda>(filename, content) m. m(filename \<mapsto> content)) initial d)\<rparr>)"

subsection \<open>Turn Executor\<close>

text \<open>
  The module globals \<open>PROPOSER\<close>, \<open>CRITIC\<close> and \<open>MAX_ROUNDS\<close>, which \<open>main\<close> sets from
  the command line before anything runs.
\<close>

record config =
  PROPOSER :: string
  CRITIC :: string
  MAX_ROUNDS :: int

definition strftime_now :: "env \<Rightarrow> world \<Rightarrow> string \<times> world" where
  "strftime_now env w = (now env (tick w), w\<lparr>tick := Suc (tick w)\<rparr>)"

definition run_proposer_turn :: "env \<Rightarrow> config \<Rightarrow> world \<Rightarrow> (error + unit) \<times> world" where
  "run_proposer_turn env cfg w =
     (case get_round w of
        Inl e \<Rightarrow> (Inl e, w)
      | Inr round_num \<Rightarrow>
     (case build_proposer_prompt round_num w of
        Inl e \<Rightarrow> (Inl e, w)
      | Inr prompt \<Rightarrow>
     (case call_agent env (PROPOSER cfg) prompt w of
        (Inl e, w1) \<Rightarrow> (Inl e, w1)
      | (Inr response, w1) \<Rightarrow>
     (case write_file ''proposer.md'' response w1 of
        (Inl e, w2) \<Rightarrow> (Inl e, w2)
      | (Inr u, w2) \<Rightarrow>
     (let (timestamp, w3) = strftime_now env w2
      in case append_file ''history.md''
                (nl @ ''## [PROPOSER] Round '' @ str_int round_num @ '' ('' @ timestamp @ '')''
                 @ nl @ nl @ response @ nl @ nl @ ''---'' @ nl) w3 of
           (Inl e, w4) \<Rightarrow> (Inl e, w4)
         | (Inr u, w4) \<Rightarrow> set_state CRITIC_TURN w4)))))"

definition run_critic_turn :: "env \<Rightarrow> config \<Rightarrow> world \<Rightarrow> (error + unit) \<times> world" where
  "run_critic_turn env cfg w =
     (case get_round w of
        Inl e \<Rightarrow> (Inl e, w)
      | Inr r \<Rightarrow>
     (let round_num = r - 1
      in case build_critic_prompt round_num w of
        Inl e \<Rightarrow> (Inl e, w)
      | Inr prompt \<Rightarrow>
     (case call_agent env (CRITIC cfg) prompt w of
        (Inl e, w1) \<Rightarrow> (Inl e, w1)
      | (Inr response, w1) \<Rightarrow>
     (case write_file ''critic.md'' response w1 of
        (Inl e, w2) \<Rightarrow> (Inl e, w2)
      | (Inr u, w2) \<Rightarrow>
     (let (timestamp, w3) = strftime_now env w2
      in case append_file ''history.md''
                (nl @ ''## [CRITIC] Round '' @ str_int round_num @ '' ('' @ timestamp @ '')''
                 @ nl @ nl @ response @ nl @ nl @ ''---'' @ nl) w3 of
           (Inl e, w4) \<Rightarrow> (Inl e, w4)
         | (Inr u, w4) \<Rightarrow>
             (if py_in ''CONSENSUS REACHED'' (py_upper response) then
                (case set_state CONSENSUS w4 of
                   (Inl e, w5) \<Rightarrow> (Inl e, w5)
                 | (Inr u, w5) \<Rightarrow>
                     write_file ''consensus.md''
                       (''# Consensus Reached - Round '' @ str_int round_num @ nl @ nl @ response)
                       w5)
              else set_state PROPOSER_TURN w4))))))"

section \<open>Facts about strings\<close>

lemma py_in_sublist: "py_in sub s = sublist sub s"
  by (induction s) (simp_all add: sublist_Cons_right)

lemma utf8_len_pos: "0 < utf8_len c"
  by (simp add: utf8_len_def)

subsection \<open>White space\<close>

lemma whitespace_single:
  "q \<in> set whitespace \<Longrightarrow> q \<noteq> [] \<and> (is_ascii (hd q) \<or> is_ascii (last q) \<longrightarrow> q = [hd q])"
  by (auto simp add: whitespace_def is_ascii_def)

lemma py_lstrip_Nil: "py_lstrip [] = []"
proof -
  have "find (\<lambda>q. prefix q []) whitespace = None"
    using whitespace_single by (auto simp add: find_None_iff)
  then show ?thesis by (simp add: py_lstrip.simps)
qed

lemma py_lstrip_Cons:
  assumes "is_ascii c"
  shows "py_lstrip (c # s) = (if isspace c then py_lstrip s else c # s)"
proof (cases "find (\<lambda>q. prefix q (c # s)) whitespace")
  case None
  then have "\<not> prefix [c] (c # s) \<or> [c] \<notin> set whitespace"
    by (auto simp add: find_None_iff)
  then have "\<not> isspace c" by (simp add: isspace_def)
  with None show ?thesis by (simp add: py_lstrip.simps [of "c # s"])
next
  case (Some q)
  then have q: "q \<in> set whitespace" "prefix q (c # s)"
    by (auto dest: find_SomeD)
  then have "q \<noteq> []" using whitespace_single by blast
  with q(2) have "hd q = c" by (cases q) simp_all
  with q(1) assms have "q = [c]" using whitespace_single by fastforce
  with q(1) Some show ?thesis by (simp add: py_lstrip.simps [of "c # s"] isspace_def)
qed

lemma py_lstrip_ascii: "list_all is_ascii s \<Longrightarrow> py_lstrip s = dropWhile isspace s"
  by (induction s) (simp_all add: py_lstrip_Nil py_lstrip_Cons)

lemma py_rstrip_Nil: "py_rstrip [] = []"
proof -
  have "find (\<lambda>q. suffix q []) whitespace = None"
    using whitespace_single by (auto simp add: find_None_iff)
  then show ?thesis by (simp add: py_rstrip.simps)
qed

lemma py_rstrip_snoc:
  assumes "is_ascii c"
  shows "py_rstrip (s @ [c]) = (if isspace c then py_rstrip s else s @ [c])"
proof (cases "find (\<lambda>q. suffix q (s @ [c])) whitespace")
  case None
  then have "\<not> suffix [c] (s @ [c]) \<or> [c] \<notin> set whitespace"
    by (auto simp add: find_None_iff)
  then have "\<not> isspace c" by (simp add: isspace_def)
  with None show ?thesis by (simp add: py_rstrip.simps [of "s @ [c]"])
next
  case (Some q)
  then have q: "q \<in> set whitespace" "suffix q (s @ [c])"
    by (auto dest: find_SomeD)
  then have "q \<noteq> []" using whitespace_single by blast
  with q(2) have "last q = c" by (auto simp add: suffix_def) (metis last_appendR last_snoc)
  with q(1) assms have "q = [hd q]" using whitespace_single by blast
  with \<open>last q = c\<close> have "q = [c]" by (metis last.simps)
  with q(1) Some show ?thesis by (simp add: py_rstrip.simps [of "s @ [c]"] isspace_def)
qed

lemma py_rstrip_ascii: "list_all is_ascii s \<Longrightarrow> py_rstrip s = rev (dropWhile isspace (rev s))"
  by (induction s rule: rev_induct) (simp_all add: py_rstrip_Nil py_rstrip_snoc)

text \<open>On ASCII text \<open>strip\<close> removes the ASCII white space at both ends.\<close>

lemma py_strip_ascii:
  assumes "list_all is_ascii s"
  shows "py_strip s = rev (dropWhile isspace (rev (dropWhile isspace s)))"
proof -
  have "set (dropWhile isspace s) \<subseteq> set s" by (rule set_dropWhileD [THEN subsetI])
  with assms have "list_all is_ascii (dropWhile isspace s)"
    by (auto simp add: list_all_iff)
  with assms show ?thesis
    by (simp add: py_strip_def py_lstrip_ascii py_rstrip_ascii)
qed

lemmas strip_eval = py_strip_ascii is_ascii_def isspace_def whitespace_def

subsection \<open>Letter case\<close>

text \<open>
  A character beyond ASCII in UTF-8: a lead byte and the continuation bytes it
  announces.
\<close>

definition utf8_char :: "string \<Rightarrow> bool" where
  "utf8_char k =
     (k \<noteq> [] \<and> digit7 (hd k) \<and> digit6 (hd k) \<and> length k = utf8_len (hd k)
      \<and> list_all (\<lambda>c. digit7 c \<and> \<not> digit6 c) (tl k))"

text \<open>
  The tables map characters beyond ASCII. Where a replacement is longer than one byte,
  the first letter of the consensus marker does not occur after its first byte, and the
  last letter of the marker does not occur before its last byte.
\<close>

lemma unicode_upper_entries:
  "list_all (\<lambda>(k, v). utf8_char k \<and> CHR ''C'' \<notin> set (tl v) \<and> CHR ''D'' \<notin> set (butlast v))
     unicode_upper"
  unfolding unicode_upper_def list_all_append
  by (intro conjI; simp add: upper_blocks utf8_char_def utf8_len_def)

lemma unicode_upper_SomeD:
  assumes "map_of unicode_upper k = Some v"
  shows "utf8_char k" and "CHR ''C'' \<notin> set (tl v)" and "CHR ''D'' \<notin> set (butlast v)"
  using map_of_SomeD [OF assms] unicode_upper_entries by (auto simp add: list_all_iff)

lemma py_upper_ascii: "list_all is_ascii s \<Longrightarrow> py_upper s = map upper_char s"
  by (induction s) simp_all

text \<open>
  Where the tables replace the sequence at the head of a text, that sequence is complete,
  starts with a lead byte and goes on with continuation bytes.
\<close>

lemma unicode_upper_token:
  assumes "map_of unicode_upper (take (utf8_len c) (c # s)) = Some v"
  shows "utf8_len c \<le> Suc (length s)" and "digit6 c"
    and "list_all (\<lambda>b. digit7 b \<and> \<not> digit6 b) (take (utf8_len c - 1) s)"
proof -
  obtain n where n: "utf8_len c = Suc n"
    using utf8_len_pos [of c] by (cases "utf8_len c") simp_all
  from unicode_upper_SomeD(1) [OF assms] have "utf8_char (c # take n s)"
    by (simp add: n)
  then show "utf8_len c \<le> Suc (length s)" and "digit6 c"
    and "list_all (\<lambda>b. digit7 b \<and> \<not> digit6 b) (take (utf8_len c - 1) s)"
    by (auto simp add: utf8_char_def n min_def split: if_splits)
qed

text \<open>
  \<open>upper\<close> works character by character: the capitals of a text that is followed by
  another one are followed by the capitals of the other one, provided that the first text
  stops at the end of a character (here: its capitals are ASCII); and the capitals of a
  text that follows another one end the capitals of the whole, provided that it starts
  at the start of a character.
\<close>

lemma py_upper_append:
  "list_all is_ascii (py_upper s) \<Longrightarrow> py_upper (s @ b) = py_upper s @ py_upper b"
proof (induction s rule: py_upper.induct)
  case 1
  show ?case by simp
next
  case (2 c s)
  show ?case
  proof (cases "is_ascii c")
    case True
    with 2 show ?thesis by simp
  next
    case False
    show ?thesis
    proof (cases "map_of unicode_upper (take (utf8_len c) (c # s))")
      case None
      with False "2.prems" show ?thesis by simp
    next
      case (Some v)
      from unicode_upper_token(1) [OF Some] have len: "utf8_len c \<le> Suc (length s)" .
      then have same: "take (utf8_len c) (c # s @ b) = take (utf8_len c) (c # s)"
        and rest: "drop (utf8_len c) (c # s @ b) = drop (utf8_len c) (c # s) @ b"
        by (cases "utf8_len c"; simp)+
      from False Some "2.prems" have "list_all is_ascii (py_upper (drop (utf8_len c) (c # s)))"
        by simp
      with "2.IH"(3) [OF False Some]
      have "py_upper (drop (utf8_len c) (c # s) @ b)
            = py_upper (drop (utf8_len c) (c # s)) @ py_upper b" .
      with False Some same rest show ?thesis by simp
    qed
  qed
qed

lemma py_upper_suffix:
  assumes "s \<noteq> []" and "\<not> (digit7 (hd s) \<and> \<not> digit6 (hd s))"
  shows "\<exists>p. py_upper (a @ s) = p @ py_upper s"
proof (induction a rule: length_induct)
  case (1 a)
  show ?case
  proof (cases a)
    case Nil
    then show ?thesis by simp
  next
    case (Cons c a')
    from 1 Cons obtain p' where p': "py_upper (a' @ s) = p' @ py_upper s"
      by auto
    show ?thesis
    proof (cases "is_ascii c")
      case True
      with Cons p' show ?thesis by simp
    next
      case False
      show ?thesis
      proof (cases "map_of unicode_upper (take (utf8_len c) (c # a' @ s))")
        case None
        with False Cons p' show ?thesis by simp
      next
        case (Some v)
        note cont = unicode_upper_token(3) [OF Some]
        have within: "utf8_len c - 1 \<le> length a'"
        proof (rule ccontr)
          assume "\<not> utf8_len c - 1 \<le> length a'"
          then have "length a' < utf8_len c - 1" by simp
          then have "hd s \<in> set (take (utf8_len c - 1) (a' @ s))"
            using assms(1) by (cases s) (auto simp add: take_Cons')
          with cont assms(2) show False by (auto simp add: list_all_iff)
        qed
        then have rest: "drop (utf8_len c) (c # a' @ s) = drop (utf8_len c - 1) a' @ s"
          using utf8_len_pos [of c] by (cases "utf8_len c") simp_all
        have "length (drop (utf8_len c - 1) a') < length a"
          using Cons by simp
        with 1 obtain q where "py_upper (drop (utf8_len c - 1) a' @ s) = q @ py_upper s"
          by blast
        with False Some Cons rest show ?thesis by simp
      qed
    qed
  qed
qed

text \<open>
  A text whose capitals start with an ASCII text that ends in \<open>D\<close> starts with a text
  that has exactly these capitals: no replacement of the tables has a \<open>D\<close> before its
  end.
\<close>

lemma py_upper_prefix:
  "prefix m (py_upper r) \<Longrightarrow> list_all is_ascii m \<Longrightarrow> m = [] \<or> last m = CHR ''D''
   \<Longrightarrow> \<exists>s. prefix s r \<and> py_upper s = m"
proof (induction r arbitrary: m rule: py_upper.induct)
  case 1
  then show ?case by simp
next
  case (2 c r)
  show ?case
  proof (cases m)
    case Nil
    then show ?thesis by (intro exI [of _ "[]"]) simp
  next
    case (Cons x m')
    from "2.prems"(2) Cons have ascii: "is_ascii x" "list_all is_ascii m'"
      by simp_all
    from "2.prems"(3) Cons have ends: "m' = [] \<or> last m' = CHR ''D''"
      by (auto split: if_splits)
    show ?thesis
    proof (cases "is_ascii c")
      case True
      with "2.prems"(1) Cons have x: "x = upper_char c" and "prefix m' (py_upper r)"
        by simp_all
      with "2.IH"(1) [OF True _ ascii(2) ends] obtain s where "prefix s r" "py_upper s = m'"
        by blast
      with True x Cons show ?thesis by (intro exI [of _ "c # s"]) simp
    next
      case False
      show ?thesis
      proof (cases "map_of unicode_upper (take (utf8_len c) (c # r))")
        case None
        with False "2.prems"(1) Cons ascii(1) show ?thesis by simp
      next
        case (Some v)
        let ?t = "take (utf8_len c) (c # r)" and ?rest = "drop (utf8_len c) (c # r)"
        from unicode_upper_token(1) [OF Some] have len: "length ?t = utf8_len c"
          by simp
        then have token: "take (utf8_len c) (c # tl ?t @ s) = ?t"
            and after: "drop (utf8_len c) (c # tl ?t @ s) = s" for s
          using utf8_len_pos [of c] by (cases "utf8_len c"; simp)+
        have head: "c # tl ?t = ?t"
          using utf8_len_pos [of c] by (cases "utf8_len c") simp_all
        from False Some "2.prems"(1) have "prefix m (v @ py_upper ?rest)"
          by simp
        then have "(prefix m v \<and> m \<noteq> v)
            \<or> (\<exists>m''. m = v @ m'' \<and> prefix m'' (py_upper ?rest))"
          by (cases "m = v") (auto simp add: prefix_append)
        then consider "prefix m v" "m \<noteq> v"
          | m'' where "m = v @ m''" "prefix m'' (py_upper ?rest)"
          by blast
        then show ?thesis
        proof cases
          case 1
          then obtain z where "v = m @ z" "z \<noteq> []"
            by (auto simp add: prefix_def)
          with Cons have "last m \<in> set (butlast v)"
            by (simp add: butlast_append)
          with "2.prems"(3) Cons unicode_upper_SomeD(3) [OF Some] show ?thesis
            by simp
        next
          case 2
          from 2(1) "2.prems"(2) have "list_all is_ascii m''"
            by simp
          moreover from 2(1) "2.prems"(3) Cons have "m'' = [] \<or> last m'' = CHR ''D''"
            by (cases "m'' = []") simp_all
          ultimately obtain s where s: "prefix s ?rest" "py_upper s = m''"
            using "2.IH"(3) [OF False Some 2(2)] by blast
          have "prefix (?t @ s) (?t @ ?rest)"
            using s(1) by (simp only: same_prefix_prefix)
          then have "prefix ((c # tl ?t) @ s) (c # r)"
            by (simp only: head append_take_drop_id)
          then have "prefix (c # tl ?t @ s) (c # r)"
            by (simp only: append_Cons)
          moreover have "py_upper (c # tl ?t @ s) = m"
            using False Some token after s(2) 2(1) by simp
          ultimately show ?thesis by blast
        qed
      qed
    qed
  qed
qed

text \<open>
  The capitals of a text contain the consensus marker exactly if one of its contiguous
  runs has the marker as its capitals.
\<close>

lemma sublist_append_cases:
  assumes "sublist m (v @ w)" and "m \<noteq> []"
  shows "(\<exists>z. suffix z v \<and> z \<noteq> [] \<and> prefix m (z @ w)) \<or> sublist m w"
  using assms
proof (induction v)
  case Nil
  then show ?case by simp
next
  case (Cons x v)
  from Cons.prems have "prefix m (x # v @ w) \<or> sublist m (v @ w)"
    by (simp add: sublist_Cons_right)
  then show ?case
  proof
    assume "prefix m (x # v @ w)"
    then have "suffix (x # v) (x # v) \<and> x # v \<noteq> [] \<and> prefix m ((x # v) @ w)"
      by simp
    then show ?case by blast
  next
    assume "sublist m (v @ w)"
    with Cons.IH Cons.prems(2) show ?case
      by (auto simp add: suffix_Cons)
  qed
qed

lemma py_upper_marker_run:
  assumes "sublist ''CONSENSUS REACHED'' (py_upper r)"
  shows "\<exists>s. sublist s r \<and> py_upper s = ''CONSENSUS REACHED''"
  using assms
proof (induction r rule: py_upper.induct)
  case 1
  then show ?case by simp
next
  case (2 c r)
  let ?m = "''CONSENSUS REACHED''"
  have whole: "\<exists>s. sublist s (c # r) \<and> py_upper s = ?m" if "prefix ?m (py_upper (c # r))"
  proof -
    from py_upper_prefix [OF that] obtain s where "prefix s (c # r)" "py_upper s = ?m"
      by (auto simp add: is_ascii_def)
    then show ?thesis by (auto intro: prefix_imp_sublist)
  qed
  have later: "\<exists>s. sublist s (c # r) \<and> py_upper s = ?m"
    if "\<exists>s. sublist s (drop n r) \<and> py_upper s = ?m" for n
  proof -
    from that obtain s where s: "sublist s (drop n r)" "py_upper s = ?m" by blast
    have "sublist (drop n r) (c # r)"
      by (metis sublist_Cons_right suffix_drop suffix_imp_sublist)
    with s show ?thesis by (meson sublist_order.order_trans)
  qed
  show ?case
  proof (cases "is_ascii c")
    case True
    with "2.prems" have "prefix ?m (py_upper (c # r)) \<or> sublist ?m (py_upper r)"
      by (simp add: sublist_Cons_right)
    then show ?thesis
      using whole later [of 0] "2.IH"(1) [OF True] by auto
  next
    case False
    show ?thesis
    proof (cases "map_of unicode_upper (take (utf8_len c) (c # r))")
      case None
      with False "2.prems" have "prefix ?m (py_upper (c # r)) \<or> sublist ?m (py_upper r)"
        by (simp add: sublist_Cons_right)
      then show ?thesis
        using whole later [of 0] "2.IH"(2) [OF False None] by auto
    next
      case (Some v)
      let ?rest = "drop (utf8_len c) (c # r)"
      have rest: "?rest = drop (utf8_len c - 1) r"
        using utf8_len_pos [of c] by (cases "utf8_len c") simp_all
      from False Some have upper: "py_upper (c # r) = v @ py_upper ?rest"
        by simp
      with "2.prems" have "sublist ?m (v @ py_upper ?rest)"
        by simp
      from sublist_append_cases [OF this]
      consider z where "suffix z v" "z \<noteq> []" "prefix ?m (z @ py_upper ?rest)"
        | "sublist ?m (py_upper ?rest)"
        by auto
      then show ?thesis
      proof cases
        case 1
        show ?thesis
        proof (cases "z = v")
          case True
          with 1(3) upper show ?thesis using whole by simp
        next
          case False
          with 1(1) obtain y ys where "v = y # ys" "suffix z ys"
            by (cases v) (auto simp add: suffix_Cons)
          with 1(2) have "hd z \<in> set (tl v)"
            by (cases z) (auto dest: set_mono_suffix)
          moreover from 1(2,3) have "hd z = CHR ''C''"
            by (cases z) simp_all
          ultimately show ?thesis
            using unicode_upper_SomeD(2) [OF Some] by simp
        qed
      next
        case 2
        with "2.IH"(3) [OF \<open>\<not> is_ascii c\<close> Some]
        have "\<exists>s. sublist s (drop (utf8_len c - 1) r) \<and> py_upper s = ?m"
          by (simp add: rest)
        then show ?thesis by (rule later)
      qed
    qed
  qed
qed

lemma py_upper_run_marker:
  assumes "sublist s r" and "py_upper s = ''CONSENSUS REACHED''"
  shows "sublist ''CONSENSUS REACHED'' (py_upper r)"
proof -
  from assms(1) obtain a b where r: "r = a @ s @ b"
    by (auto simp add: sublist_def)
  from assms(2) obtain c s' where s: "s = c # s'"
    by (cases s) simp_all
  have start: "\<not> (digit7 c \<and> \<not> digit6 c)"
  proof (cases "is_ascii c")
    case True
    then show ?thesis by (simp add: is_ascii_def)
  next
    case False
    show ?thesis
    proof (cases "map_of unicode_upper (take (utf8_len c) (c # s'))")
      case None
      with False assms(2) s show ?thesis by (simp add: is_ascii_def)
    next
      case (Some v)
      from unicode_upper_token(2) [OF Some] show ?thesis by simp
    qed
  qed
  have "s @ b \<noteq> []" and "\<not> (digit7 (hd (s @ b)) \<and> \<not> digit6 (hd (s @ b)))"
    using s start by simp_all
  from py_upper_suffix [OF this, of a] obtain p where "py_upper r = p @ py_upper (s @ b)"
    by (auto simp add: r)
  moreover have "py_upper (s @ b) = py_upper s @ py_upper b"
    by (rule py_upper_append) (simp add: assms(2) is_ascii_def)
  ultimately show ?thesis
    by (simp add: assms(2) sublist_def) blast
qed

declare py_upper.simps [simp del]

subsection \<open>Orchestration Loop\<close>

text \<open>
  Of the console output the model keeps the line by which a run tells the operator how it
  ended; progress banners are left out. \<open>time.sleep\<close> changes nothing that is modelled.
\<close>

definition print :: "string \<Rightarrow> world \<Rightarrow> world" where
  "print line w = w\<lparr>trace := trace w @ [Print line]\<rparr>"

text \<open>
  What a successful call of the Gateway and of a critic turn leave in the Session Store;
  the second fact is what makes the loop below terminate.
\<close>

lemma call_claude_debate_dir: "debate_dir (snd (call_claude env prompt w)) = debate_dir w"
  by (simp add: call_claude_def Popen_def communicate_def getpgid_def killpg_def Let_def
      split: prod.splits sum.splits option.splits)

lemma call_codex_debate_dir: "debate_dir (snd (call_codex env prompt w)) = debate_dir w"
  by (simp add: call_codex_def NamedTemporaryFile_def Popen_def communicate_def getpgid_def
      killpg_def unlink_def Let_def split: prod.splits sum.splits option.splits)

lemma call_agent_debate_dir: "debate_dir (snd (call_agent env agent prompt w)) = debate_dir w"
  by (simp add: call_agent_def call_claude_debate_dir call_codex_debate_dir)

lemma py_strip_State_value: "py_strip (State_value st) = State_value st"
  by (cases st) (simp_all add: State_value_def strip_eval)

lemma State_of_State_value: "State_of (State_value st) = Inr st"
  by (cases st) (simp_all add: State_value_def State_of_def)

lemma get_state_eq:
  "debate_dir w = Some d \<Longrightarrow> d ''state.md'' = Some (State_value st) \<Longrightarrow> get_state w = Inr st"
  by (simp add: get_state_def read_file_def py_strip_State_value State_of_State_value)

lemma run_critic_turn_store:
  assumes "run_critic_turn env cfg w = (Inr u, w')"
  shows "\<exists>d history r prompt response w1.
           debate_dir w = Some d \<and> d ''history.md'' = Some history \<and>
           r = int (py_count history ''## [PROPOSER]'') \<and>
           build_critic_prompt r w = Inr prompt \<and>
           call_agent env (CRITIC cfg) prompt w = (Inr response, w1) \<and>
           debate_dir w' =
             Some (if py_in ''CONSENSUS REACHED'' (py_upper response)
                   then d(''critic.md'' \<mapsto> response,
                          ''history.md'' \<mapsto> history @ nl @ ''## [CRITIC] Round '' @ str_int r
                             @ '' ('' @ now env (tick w1) @ '')'' @ nl @ nl @ response
                             @ nl @ nl @ ''---'' @ nl,
                          ''state.md'' \<mapsto> ''CONSENSUS'',
                          ''consensus.md'' \<mapsto> ''# Consensus Reached - Round '' @ str_int r
                             @ nl @ nl @ response)
                   else d(''critic.md'' \<mapsto> response,
                          ''history.md'' \<mapsto> history @ nl @ ''## [CRITIC] Round '' @ str_int r
                             @ '' ('' @ now env (tick w1) @ '')'' @ nl @ nl @ response
                             @ nl @ nl @ ''---'' @ nl,
                          ''state.md'' \<mapsto> ''PROPOSER_TURN''))"
proof -
  from assms obtain r0 where r0: "get_round w = Inr r0"
    by (auto simp: run_critic_turn_def split: sum.splits)
  then obtain d history where d: "debate_dir w = Some d" "d ''history.md'' = Some history"
    and r0_eq: "r0 = int (py_count history ''## [PROPOSER]'') + 1"
    by (auto simp: get_round_def read_file_def split: option.splits)
  from assms r0 obtain prompt where prompt: "build_critic_prompt (r0 - 1) w = Inr prompt"
    by (auto simp: run_critic_turn_def Let_def split: sum.splits)
  from assms r0 prompt obtain response w1
    where call: "call_agent env (CRITIC cfg) prompt w = (Inr response, w1)"
    by (auto simp: run_critic_turn_def Let_def split: sum.splits prod.splits)
  have w1: "debate_dir w1 = Some d"
    using call_agent_debate_dir [of env "CRITIC cfg" prompt w] call d by simp
  let ?r = "int (py_count history ''## [PROPOSER]'')"
  have "debate_dir w' =
             Some (if py_in ''CONSENSUS REACHED'' (py_upper response)
                   then d(''critic.md'' \<mapsto> response,
                          ''history.md'' \<mapsto> history @ nl @ ''## [CRITIC] Round '' @ str_int ?r
                             @ '' ('' @ now env (tick w1) @ '')'' @ nl @ nl @ response
                             @ nl @ nl @ ''---'' @ nl,
                          ''state.md'' \<mapsto> ''CONSENSUS'',
                          ''consensus.md'' \<mapsto> ''# Consensus Reached - Round '' @ str_int ?r
                             @ nl @ nl @ response)
                   else d(''critic.md'' \<mapsto> response,
                          ''history.md'' \<mapsto> history @ nl @ ''## [CRITIC] Round '' @ str_int ?r
                             @ '' ('' @ now env (tick w1) @ '')'' @ nl @ nl @ response
                             @ nl @ nl @ ''---'' @ nl,
                          ''state.md'' \<mapsto> ''PROPOSER_TURN''))"
    using assms r0 r0_eq prompt call w1 d
    by (auto simp: run_critic_turn_def Let_def write_file_def append_file_def set_state_def
        strftime_now_def State_value_def)
  with d r0_eq prompt call show ?thesis by auto
qed

lemma run_critic_turn_leaves_critic_state:
  assumes "run_critic_turn env cfg w = (Inr u, w')"
  shows "get_state w' \<noteq> Inr CRITIC_TURN"
proof -
  from run_critic_turn_store [OF assms] obtain d' where
    "debate_dir w' = Some d'" "d' ''state.md'' = Some ''CONSENSUS'' \<or> d' ''state.md'' = Some ''PROPOSER_TURN''"
    by (auto split: if_splits)
  then have "get_state w' = Inr CONSENSUS \<or> get_state w' = Inr PROPOSER_TURN"
    using get_state_eq [of w' d' CONSENSUS] get_state_eq [of w' d' PROPOSER_TURN]
    by (auto simp: State_value_def)
  then show ?thesis by auto
qed

text \<open>
  The \<open>while rounds < MAX_ROUNDS\<close> loop with the code after it; \<open>run_debate_loop\<close> enters
  it with \<open>rounds = 0\<close>.
\<close>

function debate_loop :: "env \<Rightarrow> config \<Rightarrow> int \<Rightarrow> world \<Rightarrow> (error + unit) \<times> world" where
  "debate_loop env cfg rounds w =
     (if rounds < MAX_ROUNDS cfg then
        (case get_state w of
           Inl e \<Rightarrow> (Inl e, w)
         | Inr st \<Rightarrow>
             (case st of
                CONSENSUS \<Rightarrow> (Inr (), print ''  DEBATE COMPLETE - CONSENSUS REACHED'' w)
              | PROPOSER_TURN \<Rightarrow>
                  (case run_proposer_turn env cfg w of
                     (Inl e, w') \<Rightarrow> (Inl e, w')
                   | (Inr u, w') \<Rightarrow> debate_loop env cfg (rounds + 1) w')
              | CRITIC_TURN \<Rightarrow>
                  (case run_critic_turn env cfg w of
                     (Inl e, w') \<Rightarrow> (Inl e, w')
                   | (Inr u, w') \<Rightarrow> debate_loop env cfg rounds w')))
      else (Inr (), print (''  MAX ROUNDS ('' @ str_int (MAX_ROUNDS cfg) @ '') REACHED'') w))"
  by pat_completeness auto
termination
  apply (relation "measure (\<lambda>(env, cfg, rounds, w).
          2 * nat (MAX_ROUNDS cfg - rounds) + (if get_state w = Inr CRITIC_TURN then 1 else 0))")
  subgoal by simp
  subgoal by auto
  subgoal for env cfg rounds w st x w' u
    using run_critic_turn_leaves_critic_state [of env cfg w u w'] by simp
  done

declare debate_loop.simps [simp del]

definition run_debate_loop :: "env \<Rightarrow> config \<Rightarrow> world \<Rightarrow> (error + unit) \<times> world" where
  "run_debate_loop env cfg w = debate_loop env cfg 0 w"

subsection \<open>Entry point\<close>

text \<open>
  The parsed command line. \<open>args_goal\<close> and \<open>args_goal_file\<close> are \<open>None\<close> when the flag
  was not given; Python takes \<open>None\<close> and the empty text alike as false.
\<close>

record args =
  args_goal :: "string option"
  args_goal_file :: "string option"
  args_resume :: bool
  args_proposer :: string
  args_critic :: string
  args_max_rounds :: int
  args_swap :: bool

text \<open>\<open>Path(path).read_text()\<close> of a file outside \<open>./debate\<close>.\<close>

definition read_text :: "string \<Rightarrow> world \<Rightarrow> error + string" where
  "read_text path w =
     (case files w path of None \<Rightarrow> Inl (FileNotFoundError path) | Some text \<Rightarrow> Inr text)"

text \<open>\<open>shutil.rmtree(DEBATE_DIR)\<close>.\<close>

definition rmtree :: "world \<Rightarrow> world" where
  "rmtree w = w\<lparr>debate_dir := None\<rparr>"

text \<open>
  \<open>main\<close> returns an exit status, or an exception escapes it. In the setup step \<open>Inl\<close>
  stands for the early \<open>return 1\<close>, \<open>Inr\<close> for going on to the loop.
\<close>

definition main :: "env \<Rightarrow> args \<Rightarrow> world \<Rightarrow> (error + int) \<times> world" where
  "main env a w =
     (let cfg = \<lparr>PROPOSER = (if args_swap a then ''codex'' else args_proposer a),
                 CRITIC = (if args_swap a then ''claude'' else args_critic a),
                 MAX_ROUNDS = args_max_rounds a\<rparr>;
          from_file =
            (case args_goal_file a of
               None \<Rightarrow> Inr None
             | Some path \<Rightarrow>
                 if path = [] then Inr None
                 else (case read_text path w of Inl e \<Rightarrow> Inl e | Inr text \<Rightarrow> Inr (Some text)))
      in case (case args_goal a of
                 None \<Rightarrow> from_file
               | Some g \<Rightarrow> if g = [] then from_file else Inr (Some (''# Goal'' @ nl @ nl @ g))) of
           Inl e \<Rightarrow> (Inl e, w)
         | Inr goal \<Rightarrow>
             (case (if args_resume a then
                      (if debate_dir w = None
                       then Inl (1, print ''Error: No debate to resume. Start with --goal'' w)
                       else Inr w)
                    else
                      (let w1 = (if debate_dir w \<noteq> None then rmtree w else w)
                       in if goal = None \<or> goal = Some []
                          then Inl (1, print ''Error: Provide --goal or --goal-file'' w1)
                          else Inr (setup_debate_dir goal w1))) of
                Inl (status, w2) \<Rightarrow> (Inr status, w2)
              | Inr w2 \<Rightarrow>
                  (case run_debate_loop env cfg w2 of
                     (Inl e, w3) \<Rightarrow> (Inl e, w3)
                   | (Inr u, w3) \<Rightarrow> (Inr 0, w3))))"

section \<open>Concrete runs\<close>

text \<open>
  A machine on which nothing exists yet, and environments whose clock and temporary
  file name are fixed and whose processes behave as a given function of the argument
  vector says. They are the inputs at which the properties below are exercised.
\<close>

definition fresh_world :: world where
  "fresh_world =
     \<lparr>debate_dir = None, files = Map.empty, pgid_of = Map.empty, current_process = None,
      trace = [], tick = 0\<rparr>"

definition env_of :: "(string list \<Rightarrow> process) \<Rightarrow> env" where
  "env_of beh =
     \<lparr>behaviour = (\<lambda>pid argv. beh argv),
      now = (\<lambda>t. ''2026-01-01 12:00''),
      tmp_name = (\<lambda>t. ''/tmp/tmpq3x.txt'')\<rparr>"

text \<open>A process that exits with the given status after one time unit.\<close>

definition exits :: "int \<Rightarrow> string \<Rightarrow> string \<Rightarrow> (string \<times> string option) list \<Rightarrow> process" where
  "exits rc out err ops =
     \<lparr>duration = 1, returncode = rc, stdout = out, stderr = err, file_ops = ops\<rparr>"

text \<open>Every agent prints \<open>ok\<close> and exits with status 0; nobody writes a file.\<close>

definition steady_env :: env where
  "steady_env = env_of (\<lambda>argv. exits 0 (''ok'' @ nl) [] [])"

text \<open>Every agent hangs: it would need 601 time units.\<close>

definition hanging_env :: env where
  "hanging_env =
     env_of (\<lambda>argv. \<lparr>duration = 601, returncode = 0, stdout = [], stderr = [], file_ops = []\<rparr>)"

definition default_config :: config where
  "default_config = \<lparr>PROPOSER = ''claude'', CRITIC = ''codex'', MAX_ROUNDS = 10\<rparr>"

text \<open>
  The critic (codex) writes a verdict that carries the consensus marker in lower case into
  the file named after \<open>-o\<close>; the proposer prints \<open>ok\<close>.
\<close>

definition agreeing_env :: env where
  "agreeing_env =
     env_of (\<lambda>argv. if hd argv = ''codex''
                    then exits 0 [] [] [(argv ! 4, Some (''Verdict: consensus reached'' @ nl))]
                    else exits 0 (''ok'' @ nl) [] [])"

text \<open>
  The same critic writing the marker with a long s (\<open>U+017F\<close>, in UTF-8 the bytes
  \<open>0xC5 0xBF\<close>) in place of its first \<open>s\<close>; the capital of the long s is \<open>S\<close>.
\<close>

definition long_s_env :: env where
  "long_s_env =
     env_of (\<lambda>argv. if hd argv = ''codex''
                    then exits 0 [] []
                      [(argv ! 4, Some (''con'' @ [CHR 0xC5, CHR 0xBF] @ ''ensus reached'' @ nl))]
                    else exits 0 (''ok'' @ nl) [] [])"

text \<open>codex exits with status 1, having written nothing but a diagnostic.\<close>

definition crashing_codex_env :: env where
  "crashing_codex_env =
     env_of (\<lambda>argv. if hd argv = ''codex''
                    then exits 1 [] ''stream disconnected'' []
                    else exits 0 (''ok'' @ nl) [] [])"

text \<open>Every agent prints a sentence that quotes a heading of the transcript.\<close>

definition quoting_env :: env where
  "quoting_env =
     env_of (\<lambda>argv. exits 0 (''Keep the plan under ## [PROPOSER] above.'' @ nl) [] [])"

text \<open>A session as \<open>--goal "pick a color"\<close> creates it on the fresh machine.\<close>

definition new_session :: world where
  "new_session = setup_debate_dir (Some (''# Goal'' @ nl @ nl @ ''pick a color'')) fresh_world"

text \<open>The same session after the first proposer turn in a given environment.\<close>

definition after_proposal :: "env \<Rightarrow> world" where
  "after_proposal env = snd (run_proposer_turn env default_config new_session)"

section \<open>Notions of the specification\<close>

text \<open>
  A text contains the consensus marker in some letter case if one of its contiguous runs
  is the marker up to the case of its letters: the capitals of the run are the marker.
\<close>

definition contains_marker_any_case :: "string \<Rightarrow> bool" where
  "contains_marker_any_case text =
     (\<exists>s. sublist s text \<and> py_upper s = ''CONSENSUS REACHED'')"

text \<open>The agents invoked so far, oldest first, read off the trace.\<close>

fun spawned_agents :: "event list \<Rightarrow> string list" where
  "spawned_agents [] = []"
| "spawned_agents (Spawned pid argv # es) = take 1 argv @ spawned_agents es"
| "spawned_agents (Killpg g sig # es) = spawned_agents es"
| "spawned_agents (Print line # es) = spawned_agents es"


text \<open>
  A Turn Record (role, round, time stamp, content) as the transcript shows it: the text
  that the two turn functions append to \<open>history.md\<close>.
\<close>

definition turn_record :: "string \<Rightarrow> int \<Rightarrow> string \<Rightarrow> string \<Rightarrow> string" where
  "turn_record role round_num timestamp content =
     nl @ ''## ['' @ role @ ''] Round '' @ str_int round_num @ '' ('' @ timestamp @ '')''
     @ nl @ nl @ content @ nl @ nl @ ''---'' @ nl"

text \<open>The default roles with a round budget of 2.\<close>

definition two_rounds :: config where
  "two_rounds = \<lparr>PROPOSER = ''claude'', CRITIC = ''codex'', MAX_ROUNDS = 2\<rparr>"

text \<open>
  Two command lines that ask to resume: \<open>--resume\<close> alone, and \<open>--resume\<close> together with
  \<open>--goal-file goal.txt\<close>.
\<close>

definition resume_args :: args where
  "resume_args =
     \<lparr>args_goal = None, args_goal_file = None, args_resume = True,
      args_proposer = ''claude'', args_critic = ''codex'', args_max_rounds = 10,
      args_swap = False\<rparr>"

definition resume_with_goal_file_args :: args where
  "resume_with_goal_file_args =
     \<lparr>args_goal = None, args_goal_file = Some ''goal.txt'', args_resume = True,
      args_proposer = ''claude'', args_critic = ''codex'', args_max_rounds = 10,
      args_swap = False\<rparr>"

section \<open>Facts about turns\<close>

lemma marker_test:
  "py_in ''CONSENSUS REACHED'' (py_upper response) = contains_marker_any_case response"
  unfolding py_in_sublist contains_marker_any_case_def
proof
  assume "sublist ''CONSENSUS REACHED'' (py_upper response)"
  then show "\<exists>s. sublist s response \<and> py_upper s = ''CONSENSUS REACHED''"
    by (rule py_upper_marker_run)
next
  assume "\<exists>s. sublist s response \<and> py_upper s = ''CONSENSUS REACHED''"
  then obtain s where "sublist s response" and "py_upper s = ''CONSENSUS REACHED''"
    by (elim exE conjE)
  then show "sublist ''CONSENSUS REACHED'' (py_upper response)"
    by (rule py_upper_run_marker)
qed

lemma build_proposer_prompt_ok:
  "debate_dir w = Some d \<Longrightarrow> d ''goal.md'' = Some goal \<Longrightarrow> d ''history.md'' = Some history
   \<Longrightarrow> d ''critic.md'' = Some critique \<Longrightarrow> \<exists>prompt. build_proposer_prompt r w = Inr prompt"
  by (simp add: build_proposer_prompt_def read_file_def)

lemma build_critic_prompt_ok:
  "debate_dir w = Some d \<Longrightarrow> d ''goal.md'' = Some goal \<Longrightarrow> d ''history.md'' = Some history
   \<Longrightarrow> d ''proposer.md'' = Some proposal \<Longrightarrow> \<exists>prompt. build_critic_prompt r w = Inr prompt"
  by (simp add: build_critic_prompt_def read_file_def)

text \<open>A turn whose agent answers: what it returns and the world it leaves.\<close>

lemma run_proposer_turn_ok:
  assumes "debate_dir w = Some d" "d ''history.md'' = Some history"
    and "build_proposer_prompt (int (py_count history ''## [PROPOSER]'') + 1) w = Inr prompt"
    and "call_agent env (PROPOSER cfg) prompt w = (Inr response, w1)"
  shows "run_proposer_turn env cfg w =
           (Inr (), w1\<lparr>debate_dir := Some (d(''proposer.md'' \<mapsto> response,
               ''history.md'' \<mapsto> history @ nl @ ''## [PROPOSER] Round ''
                  @ str_int (int (py_count history ''## [PROPOSER]'') + 1)
                  @ '' ('' @ now env (tick w1) @ '')'' @ nl @ nl @ response @ nl @ nl
                  @ ''---'' @ nl,
               ''state.md'' \<mapsto> ''CRITIC_TURN'')),
             tick := Suc (tick w1)\<rparr>)"
proof -
  have "debate_dir w1 = Some d"
    using call_agent_debate_dir [of env "PROPOSER cfg" prompt w] assms by simp
  with assms show ?thesis
    by (simp add: run_proposer_turn_def get_round_def read_file_def write_file_def
        append_file_def set_state_def strftime_now_def State_value_def)
qed

lemma run_critic_turn_ok:
  assumes "debate_dir w = Some d" "d ''history.md'' = Some history"
    and "build_critic_prompt (int (py_count history ''## [PROPOSER]'')) w = Inr prompt"
    and "call_agent env (CRITIC cfg) prompt w = (Inr response, w1)"
  shows "run_critic_turn env cfg w =
           (Inr (), w1\<lparr>debate_dir := Some
              (if py_in ''CONSENSUS REACHED'' (py_upper response)
               then d(''critic.md'' \<mapsto> response,
                 ''history.md'' \<mapsto> history @ nl @ ''## [CRITIC] Round ''
                    @ str_int (int (py_count history ''## [PROPOSER]''))
                    @ '' ('' @ now env (tick w1) @ '')'' @ nl @ nl @ response @ nl @ nl
                    @ ''---'' @ nl,
                 ''state.md'' \<mapsto> ''CONSENSUS'',
                 ''consensus.md'' \<mapsto> ''# Consensus Reached - Round ''
                    @ str_int (int (py_count history ''## [PROPOSER]'')) @ nl @ nl @ response)
               else d(''critic.md'' \<mapsto> response,
                 ''history.md'' \<mapsto> history @ nl @ ''## [CRITIC] Round ''
                    @ str_int (int (py_count history ''## [PROPOSER]''))
                    @ '' ('' @ now env (tick w1) @ '')'' @ nl @ nl @ response @ nl @ nl
                    @ ''---'' @ nl,
                 ''state.md'' \<mapsto> ''PROPOSER_TURN'')),
             tick := Suc (tick w1)\<rparr>)"
proof -
  have "debate_dir w1 = Some d"
    using call_agent_debate_dir [of env "CRITIC cfg" prompt w] assms by simp
  with assms show ?thesis
    by (simp add: run_critic_turn_def get_round_def read_file_def write_file_def
        append_file_def set_state_def strftime_now_def State_value_def Let_def)
qed

text \<open>A turn whose agent call raises: the exception leaves the turn, the store is as before.\<close>

lemma run_proposer_turn_agent_fails:
  assumes "debate_dir w = Some d" "d ''history.md'' = Some history"
    and "build_proposer_prompt (int (py_count history ''## [PROPOSER]'') + 1) w = Inr prompt"
    and "call_agent env (PROPOSER cfg) prompt w = (Inl e, w1)"
  shows "run_proposer_turn env cfg w = (Inl e, w1) \<and> debate_dir w1 = debate_dir w"
  using call_agent_debate_dir [of env "PROPOSER cfg" prompt w] assms
  by (simp add: run_proposer_turn_def get_round_def read_file_def Let_def)

lemma run_critic_turn_agent_fails:
  assumes "debate_dir w = Some d" "d ''history.md'' = Some history"
    and "build_critic_prompt (int (py_count history ''## [PROPOSER]'')) w = Inr prompt"
    and "call_agent env (CRITIC cfg) prompt w = (Inl e, w1)"
  shows "run_critic_turn env cfg w = (Inl e, w1) \<and> debate_dir w1 = debate_dir w"
  using call_agent_debate_dir [of env "CRITIC cfg" prompt w] assms
  by (simp add: run_critic_turn_def get_round_def read_file_def Let_def)

text \<open>
  The same for an agent whose answer does not depend on the prompt and a clock that
  stands still, as in the concrete environments: the store after the turn in closed form.
\<close>

lemma run_proposer_turn_eval:
  assumes d: "debate_dir w = Some d" "d ''goal.md'' = Some goal" "d ''history.md'' = Some history"
      "d ''critic.md'' = Some critique"
    and agent: "\<And>prompt. fst (call_agent env (PROPOSER cfg) prompt w) = Inr response"
    and clock: "\<And>t. now env t = ts"
  shows "fst (run_proposer_turn env cfg w) = Inr ()"
    and "debate_dir (snd (run_proposer_turn env cfg w)) =
           Some (d(''proposer.md'' \<mapsto> response,
               ''history.md'' \<mapsto> history @ nl @ ''## [PROPOSER] Round ''
                  @ str_int (int (py_count history ''## [PROPOSER]'') + 1)
                  @ '' ('' @ ts @ '')'' @ nl @ nl @ response @ nl @ nl @ ''---'' @ nl,
               ''state.md'' \<mapsto> ''CRITIC_TURN''))"
    and "trace (snd (run_proposer_turn env cfg w))
           = trace (snd (call_agent env (PROPOSER cfg)
               (projr (build_proposer_prompt (int (py_count history ''## [PROPOSER]'') + 1) w)) w))"
proof -
  let ?r = "int (py_count history ''## [PROPOSER]'') + 1"
  from build_proposer_prompt_ok [OF d] obtain prompt
    where prompt: "build_proposer_prompt ?r w = Inr prompt" by blast
  obtain w1 where call: "call_agent env (PROPOSER cfg) prompt w = (Inr response, w1)"
    using agent [of prompt] by (cases "call_agent env (PROPOSER cfg) prompt w") simp
  note turn = run_proposer_turn_ok [OF d(1) d(3) prompt call]
  show "fst (run_proposer_turn env cfg w) = Inr ()" by (simp add: turn)
  show "debate_dir (snd (run_proposer_turn env cfg w)) =
           Some (d(''proposer.md'' \<mapsto> response,
               ''history.md'' \<mapsto> history @ nl @ ''## [PROPOSER] Round ''
                  @ str_int (int (py_count history ''## [PROPOSER]'') + 1)
                  @ '' ('' @ ts @ '')'' @ nl @ nl @ response @ nl @ nl @ ''---'' @ nl,
               ''state.md'' \<mapsto> ''CRITIC_TURN''))"
    by (simp add: turn clock)
  show "trace (snd (run_proposer_turn env cfg w))
           = trace (snd (call_agent env (PROPOSER cfg)
               (projr (build_proposer_prompt (int (py_count history ''## [PROPOSER]'') + 1) w)) w))"
    by (simp add: turn prompt call)
qed

lemma run_critic_turn_eval:
  assumes d: "debate_dir w = Some d" "d ''goal.md'' = Some goal" "d ''history.md'' = Some history"
      "d ''proposer.md'' = Some proposal"
    and agent: "\<And>prompt. fst (call_agent env (CRITIC cfg) prompt w) = Inr response"
    and clock: "\<And>t. now env t = ts"
  shows "fst (run_critic_turn env cfg w) = Inr ()"
    and "debate_dir (snd (run_critic_turn env cfg w)) = Some
              (if py_in ''CONSENSUS REACHED'' (py_upper response)
               then d(''critic.md'' \<mapsto> response,
                 ''history.md'' \<mapsto> history @ nl @ ''## [CRITIC] Round ''
                    @ str_int (int (py_count history ''## [PROPOSER]''))
                    @ '' ('' @ ts @ '')'' @ nl @ nl @ response @ nl @ nl @ ''---'' @ nl,
                 ''state.md'' \<mapsto> ''CONSENSUS'',
                 ''consensus.md'' \<mapsto> ''# Consensus Reached - Round ''
                    @ str_int (int (py_count history ''## [PROPOSER]'')) @ nl @ nl @ response)
               else d(''critic.md'' \<mapsto> response,
                 ''history.md'' \<mapsto> history @ nl @ ''## [CRITIC] Round ''
                    @ str_int (int (py_count history ''## [PROPOSER]''))
                    @ '' ('' @ ts @ '')'' @ nl @ nl @ response @ nl @ nl @ ''---'' @ nl,
                 ''state.md'' \<mapsto> ''PROPOSER_TURN''))"
    and "trace (snd (run_critic_turn env cfg w))
           = trace (snd (call_agent env (CRITIC cfg)
               (projr (build_critic_prompt (int (py_count history ''## [PROPOSER]'')) w)) w))"
proof -
  let ?r = "int (py_count history ''## [PROPOSER]'')"
  from build_critic_prompt_ok [OF d] obtain prompt
    where prompt: "build_critic_prompt ?r w = Inr prompt" by blast
  obtain w1 where call: "call_agent env (CRITIC cfg) prompt w = (Inr response, w1)"
    using agent [of prompt] by (cases "call_agent env (CRITIC cfg) prompt w") simp
  note turn = run_critic_turn_ok [OF d(1) d(3) prompt call]
  show "fst (run_critic_turn env cfg w) = Inr ()" by (simp add: turn)
  show "debate_dir (snd (run_critic_turn env cfg w)) = Some
              (if py_in ''CONSENSUS REACHED'' (py_upper response)
               then d(''critic.md'' \<mapsto> response,
                 ''history.md'' \<mapsto> history @ nl @ ''## [CRITIC] Round ''
                    @ str_int (int (py_count history ''## [PROPOSER]''))
                    @ '' ('' @ ts @ '')'' @ nl @ nl @ response @ nl @ nl @ ''---'' @ nl,
                 ''state.md'' \<mapsto> ''CONSENSUS'',
                 ''consensus.md'' \<mapsto> ''# Consensus Reached - Round ''
                    @ str_int (int (py_count history ''## [PROPOSER]'')) @ nl @ nl @ response)
               else d(''critic.md'' \<mapsto> response,
                 ''history.md'' \<mapsto> history @ nl @ ''## [CRITIC] Round ''
                    @ str_int (int (py_count history ''## [PROPOSER]''))
                    @ '' ('' @ ts @ '')'' @ nl @ nl @ response @ nl @ nl @ ''---'' @ nl,
                 ''state.md'' \<mapsto> ''PROPOSER_TURN''))"
    by (simp add: turn clock)
  show "trace (snd (run_critic_turn env cfg w))
           = trace (snd (call_agent env (CRITIC cfg)
               (projr (build_critic_prompt (int (py_count history ''## [PROPOSER]'')) w)) w))"
    by (simp add: turn prompt call)
qed

text \<open>What the agents of the concrete environments answer, whatever the prompt.\<close>

lemmas gateway_defs =
  call_agent_def call_claude_def call_codex_def NamedTemporaryFile_def Popen_def
  communicate_def getpgid_def killpg_def unlink_def Let_def env_of_def exits_def
  strip_eval nl_def

lemma steady_claude: "fst (call_agent steady_env ''claude'' prompt w) = Inr ''ok''"
  by (simp add: gateway_defs steady_env_def)

lemma steady_codex: "fst (call_agent steady_env ''codex'' prompt w) = Inr []"
  by (simp add: gateway_defs steady_env_def)

lemma agreeing_claude: "fst (call_agent agreeing_env ''claude'' prompt w) = Inr ''ok''"
  by (simp add: gateway_defs agreeing_env_def)

lemma agreeing_codex:
  "fst (call_agent agreeing_env ''codex'' prompt w) = Inr ''Verdict: consensus reached''"
  by (simp add: gateway_defs agreeing_env_def)

lemma long_s_claude: "fst (call_agent long_s_env ''claude'' prompt w) = Inr ''ok''"
  by (simp add: gateway_defs long_s_env_def)

lemma long_s_codex:
  "fst (call_agent long_s_env ''codex'' prompt w)
     = Inr (''con'' @ [CHR 0xC5, CHR 0xBF] @ ''ensus reached'')"
proof -
  have "py_strip (''con'' @ [CHR 0xC5, CHR 0xBF] @ ''ensus reached'' @ nl)
          = ''con'' @ [CHR 0xC5, CHR 0xBF] @ ''ensus reached''"
    by (simp add: py_strip_def py_lstrip.simps py_rstrip.simps whitespace_def
        suffix_to_prefix nl_def)
  then show ?thesis
    by (simp add: gateway_defs long_s_env_def)
qed

lemma crashing_claude: "fst (call_agent crashing_codex_env ''claude'' prompt w) = Inr ''ok''"
  by (simp add: gateway_defs crashing_codex_env_def)

lemma crashing_codex: "fst (call_agent crashing_codex_env ''codex'' prompt w) = Inr []"
  by (simp add: gateway_defs crashing_codex_env_def)

lemma quoting_claude:
  "fst (call_agent quoting_env ''claude'' prompt w)
     = Inr ''Keep the plan under ## [PROPOSER] above.''"
  by (simp add: gateway_defs quoting_env_def)

lemma quoting_codex: "fst (call_agent quoting_env ''codex'' prompt w) = Inr []"
  by (simp add: gateway_defs quoting_env_def)

lemma env_of_now: "now (env_of beh) t = ''2026-01-01 12:00''"
  by (simp add: env_of_def)

text \<open>The store of the new session, and of the session after its first proposer turn.\<close>

lemma new_session_store:
  "debate_dir new_session =
     Some [''goal.md'' \<mapsto> ''# Goal'' @ nl @ nl @ ''pick a color'',
           ''state.md'' \<mapsto> ''PROPOSER_TURN'',
           ''proposer.md'' \<mapsto> ''# Proposal'' @ nl @ nl @ ''(Awaiting first proposal)'',
           ''critic.md'' \<mapsto> ''# Critique'' @ nl @ nl @ ''(No critique yet - this is Round 1)'',
           ''history.md'' \<mapsto> ''# Debate History'' @ nl @ nl @ ''---'' @ nl]"
  by (simp add: new_session_def setup_debate_dir_def fresh_world_def State_value_def nl_def)

lemma str_int_1: "str_int 1 = ''1''"
  by (simp add: str_int_def str_nat.simps)

lemma str_int_2: "str_int 2 = ''2''"
  by (simp add: str_int_def str_nat.simps)

lemma str_int_3: "str_int 3 = ''3''"
  by (simp add: str_int_def str_nat.simps)

section \<open>Facts about runs\<close>

lemma after_proposal_store:
  assumes "\<And>prompt w. fst (call_agent env ''claude'' prompt w) = Inr response"
    and "\<And>t. now env t = ts"
  shows "debate_dir (after_proposal env) =
     Some [''goal.md'' \<mapsto> ''# Goal'' @ nl @ nl @ ''pick a color'',
           ''state.md'' \<mapsto> ''PROPOSER_TURN'',
           ''proposer.md'' \<mapsto> ''# Proposal'' @ nl @ nl @ ''(Awaiting first proposal)'',
           ''critic.md'' \<mapsto> ''# Critique'' @ nl @ nl @ ''(No critique yet - this is Round 1)'',
           ''history.md'' \<mapsto> ''# Debate History'' @ nl @ nl @ ''---'' @ nl,
           ''proposer.md'' \<mapsto> response,
           ''history.md'' \<mapsto> ''# Debate History'' @ nl @ nl @ ''---'' @ nl @ nl
              @ ''## [PROPOSER] Round '' @ str_int 1 @ '' ('' @ ts @ '')'' @ nl @ nl @ response @ nl @ nl
              @ ''---'' @ nl,
           ''state.md'' \<mapsto> ''CRITIC_TURN'']"
proof -
  have agent: "\<And>prompt. fst (call_agent env (PROPOSER default_config) prompt new_session) = Inr response"
    by (simp add: default_config_def assms)
  have count: "int (py_count (''# Debate History'' @ nl @ nl @ ''---'' @ nl) ''## [PROPOSER]'') + 1 = 1"
    by (simp add: nl_def)
  let ?d = "[''goal.md'' \<mapsto> ''# Goal'' @ nl @ nl @ ''pick a color'',
           ''state.md'' \<mapsto> ''PROPOSER_TURN'',
           ''proposer.md'' \<mapsto> ''# Proposal'' @ nl @ nl @ ''(Awaiting first proposal)'',
           ''critic.md'' \<mapsto> ''# Critique'' @ nl @ nl @ ''(No critique yet - this is Round 1)'',
           ''history.md'' \<mapsto> ''# Debate History'' @ nl @ nl @ ''---'' @ nl]"
  have g: "?d ''goal.md'' = Some (''# Goal'' @ nl @ nl @ ''pick a color'')"
    and h: "?d ''history.md'' = Some (''# Debate History'' @ nl @ nl @ ''---'' @ nl)"
    and c: "?d ''critic.md'' = Some (''# Critique'' @ nl @ nl @ ''(No critique yet - this is Round 1)'')"
    by simp_all
  show ?thesis
    unfolding after_proposal_def
    using run_proposer_turn_eval(2) [OF new_session_store g h c agent assms(2)]
    by (simp only: count append_assoc)
qed

lemma get_state_read:
  "read_file ''state.md'' w = Inr (State_value st) \<Longrightarrow> get_state w = Inr st"
  by (simp add: get_state_def py_strip_State_value State_of_State_value)

lemma spawned_agents_append:
  "spawned_agents (xs @ ys) = spawned_agents xs @ spawned_agents ys"
  by (induction xs rule: spawned_agents.induct) simp_all

lemma call_agent_agents:
  assumes "call_agent env agent prompt w = (Inr response, w1)"
  shows "spawned_agents (trace w1) = spawned_agents (trace w) @ [agent]"
  using assms
  by (auto simp: call_agent_def call_claude_def call_codex_def NamedTemporaryFile_def Popen_def
      communicate_def getpgid_def killpg_def unlink_def Let_def spawned_agents_append
      split: if_splits prod.splits sum.splits option.splits)

lemma debate_loop_two_rounds:
  assumes "MAX_ROUNDS cfg = 2"
    and "get_state w = Inr PROPOSER_TURN" "run_proposer_turn env cfg w = (Inr (), w1)"
    and "get_state w1 = Inr CRITIC_TURN" "run_critic_turn env cfg w1 = (Inr (), w2)"
    and "get_state w2 = Inr PROPOSER_TURN" "run_proposer_turn env cfg w2 = (Inr (), w3)"
  shows "run_debate_loop env cfg w = (Inr (), print ''  MAX ROUNDS (2) REACHED'' w3)"
  using assms
  by (simp add: run_debate_loop_def debate_loop.simps [of env cfg 0]
      debate_loop.simps [of env cfg 1] debate_loop.simps [of env cfg 2] str_int_2)

lemma setup_debate_dir_store:
  "\<exists>d g p c. debate_dir (setup_debate_dir goal w0) = Some d \<and>
     d ''goal.md'' = Some g \<and> d ''proposer.md'' = Some p \<and> d ''critic.md'' = Some c \<and>
     d ''history.md'' = Some (''# Debate History'' @ nl @ nl @ ''---'' @ nl) \<and>
     d ''state.md'' = Some ''PROPOSER_TURN''"
  by (simp add: setup_debate_dir_def State_value_def)

lemma two_round_budget_steps:
  assumes proposer: "\<And>prompt v. \<exists>response v'.
             call_agent env (PROPOSER cfg) prompt v = (Inr response, v')"
    and critic: "\<And>prompt v. \<exists>response v'.
             call_agent env (CRITIC cfg) prompt v = (Inr response, v')
             \<and> \<not> contains_marker_any_case response"
    and budget: "MAX_ROUNDS cfg = 2"
  obtains w1 w2 w3 q1 q2 q3 v1 v2 v3 p1 c1 p2 h1 h2 where
    "run_proposer_turn env cfg (setup_debate_dir goal w0) = (Inr (), w1)"
    "run_critic_turn env cfg w1 = (Inr (), w2)"
    "run_proposer_turn env cfg w2 = (Inr (), w3)"
    "run_debate_loop env cfg (setup_debate_dir goal w0)
       = (Inr (), print ''  MAX ROUNDS (2) REACHED'' w3)"
    "get_state w3 = Inr CRITIC_TURN"
    "call_agent env (PROPOSER cfg) q1 (setup_debate_dir goal w0) = (Inr p1, v1)"
    "call_agent env (CRITIC cfg) q2 w1 = (Inr c1, v2)"
    "call_agent env (PROPOSER cfg) q3 w2 = (Inr p2, v3)"
    "h1 = ''# Debate History'' @ nl @ nl @ ''---'' @ nl
          @ turn_record ''PROPOSER'' 1 (now env (tick v1)) p1"
    "h2 = h1 @ turn_record ''CRITIC'' (int (py_count h1 ''## [PROPOSER]''))
          (now env (tick v2)) c1"
    "read_file ''history.md'' w3
       = Inr (h2 @ turn_record ''PROPOSER'' (int (py_count h2 ''## [PROPOSER]'') + 1)
                (now env (tick v3)) p2)"
    "spawned_agents (trace w3)
       = spawned_agents (trace w0) @ [PROPOSER cfg, CRITIC cfg, PROPOSER cfg]"
proof -
  let ?w = "setup_debate_dir goal w0"
  let ?h0 = "''# Debate History'' @ nl @ nl @ ''---'' @ nl"
  let ?P = "''## [PROPOSER]''"
  from setup_debate_dir_store [of goal w0] obtain d g p c where
    d: "debate_dir ?w = Some d" "d ''goal.md'' = Some g" "d ''proposer.md'' = Some p"
      "d ''critic.md'' = Some c" "d ''history.md'' = Some ?h0"
      "d ''state.md'' = Some ''PROPOSER_TURN''"
    by blast
  have trace_w: "trace ?w = trace w0"
    by (simp add: setup_debate_dir_def Let_def)
  have count0: "int (py_count ?h0 ?P) + 1 = 1"
    by (simp add: nl_def)
  have st0: "get_state ?w = Inr PROPOSER_TURN"
    using d by (intro get_state_eq [of _ d]) (simp_all add: State_value_def)
  \<comment> \<open>first proposer turn\<close>
  from build_proposer_prompt_ok [OF d(1,2,5,4)] obtain q1
    where q1: "build_proposer_prompt (int (py_count ?h0 ?P) + 1) ?w = Inr q1" by blast
  from proposer [of q1 ?w] obtain p1 v1
    where call1: "call_agent env (PROPOSER cfg) q1 ?w = (Inr p1, v1)" by blast
  define h1 where "h1 = ''# Debate History'' @ nl @ nl @ ''---'' @ nl
      @ turn_record ''PROPOSER'' 1 (now env (tick v1)) p1"
  define d1 where "d1 = d(''proposer.md'' \<mapsto> p1, ''history.md'' \<mapsto> h1,
      ''state.md'' \<mapsto> ''CRITIC_TURN'')"
  define w1 where "w1 = v1\<lparr>debate_dir := Some d1, tick := Suc (tick v1)\<rparr>"
  have turn1: "run_proposer_turn env cfg ?w = (Inr (), w1)"
    using run_proposer_turn_ok [OF d(1,5) q1 call1, unfolded count0]
    by (simp add: w1_def d1_def h1_def turn_record_def)
  have d1: "debate_dir w1 = Some d1" "d1 ''goal.md'' = Some g" "d1 ''history.md'' = Some h1"
      "d1 ''proposer.md'' = Some p1" "d1 ''critic.md'' = Some c"
      "d1 ''state.md'' = Some ''CRITIC_TURN''"
    using d by (simp_all add: w1_def d1_def)
  have st1: "get_state w1 = Inr CRITIC_TURN"
    using d1 by (intro get_state_eq [of _ d1]) (simp_all add: State_value_def)
  have agents1: "spawned_agents (trace w1) = spawned_agents (trace w0) @ [PROPOSER cfg]"
    using call_agent_agents [OF call1] by (simp add: w1_def trace_w)
  \<comment> \<open>critic turn\<close>
  from build_critic_prompt_ok [OF d1(1,2,3,4)] obtain q2
    where q2: "build_critic_prompt (int (py_count h1 ?P)) w1 = Inr q2" by blast
  from critic [of q2 w1] obtain c1 v2
    where call2: "call_agent env (CRITIC cfg) q2 w1 = (Inr c1, v2)"
      and quiet: "\<not> contains_marker_any_case c1" by blast
  define h2 where "h2 = h1 @ turn_record ''CRITIC'' (int (py_count h1 ?P)) (now env (tick v2)) c1"
  define d2 where "d2 = d1(''critic.md'' \<mapsto> c1, ''history.md'' \<mapsto> h2,
      ''state.md'' \<mapsto> ''PROPOSER_TURN'')"
  define w2 where "w2 = v2\<lparr>debate_dir := Some d2, tick := Suc (tick v2)\<rparr>"
  have turn2: "run_critic_turn env cfg w1 = (Inr (), w2)"
    using run_critic_turn_ok [OF d1(1,3) q2 call2] quiet
    by (simp add: w2_def d2_def h2_def turn_record_def marker_test)
  have d2: "debate_dir w2 = Some d2" "d2 ''goal.md'' = Some g" "d2 ''history.md'' = Some h2"
      "d2 ''critic.md'' = Some c1" "d2 ''state.md'' = Some ''PROPOSER_TURN''"
    using d1 by (simp_all add: w2_def d2_def)
  have st2: "get_state w2 = Inr PROPOSER_TURN"
    using d2 by (intro get_state_eq [of _ d2]) (simp_all add: State_value_def)
  have agents2: "spawned_agents (trace w2)
      = spawned_agents (trace w0) @ [PROPOSER cfg, CRITIC cfg]"
    using call_agent_agents [OF call2] agents1 by (simp add: w2_def)
  \<comment> \<open>second proposer turn\<close>
  from build_proposer_prompt_ok [OF d2(1,2,3,4)] obtain q3
    where q3: "build_proposer_prompt (int (py_count h2 ?P) + 1) w2 = Inr q3" by blast
  from proposer [of q3 w2] obtain p2 v3
    where call3: "call_agent env (PROPOSER cfg) q3 w2 = (Inr p2, v3)" by blast
  define h3 where "h3 = h2 @ turn_record ''PROPOSER'' (int (py_count h2 ?P) + 1) (now env (tick v3)) p2"
  define d3 where "d3 = d2(''proposer.md'' \<mapsto> p2, ''history.md'' \<mapsto> h3,
      ''state.md'' \<mapsto> ''CRITIC_TURN'')"
  define w3 where "w3 = v3\<lparr>debate_dir := Some d3, tick := Suc (tick v3)\<rparr>"
  have turn3: "run_proposer_turn env cfg w2 = (Inr (), w3)"
    using run_proposer_turn_ok [OF d2(1,3) q3 call3]
    by (simp add: w3_def d3_def h3_def turn_record_def)
  have d3: "debate_dir w3 = Some d3" "d3 ''history.md'' = Some h3"
      "d3 ''state.md'' = Some ''CRITIC_TURN''"
    by (simp_all add: w3_def d3_def)
  have st3: "get_state w3 = Inr CRITIC_TURN"
    using d3 by (intro get_state_eq [of _ d3]) (simp_all add: State_value_def)
  have agents3: "spawned_agents (trace w3)
      = spawned_agents (trace w0) @ [PROPOSER cfg, CRITIC cfg, PROPOSER cfg]"
    using call_agent_agents [OF call3] agents2 by (simp add: w3_def)
  have hist3: "read_file ''history.md'' w3 = Inr h3"
    using d3 by (simp add: read_file_def)
  have loop: "run_debate_loop env cfg ?w = (Inr (), print ''  MAX ROUNDS (2) REACHED'' w3)"
    by (rule debate_loop_two_rounds [OF budget st0 turn1 st1 turn2 st2 turn3])
  show thesis
    by (rule that [OF turn1 turn2 turn3 loop st3 call1 call2 call3 h1_def h2_def
          hist3 [unfolded h3_def] agents3])
qed

text \<open>
  The critic turn that follows the first proposal, for a proposer that says \<open>ok\<close> and a
  critic whose answer does not depend on the prompt: what the store holds afterwards.
\<close>

lemma critic_after_proposal:
  assumes proposer: "\<And>prompt w. fst (call_agent env ''claude'' prompt w) = Inr ''ok''"
    and critic: "\<And>prompt w. fst (call_agent env ''codex'' prompt w) = Inr critique"
    and clock: "\<And>t. now env t = ''2026-01-01 12:00''"
  shows "fst (run_critic_turn env default_config (after_proposal env)) = Inr ()"
    and "read_file ''critic.md'' (snd (run_critic_turn env default_config (after_proposal env)))
           = Inr critique"
    and "read_file ''state.md'' (snd (run_critic_turn env default_config (after_proposal env)))
           = Inr (if py_in ''CONSENSUS REACHED'' (py_upper critique)
                  then ''CONSENSUS'' else ''PROPOSER_TURN'')"
    and "read_file ''history.md'' (snd (run_critic_turn env default_config (after_proposal env)))
           = Inr (''# Debate History'' @ nl @ nl @ ''---'' @ nl
                  @ turn_record ''PROPOSER'' 1 ''2026-01-01 12:00'' ''ok''
                  @ turn_record ''CRITIC'' 1 ''2026-01-01 12:00'' critique)"
    and "read_file ''consensus.md'' (snd (run_critic_turn env default_config (after_proposal env)))
           = (if py_in ''CONSENSUS REACHED'' (py_upper critique)
              then Inr (''# Consensus Reached - Round 1'' @ nl @ nl @ critique)
              else Inl (FileNotFoundError ''debate/consensus.md''))"
proof -
  let ?h1 = "''# Debate History'' @ nl @ nl @ ''---'' @ nl @ nl
              @ ''## [PROPOSER] Round '' @ str_int 1 @ '' ('' @ ''2026-01-01 12:00'' @ '')''
              @ nl @ nl @ ''ok'' @ nl @ nl @ ''---'' @ nl"
  let ?d = "[''goal.md'' \<mapsto> ''# Goal'' @ nl @ nl @ ''pick a color'',
           ''state.md'' \<mapsto> ''PROPOSER_TURN'',
           ''proposer.md'' \<mapsto> ''# Proposal'' @ nl @ nl @ ''(Awaiting first proposal)'',
           ''critic.md'' \<mapsto> ''# Critique'' @ nl @ nl @ ''(No critique yet - this is Round 1)'',
           ''history.md'' \<mapsto> ''# Debate History'' @ nl @ nl @ ''---'' @ nl,
           ''proposer.md'' \<mapsto> ''ok'',
           ''history.md'' \<mapsto> ?h1,
           ''state.md'' \<mapsto> ''CRITIC_TURN'']"
  have store: "debate_dir (after_proposal env) = Some ?d"
    by (rule after_proposal_store [OF proposer clock])
  have g: "?d ''goal.md'' = Some (''# Goal'' @ nl @ nl @ ''pick a color'')"
    and h: "?d ''history.md'' = Some ?h1"
    and p: "?d ''proposer.md'' = Some ''ok''"
    by simp_all
  have agent: "\<And>prompt. fst (call_agent env (CRITIC default_config) prompt (after_proposal env))
      = Inr critique"
    by (simp add: default_config_def critic)
  have count: "int (py_count ?h1 ''## [PROPOSER]'') = 1"
    by (simp add: nl_def str_int_1)
  note eval = run_critic_turn_eval [OF store g h p agent clock, unfolded count]
  show "fst (run_critic_turn env default_config (after_proposal env)) = Inr ()"
    by (rule eval(1))
  show "read_file ''critic.md'' (snd (run_critic_turn env default_config (after_proposal env)))
           = Inr critique"
    by (simp add: read_file_def eval(2))
  show "read_file ''state.md'' (snd (run_critic_turn env default_config (after_proposal env)))
           = Inr (if py_in ''CONSENSUS REACHED'' (py_upper critique)
                  then ''CONSENSUS'' else ''PROPOSER_TURN'')"
    by (simp add: read_file_def eval(2))
  show "read_file ''history.md'' (snd (run_critic_turn env default_config (after_proposal env)))
           = Inr (''# Debate History'' @ nl @ nl @ ''---'' @ nl
                  @ turn_record ''PROPOSER'' 1 ''2026-01-01 12:00'' ''ok''
                  @ turn_record ''CRITIC'' 1 ''2026-01-01 12:00'' critique)"
    by (simp add: read_file_def eval(2) turn_record_def str_int_1)
  show "read_file ''consensus.md'' (snd (run_critic_turn env default_config (after_proposal env)))
           = (if py_in ''CONSENSUS REACHED'' (py_upper critique)
              then Inr (''# Consensus Reached - Round 1'' @ nl @ nl @ critique)
              else Inl (FileNotFoundError ''debate/consensus.md''))"
    by (simp add: read_file_def eval(2) str_int_1)
qed

lemma agreeing_marker:
  "py_in ''CONSENSUS REACHED'' (py_upper ''Verdict: consensus reached'')"
  by (simp add: py_upper_ascii is_ascii_def upper_char_def)

lemma long_s_marker:
  "py_in ''CONSENSUS REACHED'' (py_upper (''con'' @ [CHR 0xC5, CHR 0xBF] @ ''ensus reached''))"
proof -
  have "map_of upper_00B5 [CHR 0xC5, CHR 0xBF] = None"
    by (simp add: upper_00B5_def)
  moreover have "map_of upper_0123 [CHR 0xC5, CHR 0xBF] = Some ''S''"
    by (simp add: upper_0123_def)
  ultimately have "map_of unicode_upper [CHR 0xC5, CHR 0xBF] = Some ''S''"
    unfolding unicode_upper_def by (simp add: map_add_def)
  then show ?thesis
    by (simp add: py_upper.simps is_ascii_def utf8_len_def upper_char_def)
qed

lemma empty_marker: "\<not> py_in ''CONSENSUS REACHED'' (py_upper [])"
  by (simp add: py_upper.simps)

lemma agreeing_now: "now agreeing_env t = ''2026-01-01 12:00''"
  by (simp add: agreeing_env_def env_of_def)

lemma long_s_now: "now long_s_env t = ''2026-01-01 12:00''"
  by (simp add: long_s_env_def env_of_def)

lemma steady_now: "now steady_env t = ''2026-01-01 12:00''"
  by (simp add: steady_env_def env_of_def)

lemma crashing_now: "now crashing_codex_env t = ''2026-01-01 12:00''"
  by (simp add: crashing_codex_env_def env_of_def)

lemma quoting_now: "now quoting_env t = ''2026-01-01 12:00''"
  by (simp add: quoting_env_def env_of_def)

text \<open>
  A run with a budget of two rounds on the new session, for agents whose answers do not
  depend on the prompt and a critic (codex) that answers with the empty text.
\<close>

lemma read_file_print: "read_file name (print line w) = read_file name w"
  by (simp add: read_file_def print_def)

lemma get_state_print: "get_state (print line w) = get_state w"
  by (simp add: get_state_def read_file_print)

lemma three_turn_run:
  assumes proposer: "\<And>prompt v. fst (call_agent env ''claude'' prompt v) = Inr proposal"
    and critic: "\<And>prompt v. fst (call_agent env ''codex'' prompt v) = Inr []"
    and clock: "\<And>t. now env t = ts"
    and h1: "h1 = ''# Debate History'' @ nl @ nl @ ''---'' @ nl
                  @ turn_record ''PROPOSER'' 1 ts proposal"
    and h2: "h2 = h1 @ turn_record ''CRITIC'' (int (py_count h1 ''## [PROPOSER]'')) ts []"
  shows "fst (run_debate_loop env two_rounds new_session) = Inr ()
    \<and> get_state (snd (run_debate_loop env two_rounds new_session)) = Inr CRITIC_TURN
    \<and> read_file ''history.md'' (snd (run_debate_loop env two_rounds new_session))
         = Inr (h2 @ turn_record ''PROPOSER'' (int (py_count h2 ''## [PROPOSER]'') + 1)
                  ts proposal)
    \<and> spawned_agents (trace (snd (run_debate_loop env two_rounds new_session)))
         = [''claude'', ''codex'', ''claude'']
    \<and> last (trace (snd (run_debate_loop env two_rounds new_session)))
         = Print ''  MAX ROUNDS (2) REACHED''"
proof -
  have P: "\<exists>response v'. call_agent env (PROPOSER two_rounds) prompt v = (Inr response, v')"
    for prompt v
    using proposer [of prompt v]
    by (cases "call_agent env ''claude'' prompt v") (simp add: two_rounds_def)
  have C: "\<exists>response v'. call_agent env (CRITIC two_rounds) prompt v = (Inr response, v')
      \<and> \<not> contains_marker_any_case response" for prompt v
    using critic [of prompt v] empty_marker
    by (cases "call_agent env ''codex'' prompt v")
      (simp add: two_rounds_def marker_test [symmetric])
  have budget: "MAX_ROUNDS two_rounds = 2"
    by (simp add: two_rounds_def)
  show ?thesis
  proof (rule two_round_budget_steps [OF P C budget,
        of "Some (''# Goal'' @ nl @ nl @ ''pick a color'')" fresh_world])
    fix w1 w2 w3 q1 q2 q3 v1 v2 v3 p1 c1 p2 k1 k2
    assume loop: "run_debate_loop env two_rounds
          (setup_debate_dir (Some (''# Goal'' @ nl @ nl @ ''pick a color'')) fresh_world)
        = (Inr (), print ''  MAX ROUNDS (2) REACHED'' w3)"
      and st: "get_state w3 = Inr CRITIC_TURN"
      and call1: "call_agent env (PROPOSER two_rounds) q1
          (setup_debate_dir (Some (''# Goal'' @ nl @ nl @ ''pick a color'')) fresh_world)
        = (Inr p1, v1)"
      and call2: "call_agent env (CRITIC two_rounds) q2 w1 = (Inr c1, v2)"
      and call3: "call_agent env (PROPOSER two_rounds) q3 w2 = (Inr p2, v3)"
      and k1: "k1 = ''# Debate History'' @ nl @ nl @ ''---'' @ nl
          @ turn_record ''PROPOSER'' 1 (now env (tick v1)) p1"
      and k2: "k2 = k1 @ turn_record ''CRITIC'' (int (py_count k1 ''## [PROPOSER]''))
          (now env (tick v2)) c1"
      and hist: "read_file ''history.md'' w3
        = Inr (k2 @ turn_record ''PROPOSER'' (int (py_count k2 ''## [PROPOSER]'') + 1)
                 (now env (tick v3)) p2)"
      and agents: "spawned_agents (trace w3)
        = spawned_agents (trace fresh_world)
          @ [PROPOSER two_rounds, CRITIC two_rounds, PROPOSER two_rounds]"
    have loop': "run_debate_loop env two_rounds new_session
        = (Inr (), print ''  MAX ROUNDS (2) REACHED'' w3)"
      unfolding new_session_def by (rule loop)
    from call1 proposer [of q1 "setup_debate_dir (Some (''# Goal'' @ nl @ nl @ ''pick a color'')) fresh_world"]
    have p1: "p1 = proposal"
      by (simp add: two_rounds_def)
    from call3 proposer [of q3 w2] have p2: "p2 = proposal"
      by (simp add: two_rounds_def)
    from call2 critic [of q2 w1] have c1: "c1 = []"
      by (simp add: two_rounds_def)
    have k: "k1 = h1" "k2 = h2"
      by (simp_all only: k1 k2 h1 h2 p1 c1 clock)
    have hist': "read_file ''history.md'' w3
        = Inr (h2 @ turn_record ''PROPOSER'' (int (py_count h2 ''## [PROPOSER]'') + 1)
                 ts proposal)"
      using hist by (simp only: k p2 clock)
    have agents': "spawned_agents (trace w3) = [''claude'', ''codex'', ''claude'']"
      using agents by (simp add: fresh_world_def two_rounds_def)
    have trace': "trace (print ''  MAX ROUNDS (2) REACHED'' w3)
        = trace w3 @ [Print ''  MAX ROUNDS (2) REACHED'']"
      by (simp add: print_def)
    show ?thesis
      unfolding loop'
      by (simp add: get_state_print read_file_print st hist' agents' trace'
          spawned_agents_append)
  qed
qed

text \<open>
  The text of the two prompts when the three files they read exist, and what \<open>main\<close>
  does when it is asked to resume and there is no \<open>./debate\<close>.
\<close>

lemma build_proposer_prompt_text:
  assumes "read_file ''goal.md'' w = Inr goal" "read_file ''history.md'' w = Inr history"
    "read_file ''critic.md'' w = Inr critique"
  shows "build_proposer_prompt n w =
     Inr (PROPOSER_SYSTEM n
          @ nl @ nl @ ''---'' @ nl @ nl @ ''## GOAL'' @ nl @ nl
          @ goal
          @ nl @ nl @ ''## DEBATE HISTORY'' @ nl @ nl
          @ history
          @ nl @ nl @ ''## LATEST CRITIQUE'' @ nl @ nl
          @ critique
          @ nl @ nl @ ''---'' @ nl @ nl
          @ ''Write your proposal for Round '' @ str_int n @ ''.'')"
  using assms by (simp add: build_proposer_prompt_def)

lemma build_critic_prompt_text:
  assumes "read_file ''goal.md'' w = Inr goal" "read_file ''history.md'' w = Inr history"
    "read_file ''proposer.md'' w = Inr proposal"
  shows "build_critic_prompt n w =
     Inr (CRITIC_SYSTEM n
          @ nl @ nl @ ''---'' @ nl @ nl @ ''## GOAL'' @ nl @ nl
          @ goal
          @ nl @ nl @ ''## DEBATE HISTORY'' @ nl @ nl
          @ history
          @ nl @ nl @ ''## LATEST PROPOSAL'' @ nl @ nl
          @ proposal
          @ nl @ nl @ ''---'' @ nl @ nl
          @ ''Evaluate this proposal for Round '' @ str_int n @ ''.'')"
  using assms by (simp add: build_critic_prompt_def)

lemma new_session_reads:
  "read_file ''goal.md'' new_session = Inr (''# Goal'' @ nl @ nl @ ''pick a color'')"
  "read_file ''history.md'' new_session = Inr (''# Debate History'' @ nl @ nl @ ''---'' @ nl)"
  "read_file ''critic.md'' new_session
     = Inr (''# Critique'' @ nl @ nl @ ''(No critique yet - this is Round 1)'')"
  "read_file ''proposer.md'' new_session
     = Inr (''# Proposal'' @ nl @ nl @ ''(Awaiting first proposal)'')"
  by (simp_all add: read_file_def new_session_store)

lemma main_resume_without_session:
  assumes "args_resume a" "debate_dir w = None"
  shows "main env a w =
     (if (args_goal a = None \<or> args_goal a = Some [])
          \<and> (\<exists>path. args_goal_file a = Some path \<and> path \<noteq> [] \<and> files w path = None)
      then (Inl (FileNotFoundError (the (args_goal_file a))), w)
      else (Inr 1, print ''Error: No debate to resume. Start with --goal'' w))"
  using assms
  by (auto simp: main_def read_text_def Let_def split: option.splits sum.splits)

section \<open>Properties of the Agent Gateway\<close>

lemma apply_file_ops_untouched:
  "path \<notin> fst ` set ops \<Longrightarrow> apply_file_ops ops fs path = fs path"
  by (induction ops arbitrary: fs) auto

text \<open>
  Claim C5. An agent invocation that overruns the budget of 600 time units ends in
  \<open>TimeoutExpired\<close>, an exception of its own kind, and by the time it is raised the
  Gateway has sent \<open>SIGTERM\<close> to the process group of the process it started: the group
  whose id is the pid of that process, which \<open>start_new_session\<close> gave it for itself and
  its descendants. The theorem gives the whole effect of a call of either agent kind: the
  process is spawned, and the group is signalled exactly when the budget was overrun.
\<close>

theorem timeout_kills_process_group:
  assumes "agent = ''claude'' \<or> agent = ''codex''"
  shows "\<exists>pid argv.
           hd argv = agent \<and> pgid_of (snd (call_agent env agent prompt w)) pid = Some pid \<and>
           (if 600 < duration (behaviour env pid argv)
            then fst (call_agent env agent prompt w) = Inl TimeoutExpired \<and>
                 trace (snd (call_agent env agent prompt w))
                   = trace w @ [Spawned pid argv, Killpg pid SIGTERM]
            else fst (call_agent env agent prompt w) \<noteq> Inl TimeoutExpired \<and>
                 trace (snd (call_agent env agent prompt w)) = trace w @ [Spawned pid argv])"
  using assms
proof (elim disjE)
  assume "agent = ''claude''"
  then show ?thesis
    apply (intro exI [of _ "tick w"]
        exI [of _ "[''claude'', ''-p'', prompt, ''--dangerously-skip-permissions'']"])
    apply (simp add: call_agent_def call_claude_def Popen_def communicate_def getpgid_def
        killpg_def Let_def split: prod.splits sum.splits option.splits)
    done
next
  assume "agent = ''codex''"
  then show ?thesis
    apply (intro exI [of _ "Suc (tick w)"]
        exI [of _ "[''codex'', ''exec'', ''--dangerously-bypass-approvals-and-sandbox'',
                    ''-o'', tmp_name env (tick w), prompt]"])
    apply (simp add: call_agent_def call_codex_def NamedTemporaryFile_def Popen_def
        communicate_def getpgid_def killpg_def unlink_def Let_def
        split: prod.splits sum.splits option.splits)
    done
qed

theorem timeout_kills_process_group_witness:
  "fst (call_agent hanging_env ''codex'' ''Design a cache'' fresh_world) = Inl TimeoutExpired
   \<and> (\<exists>pid argv. trace (snd (call_agent hanging_env ''codex'' ''Design a cache'' fresh_world))
                    = [Spawned pid argv, Killpg pid SIGTERM])"
  using timeout_kills_process_group [of "''codex''" hanging_env "''Design a cache''" fresh_world]
  by (auto simp: hanging_env_def env_of_def fresh_world_def)

text \<open>
  Claim C8. When \<open>call_codex\<close> is left, by a return or by an exception, the temporary
  file whose path it handed to the process after \<open>-o\<close> does not exist any more. The
  statement has no condition on the process, so it covers a normal exit, a non-zero exit
  status and a timeout alike.
\<close>

theorem codex_unlinks_output_file:
  "Spawned (Suc (tick w))
      [''codex'', ''exec'', ''--dangerously-bypass-approvals-and-sandbox'',
       ''-o'', tmp_name env (tick w), prompt]
     \<in> set (trace (snd (call_codex env prompt w)))
   \<and> files (snd (call_codex env prompt w)) (tmp_name env (tick w)) = None"
  by (simp add: call_codex_def NamedTemporaryFile_def Popen_def communicate_def getpgid_def
      killpg_def unlink_def Let_def split: prod.splits sum.splits option.splits)

text \<open>
  Claim C10. Let \<open>f\<close> be the temporary file that \<open>call_codex\<close> creates, empty, and \<open>p\<close>
  the process it starts, which ends within the budget. If \<open>p\<close> never touches \<open>f\<close>, the
  call returns the empty text. In general it returns the stripped contents of \<open>f\<close> as
  \<open>p\<close> left it, and the stripped standard output only if \<open>p\<close> left no such file.
\<close>

theorem codex_output_source:
  assumes "f = tmp_name env (tick w)"
    and "p = behaviour env (Suc (tick w))
               [''codex'', ''exec'', ''--dangerously-bypass-approvals-and-sandbox'',
                ''-o'', f, prompt]"
    and "duration p \<le> 600"
  shows "(f \<notin> fst ` set (file_ops p) \<longrightarrow> fst (call_codex env prompt w) = Inr [])
       \<and> fst (call_codex env prompt w) =
           Inr (py_strip (case apply_file_ops (file_ops p) ((files w)(f \<mapsto> [])) f of
                            Some text \<Rightarrow> text | None \<Rightarrow> stdout p))"
  using assms
  by (auto simp add: call_codex_def NamedTemporaryFile_def Popen_def communicate_def
      getpgid_def killpg_def unlink_def Let_def apply_file_ops_untouched strip_eval
      split: prod.splits sum.splits option.splits)

theorem codex_output_source_witness:
  "stdout (behaviour steady_env 1
      [''codex'', ''exec'', ''--dangerously-bypass-approvals-and-sandbox'',
       ''-o'', ''/tmp/tmpq3x.txt'', ''Design a cache'']) = ''ok'' @ nl
   \<and> fst (call_codex steady_env ''Design a cache'' fresh_world) = Inr []"
  using codex_output_source [of "''/tmp/tmpq3x.txt''" steady_env fresh_world _ "''Design a cache''"]
  by (simp add: steady_env_def env_of_def exits_def fresh_world_def)

section \<open>Properties of the critic turn\<close>

text \<open>
  Claim C1. Take a critic turn that gets an output from its agent. If that output
  contains the consensus marker in some letter case, the state persisted by the turn is
  \<open>CONSENSUS\<close> and \<open>consensus.md\<close> holds a non-empty text; otherwise the state is
  \<open>PROPOSER_TURN\<close> and \<open>consensus.md\<close> reads as it did before the turn (absent if it
  was absent). Letter case is that of Unicode, as \<open>upper\<close> knows it: the marker written
  with a long s counts as the marker.
\<close>

theorem critic_turn_next_state:
  assumes "run_critic_turn env cfg w = (Inr u, w')"
  shows "\<exists>n prompt response w1.
           get_round w = Inr (n + 1) \<and>
           build_critic_prompt n w = Inr prompt \<and>
           call_agent env (CRITIC cfg) prompt w = (Inr response, w1) \<and>
           (if contains_marker_any_case response
            then get_state w' = Inr CONSENSUS \<and>
                 (\<exists>summary. read_file ''consensus.md'' w' = Inr summary \<and> summary \<noteq> [])
            else get_state w' = Inr PROPOSER_TURN \<and>
                 read_file ''consensus.md'' w' = read_file ''consensus.md'' w)"
proof -
  from run_critic_turn_store [OF assms] obtain d history prompt response w1 where
    d: "debate_dir w = Some d" "d ''history.md'' = Some history"
    and prompt: "build_critic_prompt (int (py_count history ''## [PROPOSER]'')) w = Inr prompt"
    and call: "call_agent env (CRITIC cfg) prompt w = (Inr response, w1)"
    and w': "debate_dir w' =
             Some (if py_in ''CONSENSUS REACHED'' (py_upper response)
                   then d(''critic.md'' \<mapsto> response,
                          ''history.md'' \<mapsto> history @ nl @ ''## [CRITIC] Round ''
                             @ str_int (int (py_count history ''## [PROPOSER]''))
                             @ '' ('' @ now env (tick w1) @ '')'' @ nl @ nl @ response
                             @ nl @ nl @ ''---'' @ nl,
                          ''state.md'' \<mapsto> ''CONSENSUS'',
                          ''consensus.md'' \<mapsto> ''# Consensus Reached - Round ''
                             @ str_int (int (py_count history ''## [PROPOSER]''))
                             @ nl @ nl @ response)
                   else d(''critic.md'' \<mapsto> response,
                          ''history.md'' \<mapsto> history @ nl @ ''## [CRITIC] Round ''
                             @ str_int (int (py_count history ''## [PROPOSER]''))
                             @ '' ('' @ now env (tick w1) @ '')'' @ nl @ nl @ response
                             @ nl @ nl @ ''---'' @ nl,
                          ''state.md'' \<mapsto> ''PROPOSER_TURN''))"
    by blast
  have round: "get_round w = Inr (int (py_count history ''## [PROPOSER]'') + 1)"
    using d by (simp add: get_round_def read_file_def)
  show ?thesis
  proof (cases "contains_marker_any_case response")
    case True
    with w' have "read_file ''state.md'' w' = Inr (State_value CONSENSUS)"
      by (simp add: marker_test read_file_def State_value_def)
    then have "get_state w' = Inr CONSENSUS"
      by (rule get_state_read)
    moreover from True w'
    have "\<exists>summary. read_file ''consensus.md'' w' = Inr summary \<and> summary \<noteq> []"
      by (simp add: marker_test read_file_def)
    ultimately show ?thesis using round prompt call True by auto
  next
    case False
    with w' have "read_file ''state.md'' w' = Inr (State_value PROPOSER_TURN)"
      by (simp add: marker_test read_file_def State_value_def)
    then have "get_state w' = Inr PROPOSER_TURN"
      by (rule get_state_read)
    moreover from False w' d
    have "read_file ''consensus.md'' w' = read_file ''consensus.md'' w"
      by (simp add: marker_test read_file_def)
    ultimately show ?thesis using round prompt call False by auto
  qed
qed

theorem critic_turn_next_state_witness:
  "get_state (snd (run_critic_turn agreeing_env default_config (after_proposal agreeing_env)))
     = Inr CONSENSUS
   \<and> get_state (snd (run_critic_turn steady_env default_config (after_proposal steady_env)))
     = Inr PROPOSER_TURN
   \<and> get_state (snd (run_critic_turn long_s_env default_config (after_proposal long_s_env)))
     = Inr CONSENSUS"
proof (intro conjI)
  let ?w = "after_proposal agreeing_env"
  let ?w' = "snd (run_critic_turn agreeing_env default_config ?w)"
  have run: "run_critic_turn agreeing_env default_config ?w = (Inr (), ?w')"
    using critic_after_proposal(1) [OF agreeing_claude agreeing_codex agreeing_now]
    by (simp add: prod_eq_iff)
  from critic_turn_next_state [OF run] obtain n prompt response w1 where
    call: "call_agent agreeing_env (CRITIC default_config) prompt ?w = (Inr response, w1)"
    and state: "if contains_marker_any_case response
       then get_state ?w' = Inr CONSENSUS \<and>
            (\<exists>summary. read_file ''consensus.md'' ?w' = Inr summary \<and> summary \<noteq> [])
       else get_state ?w' = Inr PROPOSER_TURN \<and>
            read_file ''consensus.md'' ?w' = read_file ''consensus.md'' ?w"
    by blast
  from call agreeing_codex [of prompt ?w] have "response = ''Verdict: consensus reached''"
    by (simp add: default_config_def)
  then have "contains_marker_any_case response"
    using agreeing_marker by (simp add: marker_test)
  with state show "get_state ?w' = Inr CONSENSUS"
    by simp
next
  let ?w = "after_proposal steady_env"
  let ?w' = "snd (run_critic_turn steady_env default_config ?w)"
  have run: "run_critic_turn steady_env default_config ?w = (Inr (), ?w')"
    using critic_after_proposal(1) [OF steady_claude steady_codex steady_now]
    by (simp add: prod_eq_iff)
  from critic_turn_next_state [OF run] obtain n prompt response w1 where
    call: "call_agent steady_env (CRITIC default_config) prompt ?w = (Inr response, w1)"
    and state: "if contains_marker_any_case response
       then get_state ?w' = Inr CONSENSUS \<and>
            (\<exists>summary. read_file ''consensus.md'' ?w' = Inr summary \<and> summary \<noteq> [])
       else get_state ?w' = Inr PROPOSER_TURN \<and>
            read_file ''consensus.md'' ?w' = read_file ''consensus.md'' ?w"
    by blast
  from call steady_codex [of prompt ?w] have "response = []"
    by (simp add: default_config_def)
  then have "\<not> contains_marker_any_case response"
    using empty_marker by (simp add: marker_test)
  with state show "get_state ?w' = Inr PROPOSER_TURN"
    by simp
next
  let ?w = "after_proposal long_s_env"
  let ?w' = "snd (run_critic_turn long_s_env default_config ?w)"
  have run: "run_critic_turn long_s_env default_config ?w = (Inr (), ?w')"
    using critic_after_proposal(1) [OF long_s_claude long_s_codex long_s_now]
    by (simp add: prod_eq_iff)
  from critic_turn_next_state [OF run] obtain n prompt response w1 where
    call: "call_agent long_s_env (CRITIC default_config) prompt ?w = (Inr response, w1)"
    and state: "if contains_marker_any_case response
       then get_state ?w' = Inr CONSENSUS \<and>
            (\<exists>summary. read_file ''consensus.md'' ?w' = Inr summary \<and> summary \<noteq> [])
       else get_state ?w' = Inr PROPOSER_TURN \<and>
            read_file ''consensus.md'' ?w' = read_file ''consensus.md'' ?w"
    by blast
  from call long_s_codex [of prompt ?w]
  have "response = ''con'' @ [CHR 0xC5, CHR 0xBF] @ ''ensus reached''"
    by (simp add: default_config_def)
  then have "contains_marker_any_case response"
    using long_s_marker by (simp add: marker_test)
  with state show "get_state ?w' = Inr CONSENSUS"
    by simp
qed

text \<open>
  Claim C3, as stated, at a concrete turn: the critic's output, which the turn stores
  in \<open>critic.md\<close>, is \<open>Verdict: consensus reached\<close>; the summary written to
  \<open>consensus.md\<close> is a different text, the same output under a heading.
\<close>

theorem consensus_summary_not_verbatim:
  "read_file ''critic.md''
       (snd (run_critic_turn agreeing_env default_config (after_proposal agreeing_env)))
     = Inr ''Verdict: consensus reached''
   \<and> read_file ''consensus.md''
       (snd (run_critic_turn agreeing_env default_config (after_proposal agreeing_env)))
     = Inr (''# Consensus Reached - Round 1'' @ nl @ nl @ ''Verdict: consensus reached'')
   \<and> read_file ''consensus.md''
       (snd (run_critic_turn agreeing_env default_config (after_proposal agreeing_env)))
     \<noteq> read_file ''critic.md''
       (snd (run_critic_turn agreeing_env default_config (after_proposal agreeing_env)))"
  using critic_after_proposal(2,5) [OF agreeing_claude agreeing_codex agreeing_now]
    agreeing_marker
  by simp

text \<open>
  Claim C3, amended. When the output of a critic turn contains the consensus marker, the
  summary written to \<open>consensus.md\<close> is the line \<open># Consensus Reached - Round n\<close> for the
  round \<open>n\<close> of the critique, an empty line, and then the critic's output verbatim, as
  the Gateway returned it (stripped of white space at both ends) and as \<open>critic.md\<close>
  holds it.
\<close>

theorem consensus_summary_content:
  assumes "run_critic_turn env cfg w = (Inr u, w')"
  shows "\<exists>n prompt response w1.
           get_round w = Inr (n + 1) \<and>
           build_critic_prompt n w = Inr prompt \<and>
           call_agent env (CRITIC cfg) prompt w = (Inr response, w1) \<and>
           read_file ''critic.md'' w' = Inr response \<and>
           (contains_marker_any_case response \<longrightarrow>
              read_file ''consensus.md'' w'
                = Inr (''# Consensus Reached - Round '' @ str_int n @ nl @ nl @ response))"
proof -
  from run_critic_turn_store [OF assms] obtain d history prompt response w1 where
    d: "debate_dir w = Some d" "d ''history.md'' = Some history"
    and prompt: "build_critic_prompt (int (py_count history ''## [PROPOSER]'')) w = Inr prompt"
    and call: "call_agent env (CRITIC cfg) prompt w = (Inr response, w1)"
    and w': "debate_dir w' =
             Some (if py_in ''CONSENSUS REACHED'' (py_upper response)
                   then d(''critic.md'' \<mapsto> response,
                          ''history.md'' \<mapsto> history @ nl @ ''## [CRITIC] Round ''
                             @ str_int (int (py_count history ''## [PROPOSER]''))
                             @ '' ('' @ now env (tick w1) @ '')'' @ nl @ nl @ response
                             @ nl @ nl @ ''---'' @ nl,
                          ''state.md'' \<mapsto> ''CONSENSUS'',
                          ''consensus.md'' \<mapsto> ''# Consensus Reached - Round ''
                             @ str_int (int (py_count history ''## [PROPOSER]''))
                             @ nl @ nl @ response)
                   else d(''critic.md'' \<mapsto> response,
                          ''history.md'' \<mapsto> history @ nl @ ''## [CRITIC] Round ''
                             @ str_int (int (py_count history ''## [PROPOSER]''))
                             @ '' ('' @ now env (tick w1) @ '')'' @ nl @ nl @ response
                             @ nl @ nl @ ''---'' @ nl,
                          ''state.md'' \<mapsto> ''PROPOSER_TURN''))"
    by blast
  let ?n = "int (py_count history ''## [PROPOSER]'')"
  have round: "get_round w = Inr (?n + 1)"
    using d by (simp add: get_round_def read_file_def)
  have latest: "read_file ''critic.md'' w' = Inr response"
    using w' by (simp add: read_file_def)
  have summary: "contains_marker_any_case response \<longrightarrow>
      read_file ''consensus.md'' w'
        = Inr (''# Consensus Reached - Round '' @ str_int ?n @ nl @ nl @ response)"
    using w' by (simp add: read_file_def marker_test)
  from round prompt call latest summary show ?thesis by blast
qed

theorem consensus_summary_content_witness:
  "\<exists>n. read_file ''consensus.md''
         (snd (run_critic_turn agreeing_env default_config (after_proposal agreeing_env)))
       = Inr (''# Consensus Reached - Round '' @ str_int n @ nl @ nl
              @ ''Verdict: consensus reached'')"
proof -
  let ?w = "after_proposal agreeing_env"
  let ?w' = "snd (run_critic_turn agreeing_env default_config ?w)"
  have run: "run_critic_turn agreeing_env default_config ?w = (Inr (), ?w')"
    using critic_after_proposal(1) [OF agreeing_claude agreeing_codex agreeing_now]
    by (simp add: prod_eq_iff)
  from consensus_summary_content [OF run] obtain n prompt response w1 where
    call: "call_agent agreeing_env (CRITIC default_config) prompt ?w = (Inr response, w1)"
    and summary: "contains_marker_any_case response \<longrightarrow>
      read_file ''consensus.md'' ?w'
        = Inr (''# Consensus Reached - Round '' @ str_int n @ nl @ nl @ response)"
    by blast
  from call agreeing_codex [of prompt ?w]
  have response: "response = ''Verdict: consensus reached''"
    by (simp add: default_config_def)
  then have "contains_marker_any_case response"
    using agreeing_marker by (simp add: marker_test)
  with summary response show ?thesis by blast
qed

text \<open>
  Claim C4 at a critic turn whose agent, codex, exits with status 1 and has written
  nothing: the call is not treated as failed. The turn returns normally; the empty output
  becomes the latest critique, a Turn Record for it is appended to the transcript, and
  the state moves on from \<open>CRITIC_TURN\<close> to \<open>PROPOSER_TURN\<close>.
\<close>

theorem codex_exit_status_ignored:
  "returncode (behaviour crashing_codex_env 3 [''codex'', ''exec'']) = 1
   \<and> get_state (after_proposal crashing_codex_env) = Inr CRITIC_TURN
   \<and> fst (run_critic_turn crashing_codex_env default_config (after_proposal crashing_codex_env))
       = Inr ()
   \<and> read_file ''critic.md''
       (snd (run_critic_turn crashing_codex_env default_config
          (after_proposal crashing_codex_env))) = Inr []
   \<and> get_state
       (snd (run_critic_turn crashing_codex_env default_config
          (after_proposal crashing_codex_env))) = Inr PROPOSER_TURN
   \<and> read_file ''history.md''
       (snd (run_critic_turn crashing_codex_env default_config
          (after_proposal crashing_codex_env)))
       = Inr (''# Debate History'' @ nl @ nl @ ''---'' @ nl
              @ turn_record ''PROPOSER'' 1 ''2026-01-01 12:00'' ''ok''
              @ turn_record ''CRITIC'' 1 ''2026-01-01 12:00'' [])"
proof -
  let ?w = "after_proposal crashing_codex_env"
  let ?w' = "snd (run_critic_turn crashing_codex_env default_config ?w)"
  note turn = critic_after_proposal [OF crashing_claude crashing_codex crashing_now]
  have "returncode (behaviour crashing_codex_env 3 [''codex'', ''exec'']) = 1"
    by (simp add: crashing_codex_env_def env_of_def exits_def)
  moreover have "get_state ?w = Inr CRITIC_TURN"
    using after_proposal_store [OF crashing_claude crashing_now]
    by (simp add: get_state_def read_file_def strip_eval State_of_def)
  moreover have "read_file ''state.md'' ?w' = Inr (State_value PROPOSER_TURN)"
    using turn(3) empty_marker by (simp add: State_value_def)
  then have "get_state ?w' = Inr PROPOSER_TURN"
    by (rule get_state_read)
  ultimately show ?thesis
    using turn(1,2,4) by simp
qed

section \<open>Properties of the orchestration loop\<close>




text \<open>
  Claim C6 on a run in which the proposer's output quotes a heading of the transcript:
  a new session, a budget of two rounds. \<open>get_round\<close> counts the quoted heading as a
  Turn Record, so the critique that answers the proposal of round 1 is recorded under
  round 2, and the next proposal under round 3: the proposer's rounds are 1 and 3.
\<close>

theorem quoted_heading_shifts_rounds:
  "fst (run_debate_loop quoting_env two_rounds new_session) = Inr ()
   \<and> read_file ''history.md'' (snd (run_debate_loop quoting_env two_rounds new_session))
       = Inr (''# Debate History'' @ nl @ nl @ ''---'' @ nl
              @ turn_record ''PROPOSER'' 1 ''2026-01-01 12:00''
                  ''Keep the plan under ## [PROPOSER] above.''
              @ turn_record ''CRITIC'' 2 ''2026-01-01 12:00'' []
              @ turn_record ''PROPOSER'' 3 ''2026-01-01 12:00''
                  ''Keep the plan under ## [PROPOSER] above.'')"
proof -
  let ?ts = "''2026-01-01 12:00''"
  let ?q = "''Keep the plan under ## [PROPOSER] above.''"
  let ?h1 = "''# Debate History'' @ nl @ nl @ ''---'' @ nl @ turn_record ''PROPOSER'' 1 ?ts ?q"
  have count1: "int (py_count ?h1 ''## [PROPOSER]'') = 2"
    by (simp add: turn_record_def nl_def str_int_1)
  have count2: "int (py_count (?h1 @ turn_record ''CRITIC'' 2 ?ts []) ''## [PROPOSER]'') + 1 = 3"
    by (simp add: turn_record_def nl_def str_int_1 str_int_2)
  note run = three_turn_run [OF quoting_claude quoting_codex quoting_now refl refl,
      unfolded count1, unfolded count2]
  from run show ?thesis
    by (simp only: append_assoc)
qed

section \<open>Properties of the Prompt Builder\<close>

text \<open>
  Claim C7, as stated, at the first proposer prompt of the new session: the prompt is not
  the instruction block, the goal, the transcript, the latest critique and the closing
  directive put one after the other.
\<close>

theorem prompt_is_not_plain_concatenation:
  "build_proposer_prompt 1 new_session
     \<noteq> Inr (PROPOSER_SYSTEM 1
            @ (''# Goal'' @ nl @ nl @ ''pick a color'')
            @ (''# Debate History'' @ nl @ nl @ ''---'' @ nl)
            @ (''# Critique'' @ nl @ nl @ ''(No critique yet - this is Round 1)'')
            @ ''Write your proposal for Round 1.'')"
  by (simp add: build_proposer_prompt_text [OF new_session_reads(1,2,3)] nl_def)

text \<open>
  Claim C7, amended. For either role and every round, when the store holds the goal, the
  transcript and the latest output of the other role, the prompt is exactly: the
  instruction block of the role with the round filled in, a rule and the heading
  \<open>## GOAL\<close>, the goal, the heading \<open>## DEBATE HISTORY\<close>, the whole transcript, the
  heading \<open>## LATEST CRITIQUE\<close> (for the critic \<open>## LATEST PROPOSAL\<close>), the latest
  output of the other role, a rule, and the directive that names the round; every
  separator is the fixed text shown. The prompt is a function of those three artifacts
  and the round alone: two stores that agree on them give the same prompt (or fail alike),
  whatever else differs.
\<close>

theorem prompt_structure:
  assumes "read_file ''goal.md'' w = Inr goal" "read_file ''history.md'' w = Inr history"
  shows "(read_file ''critic.md'' w = Inr critique \<longrightarrow>
          build_proposer_prompt n w =
            Inr (PROPOSER_SYSTEM n
                 @ nl @ nl @ ''---'' @ nl @ nl @ ''## GOAL'' @ nl @ nl
                 @ goal
                 @ nl @ nl @ ''## DEBATE HISTORY'' @ nl @ nl
                 @ history
                 @ nl @ nl @ ''## LATEST CRITIQUE'' @ nl @ nl
                 @ critique
                 @ nl @ nl @ ''---'' @ nl @ nl
                 @ ''Write your proposal for Round '' @ str_int n @ ''.''))
       \<and> (read_file ''proposer.md'' w = Inr proposal \<longrightarrow>
          build_critic_prompt n w =
            Inr (CRITIC_SYSTEM n
                 @ nl @ nl @ ''---'' @ nl @ nl @ ''## GOAL'' @ nl @ nl
                 @ goal
                 @ nl @ nl @ ''## DEBATE HISTORY'' @ nl @ nl
                 @ history
                 @ nl @ nl @ ''## LATEST PROPOSAL'' @ nl @ nl
                 @ proposal
                 @ nl @ nl @ ''---'' @ nl @ nl
                 @ ''Evaluate this proposal for Round '' @ str_int n @ ''.''))
       \<and> (\<forall>w'. read_file ''goal.md'' w' = read_file ''goal.md'' w
              \<and> read_file ''history.md'' w' = read_file ''history.md'' w
              \<and> read_file ''critic.md'' w' = read_file ''critic.md'' w
              \<longrightarrow> build_proposer_prompt n w' = build_proposer_prompt n w)
       \<and> (\<forall>w'. read_file ''goal.md'' w' = read_file ''goal.md'' w
              \<and> read_file ''history.md'' w' = read_file ''history.md'' w
              \<and> read_file ''proposer.md'' w' = read_file ''proposer.md'' w
              \<longrightarrow> build_critic_prompt n w' = build_critic_prompt n w)"
  using assms
  by (auto simp: build_proposer_prompt_text build_critic_prompt_text
      build_proposer_prompt_def build_critic_prompt_def)

theorem prompt_structure_witness:
  "build_critic_prompt 1 new_session =
     Inr (CRITIC_SYSTEM 1
          @ nl @ nl @ ''---'' @ nl @ nl @ ''## GOAL'' @ nl @ nl
          @ (''# Goal'' @ nl @ nl @ ''pick a color'')
          @ nl @ nl @ ''## DEBATE HISTORY'' @ nl @ nl
          @ (''# Debate History'' @ nl @ nl @ ''---'' @ nl)
          @ nl @ nl @ ''## LATEST PROPOSAL'' @ nl @ nl
          @ (''# Proposal'' @ nl @ nl @ ''(Awaiting first proposal)'')
          @ nl @ nl @ ''---'' @ nl @ nl
          @ ''Evaluate this proposal for Round '' @ str_int 1 @ ''.'')
   \<and> build_proposer_prompt 1 (print ''hello'' new_session)
       = build_proposer_prompt 1 new_session"
  using prompt_structure [OF new_session_reads(1,2),
      of "''# Critique'' @ nl @ nl @ ''(No critique yet - this is Round 1)''" 1
         "''# Proposal'' @ nl @ nl @ ''(Awaiting first proposal)''"]
    new_session_reads(3,4)
  by (simp add: read_file_print)

section \<open>Properties of the entry point\<close>

text \<open>
  Claim C9, as stated, at the command line \<open>--resume --goal-file goal.txt\<close> on a machine
  with neither \<open>./debate\<close> nor \<open>goal.txt\<close>: the run ends in the \<open>FileNotFoundError\<close> of
  reading the goal file, and nothing was reported about the missing session (the trace is
  still empty).
\<close>

theorem resume_with_missing_goal_file:
  "main steady_env resume_with_goal_file_args fresh_world
     = (Inl (FileNotFoundError ''goal.txt''), fresh_world)
   \<and> trace fresh_world = []"
  by (simp add: main_resume_without_session resume_with_goal_file_args_def fresh_world_def)

text \<open>
  Claim C9, amended. If resume is requested when \<open>./debate\<close> does not exist, the
  orchestration loop never starts (no agent is invoked, and the outcome is the same in
  every environment) and no file is created: \<open>./debate\<close> still does not exist and the
  other files are as before. The run ends with exit status 1 after reporting
  \<open>Error: No debate to resume. Start with --goal\<close>, except when \<open>main\<close>, which resolves
  the goal before it looks at \<open>--resume\<close>, fails to read a goal file named on the command
  line: then that \<open>FileNotFoundError\<close> is what ends the run.
\<close>

theorem resume_without_session:
  assumes "args_resume a" "debate_dir w = None"
  shows "debate_dir (snd (main env a w)) = None
       \<and> files (snd (main env a w)) = files w
       \<and> spawned_agents (trace (snd (main env a w))) = spawned_agents (trace w)
       \<and> (\<forall>env'. main env' a w = main env a w)
       \<and> main env a w =
           (if (args_goal a = None \<or> args_goal a = Some [])
                \<and> (\<exists>path. args_goal_file a = Some path \<and> path \<noteq> [] \<and> files w path = None)
            then (Inl (FileNotFoundError (the (args_goal_file a))), w)
            else (Inr 1, print ''Error: No debate to resume. Start with --goal'' w))"
proof -
  note run = main_resume_without_session [OF assms]
  have "debate_dir (snd (main env a w)) = None"
    using assms(2) by (simp add: run print_def)
  moreover have "files (snd (main env a w)) = files w"
    by (simp add: run print_def)
  moreover have "spawned_agents (trace (snd (main env a w))) = spawned_agents (trace w)"
    by (simp add: run print_def spawned_agents_append)
  moreover have "\<forall>env'. main env' a w = main env a w"
    by (simp only: run) simp
  ultimately show ?thesis
    using run [of env] by blast
qed

theorem resume_without_session_witness:
  "main steady_env resume_args fresh_world
     = (Inr 1, print ''Error: No debate to resume. Start with --goal'' fresh_world)
   \<and> debate_dir (snd (main steady_env resume_args fresh_world)) = None"
proof -
  have resume: "args_resume resume_args" and absent: "debate_dir fresh_world = None"
    by (simp_all add: resume_args_def fresh_world_def)
  note outcome = resume_without_session [OF resume absent, of steady_env]
  from outcome have store: "debate_dir (snd (main steady_env resume_args fresh_world)) = None"
    by (rule conjunct1)
  from outcome have "main steady_env resume_args fresh_world =
      (if (args_goal resume_args = None \<or> args_goal resume_args = Some [])
           \<and> (\<exists>path. args_goal_file resume_args = Some path \<and> path \<noteq> []
                \<and> files fresh_world path = None)
       then (Inl (FileNotFoundError (the (args_goal_file resume_args))), fresh_world)
       else (Inr 1, print ''Error: No debate to resume. Start with --goal'' fresh_world))"
    by (elim conjE)
  then have "main steady_env resume_args fresh_world
      = (Inr 1, print ''Error: No debate to resume. Start with --goal'' fresh_world)"
    by (simp add: resume_args_def)
  with store show ?thesis by (rule conjI [rotated])
qed

end
